theory Spec2Isabelle
  imports Complex_Main
begin

section \<open>Tensors, sparse tensors and errors\<close>

text \<open>
  The program is \<^verbatim>\<open>example/mnist/mnist_qat.py\<close>: a sparse convolutional classifier
  for 28 x 28 digit images and its post-training quantization run. Tensor elements are
  idealised as real numbers. A tensor is its shape together with its nested rows; a
  PyTorch tensor is always rectangular, which the predicates \<open>wf_tensor2\<close> and
  \<open>wf_tensor4\<close> say of the model's values.
\<close>

record 'a tensor2 =
  ncols :: nat
  rows :: "'a list list"

record 'a tensor4 =
  shape4 :: "nat \<times> nat \<times> nat \<times> nat"
  data4 :: "'a list list list list"

definition wf_tensor2 :: "'a tensor2 \<Rightarrow> bool" where
  "wf_tensor2 t = list_all (\<lambda>r. length r = ncols t) (rows t)"

definition wf_tensor4 :: "'a tensor4 \<Rightarrow> bool" where
  "wf_tensor4 t =
     (case shape4 t of (n, h, w, c) \<Rightarrow>
        length (data4 t) = n \<and>
        list_all (\<lambda>img. length img = h \<and>
          list_all (\<lambda>row. length row = w \<and> list_all (\<lambda>px. length px = c) row) img)
          (data4 t))"

text \<open>A coordinate is \<open>(batch_index, y, x)\<close>, one row of the integer index tensor.\<close>

type_synonym coord = "int \<times> int \<times> int"

record 'a SparseConvTensor =
  features :: "'a tensor2"
  indices :: "coord list"
  spatial_shape :: "int \<times> int"
  batch_size :: int

datatype error =
    ShapeMismatch
  | DuplicateCoordinate
  | CoordinateOutOfRange
  | TypeError
  | AssertionError
  | ValueError
  | RuntimeError

section \<open>Sparsify and densify\<close>

text \<open>
  Modelled from the spec: \<^verbatim>\<open>spconv.SparseConvTensor.from_dense\<close> is code of the
  repository's library that the example imports. Given a dense batch of shape
  \<open>[batch_size, H, W, channels]\<close> it produces, in row-major order, the coordinate of
  every site that holds a value different from zero, and that site's feature vector.
\<close>

definition active_sites :: "'a::zero tensor4 \<Rightarrow> (nat \<times> nat \<times> nat) list" where
  "active_sites t =
     (case shape4 t of (n, h, w, c) \<Rightarrow>
        filter (\<lambda>(b, y, x). list_ex (\<lambda>v. v \<noteq> 0) (data4 t ! b ! y ! x))
          (List.product [0..<n] (List.product [0..<h] [0..<w])))"

definition from_dense :: "'a::zero tensor4 \<Rightarrow> 'a SparseConvTensor" where
  "from_dense t =
     (case shape4 t of (n, h, w, c) \<Rightarrow>
        \<lparr>features = \<lparr>ncols = c, rows = map (\<lambda>(b, y, x). data4 t ! b ! y ! x) (active_sites t)\<rparr>,
         indices = map (\<lambda>(b, y, x). (int b, int y, int x)) (active_sites t),
         spatial_shape = (int h, int w),
         batch_size = int n\<rparr>)"

text \<open>
  Modelled from the spec: \<^verbatim>\<open>spconv.ToDense\<close> (densification) scatters the features
  into a zero-initialized dense tensor of shape \<open>[batch_size, H, W, channels]\<close> indexed by
  the coordinates; two equal coordinates are the error "duplicate coordinate". The spec
  names no error for a feature tensor whose row count differs from the coordinates' or
  for a coordinate outside the tensor; the scatter cannot be carried out there, and the
  model returns \<open>ShapeMismatch\<close> and \<open>CoordinateOutOfRange\<close>.
\<close>

definition zeros4 :: "nat \<Rightarrow> nat \<Rightarrow> nat \<Rightarrow> nat \<Rightarrow> 'a::zero list list list list" where
  "zeros4 n h w c = replicate n (replicate h (replicate w (replicate c 0)))"

definition put :: "coord \<times> 'a list \<Rightarrow> 'a list list list list \<Rightarrow> 'a list list list list" where
  "put kv t =
     (case kv of ((b, y, x), f) \<Rightarrow>
        t[nat b := (t ! nat b)[nat y := (t ! nat b ! nat y)[nat x := f]]])"

definition scatter :: "(coord \<times> 'a list) list \<Rightarrow> 'a list list list list \<Rightarrow> 'a list list list list" where
  "scatter kvs t = fold put kvs t"

definition in_range :: "nat \<Rightarrow> nat \<Rightarrow> nat \<Rightarrow> coord \<Rightarrow> bool" where
  "in_range n h w k =
     (case k of (b, y, x) \<Rightarrow>
        0 \<le> b \<and> b < int n \<and> 0 \<le> y \<and> y < int h \<and> 0 \<le> x \<and> x < int w)"

definition dense :: "'a::zero SparseConvTensor \<Rightarrow> error + 'a tensor4" where
  "dense x =
     (case spatial_shape x of (H, W) \<Rightarrow>
        let n = nat (batch_size x); h = nat H; w = nat W; c = ncols (features x) in
        if \<not> distinct (indices x) then Inl DuplicateCoordinate
        else if length (rows (features x)) \<noteq> length (indices x) then Inl ShapeMismatch
        else if \<not> list_all (in_range n h w) (indices x) then Inl CoordinateOutOfRange
        else Inr \<lparr>shape4 = (n, h, w, c),
                  data4 = scatter (zip (indices x) (rows (features x))) (zeros4 n h w c)\<rparr>)"


section \<open>Sparse convolution\<close>

record conv_cfg =
  in_channels :: nat
  out_channels :: nat
  conv_kernel_size :: int
  conv_stride :: int
  conv_padding :: int
  conv_groups :: nat

text \<open>
  A parameter tensor is modelled by its indexing function: a convolution weight by
  \<open>w ky kx ci co\<close> (kernel row, kernel column, input channel within the group, output
  channel), a per-channel vector by \<open>v c\<close>.
\<close>

type_synonym weight = "int \<Rightarrow> int \<Rightarrow> nat \<Rightarrow> nat \<Rightarrow> real"
type_synonym vec = "nat \<Rightarrow> real"

text \<open>
  Modelled from the spec: the output extent of a strided stage,
  \<open>H' = floor((H + 2*padding - kernel_size)/stride) + 1\<close>. Integer \<open>div\<close> rounds towards
  minus infinity, as Python's \<^verbatim>\<open>//\<close> does.
\<close>

definition conv_out_size :: "int \<Rightarrow> int \<Rightarrow> int \<Rightarrow> int \<Rightarrow> int" where
  "conv_out_size extent k s p = (extent + 2 * p - k) div s + 1"

definition kernel_offsets :: "int \<Rightarrow> (int \<times> int) list" where
  "kernel_offsets k = List.product [0..k - 1] [0..k - 1]"

text \<open>
  Modelled from the spec: the output sites of a strided stage are the sites of the output
  grid \<open>(H', W')\<close> that have at least one active input in their receptive field. Input
  \<open>(b, y, x)\<close> lies under kernel offset \<open>(ky, kx)\<close> of output \<open>(b, oy, ox)\<close> when
  \<open>y = oy * stride - padding + ky\<close> and \<open>x = ox * stride - padding + kx\<close>.
\<close>

definition out_positions :: "conv_cfg \<Rightarrow> int \<times> int \<Rightarrow> coord \<Rightarrow> coord list" where
  "out_positions cfg out_shape i =
     (case (out_shape, i) of ((H', W'), (b, y, x)) \<Rightarrow>
        let s = conv_stride cfg; p = conv_padding cfg in
        map (\<lambda>(ky, kx). (b, (y + p - ky) div s, (x + p - kx) div s))
          (filter (\<lambda>(ky, kx).
               (y + p - ky) mod s = 0 \<and> (x + p - kx) mod s = 0 \<and>
               0 \<le> (y + p - ky) div s \<and> (y + p - ky) div s < H' \<and>
               0 \<le> (x + p - kx) div s \<and> (x + p - kx) div s < W')
             (kernel_offsets (conv_kernel_size cfg))))"

definition strided_out_indices :: "conv_cfg \<Rightarrow> int \<times> int \<Rightarrow> coord list \<Rightarrow> coord list" where
  "strided_out_indices cfg out_shape idx = remdups (concat (map (out_positions cfg out_shape) idx))"

text \<open>
  Modelled from the spec: the feature of an output site gathers the features of the active
  inputs in its receptive field (inactive sites contribute nothing) and applies the
  convolution weights, group by group, plus the bias when the layer has one.
\<close>

definition conv_feature ::
  "conv_cfg \<Rightarrow> int \<Rightarrow> weight \<Rightarrow> vec option \<Rightarrow> (coord \<times> real list) list \<Rightarrow> coord \<Rightarrow> real list" where
  "conv_feature cfg s w bias sites out =
     (case out of (b, oy, ox) \<Rightarrow>
        let p = conv_padding cfg;
            in_g = in_channels cfg div conv_groups cfg;
            out_g = out_channels cfg div conv_groups cfg in
        map (\<lambda>co.
               (\<Sum>(ky, kx) \<leftarrow> kernel_offsets (conv_kernel_size cfg).
                  \<Sum>((b', y, x), f) \<leftarrow> sites.
                     if b' = b \<and> y = oy * s - p + ky \<and> x = ox * s - p + kx
                     then (\<Sum>ci \<leftarrow> [0..<in_g]. f ! ((co div out_g) * in_g + ci) * w ky kx ci co)
                     else 0)
               + (case bias of None \<Rightarrow> 0 | Some bv \<Rightarrow> bv co))
          [0..<out_channels cfg])"

text \<open>
  Modelled from the spec: a stage fails with \<open>ShapeMismatch\<close> if \<open>in_channels\<close> does not
  match the view's feature width, or if the spatial shape is below
  \<open>kernel_size - padding\<close>. In submanifold mode the output occupies exactly the input's
  coordinates and spatial shape; in strided mode the output grid follows
  \<open>conv_out_size\<close>.
\<close>

definition conv_shape_ok :: "conv_cfg \<Rightarrow> real SparseConvTensor \<Rightarrow> bool" where
  "conv_shape_ok cfg x =
     (case spatial_shape x of (H, W) \<Rightarrow>
        ncols (features x) = in_channels cfg \<and>
        \<not> H < conv_kernel_size cfg - conv_padding cfg \<and>
        \<not> W < conv_kernel_size cfg - conv_padding cfg)"

definition SubMConv2d_forward ::
  "conv_cfg \<Rightarrow> weight \<Rightarrow> vec option \<Rightarrow> real SparseConvTensor \<Rightarrow> error + real SparseConvTensor" where
  "SubMConv2d_forward cfg w bias x =
     (if \<not> conv_shape_ok cfg x then Inl ShapeMismatch
      else Inr \<lparr>features = \<lparr>ncols = out_channels cfg,
                   rows = map (conv_feature cfg 1 w bias (zip (indices x) (rows (features x))))
                            (indices x)\<rparr>,
                indices = indices x,
                spatial_shape = spatial_shape x,
                batch_size = batch_size x\<rparr>)"

definition SparseConv2d_forward ::
  "conv_cfg \<Rightarrow> weight \<Rightarrow> vec option \<Rightarrow> real SparseConvTensor \<Rightarrow> error + real SparseConvTensor" where
  "SparseConv2d_forward cfg w bias x =
     (if \<not> conv_shape_ok cfg x then Inl ShapeMismatch
      else
        (case spatial_shape x of (H, W) \<Rightarrow>
           let k = conv_kernel_size cfg; s = conv_stride cfg; p = conv_padding cfg;
               out_shape = (conv_out_size H k s p, conv_out_size W k s p);
               out_idx = strided_out_indices cfg out_shape (indices x)
           in Inr \<lparr>features = \<lparr>ncols = out_channels cfg,
                        rows = map (conv_feature cfg s w bias (zip (indices x) (rows (features x))))
                                 out_idx\<rparr>,
                     indices = out_idx,
                     spatial_shape = out_shape,
                     batch_size = batch_size x\<rparr>))"

section \<open>Dense layers of PyTorch\<close>

text \<open>
  \<^verbatim>\<open>nn.BatchNorm1d\<close> on a feature tensor \<open>[n, C]\<close>. In training mode it normalizes
  with the batch statistics and moves the running statistics towards them by
  \<open>momentum\<close>; in evaluation mode it normalizes with the running statistics and changes
  nothing. PyTorch raises \<^verbatim>\<open>ValueError\<close> in training mode for a single row; for no row
  its batch statistics are not numbers, which the real-valued model cannot express, and
  the model raises there as well.
\<close>

record bn =
  num_features :: nat
  momentum :: real
  eps :: real
  bn_weight :: vec
  bn_bias :: vec
  running_mean :: vec
  running_var :: vec
  num_batches_tracked :: nat

definition batch_mean :: "real list list \<Rightarrow> nat \<Rightarrow> real" where
  "batch_mean rs c = (\<Sum>r \<leftarrow> rs. r ! c) / real (length rs)"

definition batch_sq_dev :: "real list list \<Rightarrow> nat \<Rightarrow> real" where
  "batch_sq_dev rs c = (\<Sum>r \<leftarrow> rs. (r ! c - batch_mean rs c)\<^sup>2)"

definition normalize_row :: "bn \<Rightarrow> vec \<Rightarrow> vec \<Rightarrow> real list \<Rightarrow> real list" where
  "normalize_row b mean var r =
     map (\<lambda>c. (r ! c - mean c) / sqrt (var c + eps b) * bn_weight b c + bn_bias b c)
       [0..<num_features b]"

definition BatchNorm1d_forward :: "bool \<Rightarrow> bn \<Rightarrow> real tensor2 \<Rightarrow> error + (real tensor2 \<times> bn)" where
  "BatchNorm1d_forward training b t =
     (if ncols t \<noteq> num_features b then Inl RuntimeError
      else if training then
        (if length (rows t) < 2 then Inl ValueError
         else
           let n = real (length (rows t));
               mean = batch_mean (rows t);
               var = (\<lambda>c. batch_sq_dev (rows t) c / n);
               var_unbiased = (\<lambda>c. batch_sq_dev (rows t) c / (n - 1))
           in Inr (t\<lparr>rows := map (normalize_row b mean var) (rows t)\<rparr>,
                   b\<lparr>running_mean := (\<lambda>c. if c < num_features b
                                             then (1 - momentum b) * running_mean b c + momentum b * mean c
                                             else running_mean b c),
                     running_var := (\<lambda>c. if c < num_features b
                                            then (1 - momentum b) * running_var b c + momentum b * var_unbiased c
                                            else running_var b c),
                     num_batches_tracked := num_batches_tracked b + 1\<rparr>))
      else Inr (t\<lparr>rows := map (normalize_row b (running_mean b) (running_var b)) (rows t)\<rparr>, b))"

definition relu2 :: "real tensor2 \<Rightarrow> real tensor2" where
  "relu2 t = t\<lparr>rows := map (map (max 0)) (rows t)\<rparr>"

definition relu4 :: "real tensor4 \<Rightarrow> real tensor4" where
  "relu4 t = t\<lparr>data4 := map (map (map (map (max 0)))) (data4 t)\<rparr>"

text \<open>\<^verbatim>\<open>torch.flatten(x, 1)\<close> of a dense batch keeps the batch dimension and joins the rest.\<close>

definition flatten1 :: "real tensor4 \<Rightarrow> real tensor2" where
  "flatten1 t =
     (case shape4 t of (n, h, w, c) \<Rightarrow>
        \<lparr>ncols = h * w * c, rows = map (\<lambda>img. concat (concat img)) (data4 t)\<rparr>)"

text \<open>\<^verbatim>\<open>F.log_softmax(x, dim=1)\<close>: every row minus the logarithm of its summed exponentials.\<close>

definition log_softmax_row :: "real list \<Rightarrow> real list" where
  "log_softmax_row r = map (\<lambda>v. v - ln (\<Sum>u \<leftarrow> r. exp u)) r"

definition log_softmax :: "real tensor2 \<Rightarrow> real tensor2" where
  "log_softmax t = t\<lparr>rows := map log_softmax_row (rows t)\<rparr>"

record linear =
  in_features :: nat
  out_features :: nat
  lin_weight :: "nat \<Rightarrow> nat \<Rightarrow> real"
  lin_bias :: vec

definition Linear_forward :: "linear \<Rightarrow> real tensor2 \<Rightarrow> error + real tensor2" where
  "Linear_forward l t =
     (if ncols t \<noteq> in_features l then Inl RuntimeError
      else Inr \<lparr>ncols = out_features l,
                rows = map (\<lambda>r. map (\<lambda>j. (\<Sum>i \<leftarrow> [0..<in_features l]. r ! i * lin_weight l j i) + lin_bias l j)
                                 [0..<out_features l])
                         (rows t)\<rparr>)"

text \<open>
  Dropout draws a random mask; the draw is an explicit argument (\<open>drop_mask i j\<close>: element
  \<open>j\<close> of row \<open>i\<close> is dropped). In training mode the dropped elements become zero and
  the others are scaled by \<open>1 / (1 - p)\<close>; in evaluation mode dropout is the identity.
\<close>

definition Dropout_forward :: "bool \<Rightarrow> real \<Rightarrow> (nat \<Rightarrow> nat \<Rightarrow> bool) \<Rightarrow> real tensor2 \<Rightarrow> real tensor2" where
  "Dropout_forward training p drop_mask t =
     (if training
      then t\<lparr>rows := map (\<lambda>(i, r). map (\<lambda>(j, v). if drop_mask i j then 0 else v / (1 - p)) (enumerate 0 r))
                          (enumerate 0 (rows t))\<rparr>
      else t)"


section \<open>Modules and the sparse sequential container\<close>

text \<open>
  A module is the layer together with its parameters and buffers. \<open>Observer\<close> is the
  statistics-collecting module that the quantization pipeline's prepare phase attaches;
  it holds the running minimum and maximum of the values that flowed past it.
\<close>

datatype module =
    SubMConv2d conv_cfg weight "vec option"
  | SparseConv2d conv_cfg weight "vec option"
  | BatchNorm1d bn
  | ReLU
  | ToDense
  | SparseSequential "module list"
  | QuantStub
  | DeQuantStub
  | Observer "(real \<times> real) option"

text \<open>What flows between modules: a sparse tensor, a feature matrix or a dense batch.\<close>

datatype val =
    SparseV "real SparseConvTensor"
  | Tensor2V "real tensor2"
  | Tensor4V "real tensor4"

fun is_spconv_module :: "module \<Rightarrow> bool" where
  "is_spconv_module (SubMConv2d cfg w bias) = True"
| "is_spconv_module (SparseConv2d cfg w bias) = True"
| "is_spconv_module ToDense = True"
| "is_spconv_module (SparseSequential ms) = True"
| "is_spconv_module m = False"

definition observe :: "real list \<Rightarrow> (real \<times> real) option \<Rightarrow> (real \<times> real) option" where
  "observe vs r =
     fold (\<lambda>v r. case r of None \<Rightarrow> Some (v, v) | Some (lo, hi) \<Rightarrow> Some (min lo v, max hi v)) vs r"

text \<open>
  Modelled from the spec: \<^verbatim>\<open>spconv.SparseSequential\<close> and the layers it holds are code
  of the repository's library, absent here. The container runs its children in order. A
  sparse layer (a convolution, \<open>ToDense\<close>, a nested container) takes the sparse tensor
  itself. The spec does not say how a layer that is no sparse layer (the normalization,
  the activation, a stub) meets a sparse tensor; as in the library, it is applied to the
  features, the coordinates stay as they are, and it is skipped when there is no active
  site. A layer given a value of the wrong kind raises. In evaluation mode
  (\<open>training = False\<close>) batch normalization uses its running statistics.
\<close>

fun forward_module :: "bool \<Rightarrow> module \<Rightarrow> val \<Rightarrow> error + (val \<times> module)"
  and forward_children :: "bool \<Rightarrow> module list \<Rightarrow> val \<Rightarrow> error + (val \<times> module list)" where
  "forward_module training (SubMConv2d cfg w bias) v =
     (case v of
        SparseV x \<Rightarrow>
          (case SubMConv2d_forward cfg w bias x of
             Inl e \<Rightarrow> Inl e
           | Inr y \<Rightarrow> Inr (SparseV y, SubMConv2d cfg w bias))
      | _ \<Rightarrow> Inl AssertionError)"
| "forward_module training (SparseConv2d cfg w bias) v =
     (case v of
        SparseV x \<Rightarrow>
          (case SparseConv2d_forward cfg w bias x of
             Inl e \<Rightarrow> Inl e
           | Inr y \<Rightarrow> Inr (SparseV y, SparseConv2d cfg w bias))
      | _ \<Rightarrow> Inl AssertionError)"
| "forward_module training (BatchNorm1d b) v =
     (case v of
        Tensor2V t \<Rightarrow>
          (case BatchNorm1d_forward training b t of
             Inl e \<Rightarrow> Inl e
           | Inr (t', b') \<Rightarrow> Inr (Tensor2V t', BatchNorm1d b'))
      | Tensor4V d \<Rightarrow> Inl ValueError
      | SparseV x \<Rightarrow> Inl TypeError)"
| "forward_module training ReLU v =
     (case v of
        Tensor2V t \<Rightarrow> Inr (Tensor2V (relu2 t), ReLU)
      | Tensor4V d \<Rightarrow> Inr (Tensor4V (relu4 d), ReLU)
      | SparseV x \<Rightarrow> Inl TypeError)"
| "forward_module training ToDense v =
     (case v of
        SparseV x \<Rightarrow> (case dense x of Inl e \<Rightarrow> Inl e | Inr d \<Rightarrow> Inr (Tensor4V d, ToDense))
      | _ \<Rightarrow> Inl TypeError)"
| "forward_module training (SparseSequential ms) v =
     (case forward_children training ms v of
        Inl e \<Rightarrow> Inl e
      | Inr (v', ms') \<Rightarrow> Inr (v', SparseSequential ms'))"
| "forward_module training QuantStub v = Inr (v, QuantStub)"
| "forward_module training DeQuantStub v = Inr (v, DeQuantStub)"
| "forward_module training (Observer r) v =
     (case v of
        Tensor2V t \<Rightarrow> Inr (v, Observer (observe (concat (rows t)) r))
      | Tensor4V d \<Rightarrow> Inr (v, Observer (observe (concat (concat (concat (data4 d)))) r))
      | SparseV x \<Rightarrow> Inl TypeError)"
| "forward_children training [] v = Inr (v, [])"
| "forward_children training (m # ms) v =
     (case (if is_spconv_module m then
              (case v of
                 SparseV x \<Rightarrow> forward_module training m v
               | _ \<Rightarrow> Inl AssertionError)
            else
              (case v of
                 SparseV x \<Rightarrow>
                   if indices x = [] then Inr (v, m)
                   else
                     (case forward_module training m (Tensor2V (features x)) of
                        Inl e \<Rightarrow> Inl e
                      | Inr (Tensor2V t, m') \<Rightarrow> Inr (SparseV (x\<lparr>features := t\<rparr>), m')
                      | Inr (_, m') \<Rightarrow> Inl TypeError)
               | _ \<Rightarrow> forward_module training m v)) of
        Inl e \<Rightarrow> Inl e
      | Inr (v', m') \<Rightarrow>
          (case forward_children training ms v' of
             Inl e \<Rightarrow> Inl e
           | Inr (v'', ms') \<Rightarrow> Inr (v'', m' # ms')))"

section \<open>The stages and networks of the example\<close>

text \<open>
  A constructor of the source creates the layer's parameters itself; here the parameter
  values (the weight \<open>w\<close>, the normalization state \<open>b\<close>) are arguments, so that a
  statement about a stage covers it at every point of training. The arguments follow the
  source's signature \<^verbatim>\<open>(in_planes, out_planes, kernel_size=3, stride=1, groups=1)\<close>.
\<close>

definition SubMConvBNReLU :: "nat \<Rightarrow> nat \<Rightarrow> int \<Rightarrow> int \<Rightarrow> nat \<Rightarrow> weight \<Rightarrow> bn \<Rightarrow> module" where
  "SubMConvBNReLU in_planes out_planes kernel_size stride groups w b =
     (let padding = (kernel_size - 1) div 2 in
      SparseSequential
        [SubMConv2d \<lparr>in_channels = in_planes, out_channels = out_planes,
                     conv_kernel_size = kernel_size, conv_stride = stride,
                     conv_padding = padding, conv_groups = groups\<rparr> w None,
         BatchNorm1d (b\<lparr>num_features := out_planes, momentum := 0.1\<rparr>),
         ReLU])"

definition SparseConvBNReLU :: "nat \<Rightarrow> nat \<Rightarrow> int \<Rightarrow> int \<Rightarrow> nat \<Rightarrow> weight \<Rightarrow> bn \<Rightarrow> module" where
  "SparseConvBNReLU in_planes out_planes kernel_size stride groups w b =
     (let padding = (kernel_size - 1) div 2 in
      SparseSequential
        [SparseConv2d \<lparr>in_channels = in_planes, out_channels = out_planes,
                       conv_kernel_size = kernel_size, conv_stride = stride,
                       conv_padding = padding, conv_groups = groups\<rparr> w None,
         BatchNorm1d (b\<lparr>num_features := out_planes, momentum := 0.1\<rparr>),
         ReLU])"

record ptq_params =
  w1 :: weight
  bn1 :: bn
  w2 :: weight
  bn2 :: bn
  w3 :: weight
  bn3 :: bn
  w4 :: weight
  bn4 :: bn
  w5 :: weight
  bn5 :: bn
  w6 :: weight
  b6 :: vec

text \<open>
  \<^verbatim>\<open>NetPTQ.net\<close>. The fifth stage is written \<^verbatim>\<open>SparseConvBNReLU(64, 64, 3, 2, 1)\<close>:
  kernel 3, stride 2, and the last argument is \<open>groups\<close>. The sixth is a bare
  \<^verbatim>\<open>spconv.SparseConv2d(64, 10, 4, 4)\<close> with the library's defaults: padding 0, one
  group, a bias.
\<close>

definition NetPTQ_net :: "ptq_params \<Rightarrow> module" where
  "NetPTQ_net P =
     SparseSequential
       [SubMConvBNReLU 1 32 3 1 1 (w1 P) (bn1 P),
        SubMConvBNReLU 32 64 3 1 1 (w2 P) (bn2 P),
        SparseConvBNReLU 64 64 2 2 1 (w3 P) (bn3 P),
        SparseConvBNReLU 64 64 2 2 1 (w4 P) (bn4 P),
        SparseConvBNReLU 64 64 3 2 1 (w5 P) (bn5 P),
        SparseConv2d \<lparr>in_channels = 64, out_channels = 10, conv_kernel_size = 4,
                       conv_stride = 4, conv_padding = 0, conv_groups = 1\<rparr> (w6 P) (Some (b6 P)),
        ToDense]"

record NetPTQ =
  ptq_net :: module
  ptq_quant :: module
  ptq_dequant :: module
  ptq_training :: bool

definition NetPTQ_init :: "ptq_params \<Rightarrow> NetPTQ" where
  "NetPTQ_init P =
     \<lparr>ptq_net = NetPTQ_net P, ptq_quant = QuantStub, ptq_dequant = DeQuantStub,
      ptq_training = True\<rparr>"

text \<open>\<^verbatim>\<open>model.eval()\<close> and \<^verbatim>\<open>model.train()\<close> set the mode of the whole model.\<close>

definition eval_mode :: "NetPTQ \<Rightarrow> NetPTQ" where
  "eval_mode M = M\<lparr>ptq_training := False\<rparr>"

definition train_mode :: "NetPTQ \<Rightarrow> NetPTQ" where
  "train_mode M = M\<lparr>ptq_training := True\<rparr>"

definition flatten_val :: "val \<Rightarrow> error + real tensor2" where
  "flatten_val v =
     (case v of
        Tensor4V d \<Rightarrow> Inr (flatten1 d)
      | Tensor2V t \<Rightarrow> Inr t
      | SparseV x \<Rightarrow> Inl TypeError)"

definition as_tensor2 :: "val \<Rightarrow> error + real tensor2" where
  "as_tensor2 v = (case v of Tensor2V t \<Rightarrow> Inr t | _ \<Rightarrow> Inl TypeError)"

text \<open>
  \<^verbatim>\<open>NetPTQ.forward(features, indices, batch_size)\<close>: the quantization stub, the sparse
  tensor rebuilt with the fixed spatial shape \<open>[28, 28]\<close>, the stage stack ending in
  \<open>ToDense\<close>, \<open>flatten\<close>, the dequantization stub and \<open>log_softmax\<close>. The result is the
  output together with the model, whose modules may have changed state.
\<close>

definition NetPTQ_forward ::
  "NetPTQ \<Rightarrow> real tensor2 \<Rightarrow> coord list \<Rightarrow> int \<Rightarrow> error + (real tensor2 \<times> NetPTQ)" where
  "NetPTQ_forward M feats idx bsize =
     (case forward_module (ptq_training M) (ptq_quant M) (Tensor2V feats) of
        Inl e \<Rightarrow> Inl e
      | Inr (qv, quant') \<Rightarrow>
     (case as_tensor2 qv of
        Inl e \<Rightarrow> Inl e
      | Inr feats' \<Rightarrow>
     (let x_sp = \<lparr>features = feats', indices = idx, spatial_shape = (28, 28), batch_size = bsize\<rparr> in
      case forward_module (ptq_training M) (ptq_net M) (SparseV x_sp) of
        Inl e \<Rightarrow> Inl e
      | Inr (x, net') \<Rightarrow>
     (case flatten_val x of
        Inl e \<Rightarrow> Inl e
      | Inr x1 \<Rightarrow>
     (case forward_module (ptq_training M) (ptq_dequant M) (Tensor2V x1) of
        Inl e \<Rightarrow> Inl e
      | Inr (dv, dequant') \<Rightarrow>
     (case as_tensor2 dv of
        Inl e \<Rightarrow> Inl e
      | Inr x2 \<Rightarrow>
          Inr (log_softmax x2,
               M\<lparr>ptq_net := net', ptq_quant := quant', ptq_dequant := dequant'\<rparr>)))))))"


text \<open>
  \<^verbatim>\<open>Net\<close> and \<^verbatim>\<open>NetV2\<close> have the same constructor: three stages and \<open>ToDense\<close>, two
  linear layers, two dropout layers and the stubs.
\<close>

record net_params =
  nw1 :: weight
  nbn1 :: bn
  nw2 :: weight
  nbn2 :: bn
  nw3 :: weight
  nbn3 :: bn
  nfc1 :: linear
  nfc2 :: linear

record Net =
  net_net :: module
  fc1 :: linear
  fc2 :: linear
  dropout1 :: real
  dropout2 :: real
  net_quant :: module
  net_dequant :: module
  net_training :: bool

definition Net_init :: "net_params \<Rightarrow> Net" where
  "Net_init P =
     \<lparr>net_net = SparseSequential
         [SubMConvBNReLU 1 32 3 1 1 (nw1 P) (nbn1 P),
          SubMConvBNReLU 32 64 3 1 1 (nw2 P) (nbn2 P),
          SparseConvBNReLU 64 64 2 2 1 (nw3 P) (nbn3 P),
          ToDense],
      fc1 = (nfc1 P)\<lparr>in_features := 14 * 14 * 64, out_features := 128\<rparr>,
      fc2 = (nfc2 P)\<lparr>in_features := 128, out_features := 10\<rparr>,
      dropout1 = 0.25,
      dropout2 = 0.5,
      net_quant = QuantStub,
      net_dequant = DeQuantStub,
      net_training = True\<rparr>"

text \<open>
  \<^verbatim>\<open>Net.forward(x_sp)\<close>. Python does not enforce the annotation of \<open>x_sp\<close>, so the
  argument is any value; the stubs are not called.
\<close>

definition Net_forward ::
  "Net \<Rightarrow> (nat \<Rightarrow> nat \<Rightarrow> bool) \<Rightarrow> (nat \<Rightarrow> nat \<Rightarrow> bool) \<Rightarrow> val \<Rightarrow> error + (real tensor2 \<times> Net)" where
  "Net_forward M mask1 mask2 x_sp =
     (case forward_module (net_training M) (net_net M) x_sp of
        Inl e \<Rightarrow> Inl e
      | Inr (x, net') \<Rightarrow>
     (case flatten_val x of
        Inl e \<Rightarrow> Inl e
      | Inr x1 \<Rightarrow>
     (case Linear_forward (fc1 M) (Dropout_forward (net_training M) (dropout1 M) mask1 x1) of
        Inl e \<Rightarrow> Inl e
      | Inr x2 \<Rightarrow>
     (case Linear_forward (fc2 M) (Dropout_forward (net_training M) (dropout2 M) mask2 (relu2 x2)) of
        Inl e \<Rightarrow> Inl e
      | Inr x3 \<Rightarrow> Inr (log_softmax x3, M\<lparr>net_net := net'\<rparr>)))))"

text \<open>
  \<^verbatim>\<open>NetV2.forward(features, indices, batch_size)\<close>: the result of the quantization stub
  is overwritten before it is used, and the sparse tensor is built from \<open>features\<close> itself.
\<close>

definition NetV2_forward ::
  "Net \<Rightarrow> (nat \<Rightarrow> nat \<Rightarrow> bool) \<Rightarrow> (nat \<Rightarrow> nat \<Rightarrow> bool) \<Rightarrow> real tensor2 \<Rightarrow> coord list \<Rightarrow> int \<Rightarrow>
     error + (real tensor2 \<times> Net)" where
  "NetV2_forward M mask1 mask2 feats idx bsize =
     (case forward_module (net_training M) (net_quant M) (Tensor2V feats) of
        Inl e \<Rightarrow> Inl e
      | Inr (qv, quant') \<Rightarrow>
     (let x_sp = \<lparr>features = feats, indices = idx, spatial_shape = (28, 28), batch_size = bsize\<rparr> in
      case forward_module (net_training M) (net_net M) (SparseV x_sp) of
        Inl e \<Rightarrow> Inl e
      | Inr (x, net') \<Rightarrow>
     (case flatten_val x of
        Inl e \<Rightarrow> Inl e
      | Inr x1 \<Rightarrow>
     (case Linear_forward (fc1 M) (Dropout_forward (net_training M) (dropout1 M) mask1 x1) of
        Inl e \<Rightarrow> Inl e
      | Inr x2 \<Rightarrow>
     (case Linear_forward (fc2 M) (Dropout_forward (net_training M) (dropout2 M) mask2 (relu2 x2)) of
        Inl e \<Rightarrow> Inl e
      | Inr x3 \<Rightarrow>
     (case forward_module (net_training M) (net_dequant M) (Tensor2V x3) of
        Inl e \<Rightarrow> Inl e
      | Inr (dv, dequant') \<Rightarrow>
     (case as_tensor2 dv of
        Inl e \<Rightarrow> Inl e
      | Inr x4 \<Rightarrow>
          Inr (log_softmax x4,
               M\<lparr>net_net := net', net_quant := quant', net_dequant := dequant'\<rparr>))))))))"

section \<open>Calling the model: the evaluation step and calibration\<close>

text \<open>
  The positional arguments of a call \<^verbatim>\<open>model(...)\<close>: one dense batch, or features,
  indices and batch size. \<^verbatim>\<open>NetPTQ.forward\<close> has three required parameters, so a call
  with a single argument raises \<^verbatim>\<open>TypeError\<close>.
\<close>

datatype call_args =
    DenseArgs "real tensor4"
  | TripleArgs "real tensor2" "coord list" int

definition NetPTQ_call :: "NetPTQ \<Rightarrow> call_args \<Rightarrow> error + (real tensor2 \<times> NetPTQ)" where
  "NetPTQ_call M args =
     (case args of
        TripleArgs feats idx bsize \<Rightarrow> NetPTQ_forward M feats idx bsize
      | DenseArgs d \<Rightarrow> Inl TypeError)"

text \<open>
  \<^verbatim>\<open>NetV2.forward\<close> has the same three required parameters; the two dropout draws of
  the pass are passed on.
\<close>

definition NetV2_call ::
  "Net \<Rightarrow> (nat \<Rightarrow> nat \<Rightarrow> bool) \<Rightarrow> (nat \<Rightarrow> nat \<Rightarrow> bool) \<Rightarrow> call_args \<Rightarrow> error + (real tensor2 \<times> Net)" where
  "NetV2_call M mask1 mask2 args =
     (case args of
        TripleArgs feats idx bsize \<Rightarrow> NetV2_forward M mask1 mask2 feats idx bsize
      | DenseArgs d \<Rightarrow> Inl TypeError)"

text \<open>
  \<^verbatim>\<open>data.reshape(-1, 28, 28, 1)\<close>: the elements in storage order, regrouped into
  28 x 28 x 1 images; PyTorch raises \<^verbatim>\<open>RuntimeError\<close> when their number is no multiple
  of 784.
\<close>

definition reshape_28_28_1 :: "real tensor4 \<Rightarrow> error + real tensor4" where
  "reshape_28_28_1 t =
     (let flat = concat (concat (concat (data4 t))); n = length flat div 784 in
      if length flat mod 784 \<noteq> 0 then Inl RuntimeError
      else Inr \<lparr>shape4 = (n, 28, 28, 1),
                data4 = map (\<lambda>b. map (\<lambda>y. map (\<lambda>x. [flat ! (b * 784 + y * 28 + x)]) [0..<28]) [0..<28])
                          [0..<n]\<rparr>)"

text \<open>
  The step that \<^verbatim>\<open>train\<close>, \<^verbatim>\<open>test\<close> and \<^verbatim>\<open>calibrate\<close> share: with
  \<^verbatim>\<open>args.sparse\<close> the caller builds the sparse tensor from the dense batch and passes its
  features, indices and batch size; otherwise it passes the dense batch.
\<close>

definition model_step :: "bool \<Rightarrow> NetPTQ \<Rightarrow> real tensor4 \<Rightarrow> error + (real tensor2 \<times> NetPTQ)" where
  "model_step sparse M data =
     (if sparse then
        (case reshape_28_28_1 data of
           Inl e \<Rightarrow> Inl e
         | Inr d \<Rightarrow>
             let data_sp = from_dense d in
             NetPTQ_call M (TripleArgs (features data_sp) (indices data_sp) (batch_size data_sp)))
      else NetPTQ_call M (DenseArgs data))"

text \<open>
  \<^verbatim>\<open>calibrate(args, model, data_loader, device)\<close>: \<^verbatim>\<open>model.eval()\<close>, then one forward
  pass per batch of the loader, the outputs discarded. It returns the model as the passes
  left it.
\<close>

fun calibrate_loop :: "bool \<Rightarrow> NetPTQ \<Rightarrow> real tensor4 list \<Rightarrow> error + NetPTQ" where
  "calibrate_loop sparse M [] = Inr M"
| "calibrate_loop sparse M (img # loader) =
     (case model_step sparse M img of
        Inl e \<Rightarrow> Inl e
      | Inr (output, M') \<Rightarrow> calibrate_loop sparse M' loader)"

definition calibrate :: "bool \<Rightarrow> NetPTQ \<Rightarrow> real tensor4 list \<Rightarrow> error + NetPTQ" where
  "calibrate sparse M data_loader = calibrate_loop sparse (eval_mode M) data_loader"

section \<open>Parameters, observers and auxiliary notions\<close>

text \<open>The learnable parameters of a module, in the order of \<^verbatim>\<open>model.parameters()\<close>.\<close>

datatype param = WeightP weight | VecP vec

fun parameters :: "module \<Rightarrow> param list" where
  "parameters (SubMConv2d cfg w bias) = WeightP w # (case bias of None \<Rightarrow> [] | Some bv \<Rightarrow> [VecP bv])"
| "parameters (SparseConv2d cfg w bias) = WeightP w # (case bias of None \<Rightarrow> [] | Some bv \<Rightarrow> [VecP bv])"
| "parameters (BatchNorm1d b) = [VecP (bn_weight b), VecP (bn_bias b)]"
| "parameters (SparseSequential ms) = concat (map parameters ms)"
| "parameters m = []"

definition NetPTQ_parameters :: "NetPTQ \<Rightarrow> param list" where
  "NetPTQ_parameters M =
     parameters (ptq_net M) @ parameters (ptq_quant M) @ parameters (ptq_dequant M)"

text \<open>The module with the statistics of every observer forgotten.\<close>

fun erase_observers :: "module \<Rightarrow> module" where
  "erase_observers (Observer r) = Observer None"
| "erase_observers (SparseSequential ms) = SparseSequential (map erase_observers ms)"
| "erase_observers m = m"

definition NetPTQ_erase_observers :: "NetPTQ \<Rightarrow> NetPTQ" where
  "NetPTQ_erase_observers M =
     M\<lparr>ptq_net := erase_observers (ptq_net M),
       ptq_quant := erase_observers (ptq_quant M),
       ptq_dequant := erase_observers (ptq_dequant M)\<rparr>"

text \<open>
  Modelled from the spec: the prepare phase wraps each fused block (a stage of
  convolution, normalization and activation) by freshly attached observers at its input
  and output; every other module passes through. The stubs of the model hold the
  observers of the network's input and output.
\<close>

fun is_fusible :: "module \<Rightarrow> bool" where
  "is_fusible (SparseSequential [SubMConv2d cfg w bias, BatchNorm1d b, ReLU]) = True"
| "is_fusible (SparseSequential [SparseConv2d cfg w bias, BatchNorm1d b, ReLU]) = True"
| "is_fusible m = False"

fun prepare_children :: "module list \<Rightarrow> module list" where
  "prepare_children [] = []"
| "prepare_children (m # ms) =
     (if is_fusible m then Observer None # m # Observer None # prepare_children ms
      else m # prepare_children ms)"

definition prepare :: "NetPTQ \<Rightarrow> NetPTQ" where
  "prepare M =
     M\<lparr>ptq_net := (case ptq_net M of
                      SparseSequential ms \<Rightarrow> SparseSequential (prepare_children ms)
                    | m \<Rightarrow> m),
       ptq_quant := Observer None,
       ptq_dequant := Observer None\<rparr>"

text \<open>Nested lists of the extents \<open>n\<close>, \<open>h\<close>, \<open>w\<close>, and the coordinate of a site.\<close>

definition shaped :: "nat \<Rightarrow> nat \<Rightarrow> nat \<Rightarrow> 'a list list list list \<Rightarrow> bool" where
  "shaped n h w t =
     (length t = n \<and> (\<forall>img \<in> set t. length img = h \<and> (\<forall>row \<in> set img. length row = w)))"

definition to_coord :: "nat \<times> nat \<times> nat \<Rightarrow> coord" where
  "to_coord s = (case s of (b, y, x) \<Rightarrow> (int b, int y, int x))"

text \<open>
  The configuration and the normalization state that both stage constructors give their
  layers, and the initial state of \<^verbatim>\<open>nn.BatchNorm1d(n, momentum=0.1)\<close> with PyTorch's
  defaults.
\<close>

definition stage_cfg :: "nat \<Rightarrow> nat \<Rightarrow> int \<Rightarrow> int \<Rightarrow> nat \<Rightarrow> conv_cfg" where
  "stage_cfg in_planes out_planes kernel_size stride groups =
     \<lparr>in_channels = in_planes, out_channels = out_planes,
      conv_kernel_size = kernel_size, conv_stride = stride,
      conv_padding = (kernel_size - 1) div 2, conv_groups = groups\<rparr>"

definition stage_bn :: "nat \<Rightarrow> bn \<Rightarrow> bn" where
  "stage_bn out_planes b = b\<lparr>num_features := out_planes, momentum := 0.1\<rparr>"

definition BatchNorm1d_init :: "nat \<Rightarrow> bn" where
  "BatchNorm1d_init n =
     \<lparr>num_features = n, momentum = 0.1, eps = 1 / 100000,
      bn_weight = (\<lambda>c. 1), bn_bias = (\<lambda>c. 0),
      running_mean = (\<lambda>c. 0), running_var = (\<lambda>c. 1),
      num_batches_tracked = 0\<rparr>"

text \<open>Every batch index of the coordinates lies in \<open>[0, N)\<close>.\<close>

definition batch_ok :: "int \<Rightarrow> coord list \<Rightarrow> bool" where
  "batch_ok N idx = list_all (\<lambda>(b, y, x). 0 \<le> b \<and> b < N) idx"

text \<open>
  A sparse tensor with one active site of a 28 x 28 single-channel image, and a
  convolution weight, for exhibiting the stages on a concrete input.
\<close>

definition one_site :: "real SparseConvTensor" where
  "one_site =
     \<lparr>features = \<lparr>ncols = 1, rows = [[1]]\<rparr>, indices = [(0, 3, 4)],
      spatial_shape = (28, 28), batch_size = 1\<rparr>"

text \<open>
  A batch of two images with one active site each: the smallest input a normalization
  layer accepts in training mode.
\<close>

definition two_sites :: "real SparseConvTensor" where
  "two_sites =
     \<lparr>features = \<lparr>ncols = 1, rows = [[1], [2]]\<rparr>, indices = [(0, 3, 4), (1, 5, 6)],
      spatial_shape = (28, 28), batch_size = 2\<rparr>"

definition const_weight :: "real \<Rightarrow> weight" where
  "const_weight c = (\<lambda>ky kx ci co. c)"

text \<open>
  A static shape for the values that flow through a container: a sparse tensor of spatial
  shape \<open>H x W\<close> with \<open>C\<close> channels (\<open>clean\<close>: the coordinates are distinct and inside
  the grid), or a dense batch \<open>h x w x c\<close>. \<open>shape_module\<close> computes the shape a child of a
  container produces from the shape it is given, \<open>None\<close> when the shapes do not fit;
  \<open>sat N s v\<close> says that the value \<open>v\<close> of a batch of \<open>N\<close> samples has the shape \<open>s\<close>.
\<close>

datatype shp = SparseS int int nat bool | DenseS nat nat nat

fun shape_module :: "module \<Rightarrow> shp \<Rightarrow> shp option"
  and shape_children :: "module list \<Rightarrow> shp \<Rightarrow> shp option" where
  "shape_module (SubMConv2d cfg w bias) s =
     (case s of
        SparseS H W C clean \<Rightarrow>
          if C = in_channels cfg \<and> \<not> H < conv_kernel_size cfg - conv_padding cfg \<and>
             \<not> W < conv_kernel_size cfg - conv_padding cfg
          then Some (SparseS H W (out_channels cfg) clean) else None
      | DenseS h w c \<Rightarrow> None)"
| "shape_module (SparseConv2d cfg w bias) s =
     (case s of
        SparseS H W C clean \<Rightarrow>
          if C = in_channels cfg \<and> \<not> H < conv_kernel_size cfg - conv_padding cfg \<and>
             \<not> W < conv_kernel_size cfg - conv_padding cfg
          then Some (SparseS
                 (conv_out_size H (conv_kernel_size cfg) (conv_stride cfg) (conv_padding cfg))
                 (conv_out_size W (conv_kernel_size cfg) (conv_stride cfg) (conv_padding cfg))
                 (out_channels cfg) True)
          else None
      | DenseS h w c \<Rightarrow> None)"
| "shape_module (BatchNorm1d b) s =
     (case s of
        SparseS H W C clean \<Rightarrow> if C = num_features b then Some s else None
      | DenseS h w c \<Rightarrow> None)"
| "shape_module ReLU s = Some s"
| "shape_module ToDense s =
     (case s of
        SparseS H W C clean \<Rightarrow> if clean then Some (DenseS (nat H) (nat W) C) else None
      | DenseS h w c \<Rightarrow> None)"
| "shape_module (SparseSequential ms) s =
     (case s of
        SparseS H W C clean \<Rightarrow> shape_children ms s
      | DenseS h w c \<Rightarrow> None)"
| "shape_module QuantStub s = Some s"
| "shape_module DeQuantStub s = Some s"
| "shape_module (Observer r) s = Some s"
| "shape_children [] s = Some s"
| "shape_children (m # ms) s =
     (case shape_module m s of None \<Rightarrow> None | Some s' \<Rightarrow> shape_children ms s')"

fun sat :: "int \<Rightarrow> shp \<Rightarrow> val \<Rightarrow> bool" where
  "sat N (SparseS H W C clean) (SparseV x) =
     (spatial_shape x = (H, W) \<and> ncols (features x) = C \<and> batch_size x = N \<and>
      length (rows (features x)) = length (indices x) \<and> wf_tensor2 (features x) \<and>
      batch_ok N (indices x) \<and>
      (clean \<longrightarrow> distinct (indices x) \<and>
         list_all (\<lambda>(b, y, z). 0 \<le> y \<and> y < H \<and> 0 \<le> z \<and> z < W) (indices x)))"
| "sat N (DenseS h w c) (Tensor4V d) = (shape4 d = (nat N, h, w, c) \<and> wf_tensor4 d)"
| "sat N s v = False"

text \<open>
  What a container does with one child (the body of the loop in \<open>forward_children\<close>), and
  the statement that \<open>shape_module\<close> predicts a child correctly: from a value of the given
  shape the child returns only values of the computed shape, and in evaluation mode it
  does return.
\<close>

definition child_step :: "bool \<Rightarrow> module \<Rightarrow> val \<Rightarrow> error + (val \<times> module)" where
  "child_step training m v =
     (if is_spconv_module m then
        (case v of
           SparseV x \<Rightarrow> forward_module training m v
         | _ \<Rightarrow> Inl AssertionError)
      else
        (case v of
           SparseV x \<Rightarrow>
             if indices x = [] then Inr (v, m)
             else
               (case forward_module training m (Tensor2V (features x)) of
                  Inl e \<Rightarrow> Inl e
                | Inr (Tensor2V t, m') \<Rightarrow> Inr (SparseV (x\<lparr>features := t\<rparr>), m')
                | Inr (_, m') \<Rightarrow> Inl TypeError)
         | _ \<Rightarrow> forward_module training m v))"

definition sound_step :: "bool \<Rightarrow> int \<Rightarrow> module \<Rightarrow> bool" where
  "sound_step tr N m =
     (\<forall>s s' v. shape_module m s = Some s' \<longrightarrow> sat N s v \<longrightarrow>
        (\<forall>v' m'. child_step tr m v = Inr (v', m') \<longrightarrow> sat N s' v') \<and>
        (\<not> tr \<longrightarrow> (\<exists>v' m'. child_step tr m v = Inr (v', m'))))"

text \<open>The stubs and observers pass a tensor on unchanged.\<close>

fun transparent :: "module \<Rightarrow> bool" where
  "transparent QuantStub = True"
| "transparent DeQuantStub = True"
| "transparent (Observer r) = True"
| "transparent m = False"

text \<open>
  Modelled from the spec: the six stages as the spec's end-to-end scenario lists them
  (three submanifold 3 x 3 stages, two stride-2 stages, one stride-4 terminal classifier
  convolution), with the channel counts of \<^verbatim>\<open>NetPTQ\<close>. The source's \<^verbatim>\<open>NetPTQ\<close>
  (\<open>NetPTQ_net\<close>) has two submanifold stages and three stride-2 stages instead.
\<close>

definition NetPTQ_described_net :: "ptq_params \<Rightarrow> module" where
  "NetPTQ_described_net P =
     SparseSequential
       [SubMConvBNReLU 1 32 3 1 1 (w1 P) (bn1 P),
        SubMConvBNReLU 32 64 3 1 1 (w2 P) (bn2 P),
        SubMConvBNReLU 64 64 3 1 1 (w3 P) (bn3 P),
        SparseConvBNReLU 64 64 2 2 1 (w4 P) (bn4 P),
        SparseConvBNReLU 64 64 2 2 1 (w5 P) (bn5 P),
        SparseConv2d \<lparr>in_channels = 64, out_channels = 10, conv_kernel_size = 4,
                       conv_stride = 4, conv_padding = 0, conv_groups = 1\<rparr> (w6 P) (Some (b6 P)),
        ToDense]"

text \<open>Concrete parameters, and a batch of one image with one lit pixel.\<close>

definition example_params :: ptq_params where
  "example_params =
     \<lparr>w1 = const_weight 1, bn1 = BatchNorm1d_init 32,
      w2 = const_weight 1, bn2 = BatchNorm1d_init 64,
      w3 = const_weight 1, bn3 = BatchNorm1d_init 64,
      w4 = const_weight 1, bn4 = BatchNorm1d_init 64,
      w5 = const_weight 1, bn5 = BatchNorm1d_init 64,
      w6 = const_weight 1, b6 = (\<lambda>c. 0)\<rparr>"

definition one_pixel_image :: "real tensor4" where
  "one_pixel_image =
     \<lparr>shape4 = (1, 28, 28, 1),
      data4 = [(replicate 28 (replicate 28 [0]))[3 := (replicate 28 [0])[4 := [1]]]]\<rparr>"

text \<open>
  A batch of two images with one lit pixel each; \<open>from_dense\<close> gives it two active
  sites, one per image.
\<close>

definition two_pixel_batch :: "real tensor4" where
  "two_pixel_batch =
     \<lparr>shape4 = (2, 28, 28, 1),
      data4 = [(replicate 28 (replicate 28 [0]))[3 := (replicate 28 [0])[4 := [1]]],
               (replicate 28 (replicate 28 [0]))[5 := (replicate 28 [0])[6 := [2]]]]\<rparr>"

text \<open>A tensor of shape \<open>[N, 10]\<close>.\<close>

definition shape_N_10 :: "nat \<Rightarrow> real tensor2 \<Rightarrow> bool" where
  "shape_N_10 N t = (ncols t = 10 \<and> length (rows t) = N \<and> wf_tensor2 t)"

text \<open>
  A module tree without observers, and the frame statement of one module: a forward pass
  never changes the parameters; in evaluation mode it changes nothing but the statistics
  of observers.
\<close>

fun observer_free :: "module \<Rightarrow> bool" where
  "observer_free (Observer r) = False"
| "observer_free (SparseSequential ms) = list_all observer_free ms"
| "observer_free m = True"

definition frame_step :: "bool \<Rightarrow> module \<Rightarrow> bool" where
  "frame_step tr m =
     (\<forall>v v' m'. forward_module tr m v = Inr (v', m') \<longrightarrow>
        parameters m' = parameters m \<and>
        (\<not> tr \<longrightarrow> erase_observers m' = erase_observers m) \<and>
        (\<not> tr \<and> observer_free m \<longrightarrow> m' = m))"

text \<open>
  Concrete parameters for \<^verbatim>\<open>Net\<close> and \<^verbatim>\<open>NetV2\<close>, and two dropout draws: nothing
  dropped, everything dropped.
\<close>

definition no_drop :: "nat \<Rightarrow> nat \<Rightarrow> bool" where
  "no_drop i j = False"

definition all_drop :: "nat \<Rightarrow> nat \<Rightarrow> bool" where
  "all_drop i j = True"

definition example_net_params :: net_params where
  "example_net_params =
     \<lparr>nw1 = const_weight 1, nbn1 = BatchNorm1d_init 32,
      nw2 = const_weight 1, nbn2 = BatchNorm1d_init 64,
      nw3 = const_weight 1, nbn3 = BatchNorm1d_init 64,
      nfc1 = \<lparr>in_features = 14 * 14 * 64, out_features = 128,
               lin_weight = (\<lambda>j i. 0), lin_bias = (\<lambda>j. 1)\<rparr>,
      nfc2 = \<lparr>in_features = 128, out_features = 10,
               lin_weight = (\<lambda>j i. if j = 0 then 1 else 0), lin_bias = (\<lambda>j. 0)\<rparr>\<rparr>"

text \<open>
  The child modules that a constructor registers, in the order of its assignments
  (\<^verbatim>\<open>model.children()\<close>): \<^verbatim>\<open>Net.__init__\<close> and \<^verbatim>\<open>NetV2.__init__\<close> create the
  container, two linear layers, two dropout layers and the stubs; in
  \<^verbatim>\<open>NetPTQ.__init__\<close> the linear and dropout layers are commented out.
\<close>

datatype child = ModuleChild module | LinearChild linear | Dropout2dChild real

definition NetPTQ_children :: "NetPTQ \<Rightarrow> child list" where
  "NetPTQ_children M =
     [ModuleChild (ptq_net M), ModuleChild (ptq_quant M), ModuleChild (ptq_dequant M)]"

definition Net_children :: "Net \<Rightarrow> child list" where
  "Net_children M =
     [ModuleChild (net_net M), LinearChild (fc1 M), LinearChild (fc2 M),
      Dropout2dChild (dropout1 M), Dropout2dChild (dropout2 M),
      ModuleChild (net_quant M), ModuleChild (net_dequant M)]"

fun is_linear_child :: "child \<Rightarrow> bool" where
  "is_linear_child (LinearChild l) = True"
| "is_linear_child c = False"

fun is_dropout_child :: "child \<Rightarrow> bool" where
  "is_dropout_child (Dropout2dChild p) = True"
| "is_dropout_child c = False"

section \<open>Densification inverts sparsification\<close>

lemma shaped_nth:
  "shaped n h w t \<Longrightarrow> b < n \<Longrightarrow> length (t ! b) = h"
  "shaped n h w t \<Longrightarrow> b < n \<Longrightarrow> y < h \<Longrightarrow> length (t ! b ! y) = w"
proof -
  show "shaped n h w t \<Longrightarrow> b < n \<Longrightarrow> length (t ! b) = h"
    by (auto simp: shaped_def)
  show "shaped n h w t \<Longrightarrow> b < n \<Longrightarrow> y < h \<Longrightarrow> length (t ! b ! y) = w"
  proof -
    assume a: "shaped n h w t" "b < n" "y < h"
    then have "t ! b \<in> set t" by (simp add: shaped_def)
    moreover from this a have "t ! b ! y \<in> set (t ! b)" by (simp add: shaped_def)
    ultimately show ?thesis using a(1) by (auto simp: shaped_def)
  qed
qed

lemma shaped_zeros4: "shaped n h w (zeros4 n h w c)"
  by (auto simp: shaped_def zeros4_def)

lemma ball_update:
  "(\<forall>x \<in> set xs. P x) \<Longrightarrow> P v \<Longrightarrow> (\<forall>x \<in> set (xs[i := v]). P x)"
  using set_update_subset_insert[of xs i v] by auto

lemma shaped_put: "shaped n h w t \<Longrightarrow> shaped n h w (put kv t)"
proof -
  assume s: "shaped n h w t"
  obtain b y x f where kv: "kv = ((b, y, x), f)" by (cases kv) auto
  show ?thesis
  proof (cases "nat b < n \<and> nat y < h")
    case True
    have mem: "t ! nat b \<in> set t" using s True by (simp add: shaped_def)
    have old: "\<forall>row \<in> set (t ! nat b). length row = w"
      using s mem by (auto simp: shaped_def)
    have "length ((t ! nat b ! nat y)[nat x := f]) = w"
      using s True by (simp add: shaped_nth)
    with old have rows:
      "\<forall>row \<in> set ((t ! nat b)[nat y := (t ! nat b ! nat y)[nat x := f]]). length row = w"
      by (rule ball_update)
    have img: "length ((t ! nat b)[nat y := (t ! nat b ! nat y)[nat x := f]]) = h"
      using s True by (simp add: shaped_nth)
    have "\<forall>img \<in> set t. length img = h \<and> (\<forall>row \<in> set img. length row = w)"
      using s by (simp add: shaped_def)
    then have "\<forall>img \<in> set (t[nat b := (t ! nat b)[nat y := (t ! nat b ! nat y)[nat x := f]]]).
        length img = h \<and> (\<forall>row \<in> set img. length row = w)"
      using img rows by (intro ball_update) simp_all
    then show ?thesis
      using s unfolding shaped_def kv put_def by simp
  next
    case False
    have "put kv t = t"
    proof (cases "nat b < n")
      case True
      with False s have "length (t ! nat b) \<le> nat y" by (simp add: shaped_nth)
      then show ?thesis unfolding kv put_def by (simp add: list_update_beyond)
    next
      case False
      with s show ?thesis unfolding kv put_def by (simp add: shaped_def list_update_beyond)
    qed
    with s show ?thesis by simp
  qed
qed

lemma get_put:
  assumes "shaped n h w t" "in_range n h w k" "b' < n" "y' < h" "x' < w"
  shows "put (k, f) t ! b' ! y' ! x' =
           (if k = (int b', int y', int x') then f else t ! b' ! y' ! x')"
proof -
  obtain b y x where k: "k = (b, y, x)" by (cases k) auto
  have r: "nat b < n" "nat y < h" "nat x < w" "0 \<le> b" "0 \<le> y" "0 \<le> x"
    using assms(2) by (auto simp: in_range_def k)
  have l: "length t = n" "length (t ! nat b) = h" "length (t ! nat b ! nat y) = w"
    using assms(1) r by (auto simp: shaped_nth) (simp add: shaped_def)
  show ?thesis
    using r l assms(3-5) unfolding k put_def
    by (auto simp: nth_list_update)
qed


lemma shaped_scatter: "shaped n h w t \<Longrightarrow> shaped n h w (scatter kvs t)"
  unfolding scatter_def by (induction kvs arbitrary: t) (auto simp: shaped_put)

lemma get_scatter:
  assumes "shaped n h w t" "distinct (map fst kvs)" "list_all (in_range n h w) (map fst kvs)"
    "b' < n" "y' < h" "x' < w"
  shows "scatter kvs t ! b' ! y' ! x' =
           (case map_of kvs (int b', int y', int x') of Some f \<Rightarrow> f | None \<Rightarrow> t ! b' ! y' ! x')"
  using assms(1-3)
proof (induction kvs arbitrary: t)
  case Nil
  then show ?case by (simp add: scatter_def)
next
  case (Cons kv kvs)
  obtain k f where kv: "kv = (k, f)" by (cases kv) auto
  have sp: "shaped n h w (put kv t)" using Cons.prems(1) by (rule shaped_put)
  have ih: "scatter kvs (put kv t) ! b' ! y' ! x' =
      (case map_of kvs (int b', int y', int x') of Some f \<Rightarrow> f | None \<Rightarrow> put kv t ! b' ! y' ! x')"
    using Cons.IH[OF sp] Cons.prems(2,3) by simp
  have g: "put kv t ! b' ! y' ! x' = (if k = (int b', int y', int x') then f else t ! b' ! y' ! x')"
    unfolding kv using Cons.prems(1,3) assms(4-6) by (intro get_put) (simp_all add: kv)
  have fresh: "k = (int b', int y', int x') \<Longrightarrow> map_of kvs (int b', int y', int x') = None"
    using Cons.prems(2) by (auto simp: kv map_of_eq_None_iff)
  have step: "scatter (kv # kvs) t = scatter kvs (put kv t)" by (simp add: scatter_def)
  show ?case
    unfolding step ih g using fresh by (auto simp: kv split: option.splits)
qed


lemma inj_to_coord: "inj to_coord"
  by (auto simp: inj_on_def to_coord_def)

lemma distinct_active_sites: "distinct (active_sites t)"
  by (auto simp: active_sites_def distinct_product split: prod.splits)

lemma set_active_sites:
  "shape4 t = (n, h, w, c) \<Longrightarrow>
   (b, y, x) \<in> set (active_sites t) \<longleftrightarrow>
     b < n \<and> y < h \<and> x < w \<and> list_ex (\<lambda>v. v \<noteq> 0) (data4 t ! b ! y ! x)"
  by (auto simp: active_sites_def)

lemma map_of_sites:
  "map_of (zip (map to_coord S) (map g S)) (to_coord s) =
     (if s \<in> set S then Some (g s) else None)"
  by (induction S) (use inj_to_coord in \<open>auto simp: inj_eq\<close>)

lemma all_zero_replicate:
  "\<not> list_ex (\<lambda>v. v \<noteq> 0) px \<Longrightarrow> replicate (length px) 0 = px"
  by (rule replicate_length_same) (simp add: list_ex_iff)

lemma wf_tensor4_nth:
  assumes "wf_tensor4 t" "shape4 t = (n, h, w, c)"
  shows "length (data4 t) = n"
    and "b < n \<Longrightarrow> length (data4 t ! b) = h"
    and "b < n \<Longrightarrow> y < h \<Longrightarrow> length (data4 t ! b ! y) = w"
    and "b < n \<Longrightarrow> y < h \<Longrightarrow> x < w \<Longrightarrow> length (data4 t ! b ! y ! x) = c"
proof -
  have l: "length (data4 t) = n"
    and a: "\<forall>b < n. length (data4 t ! b) = h \<and>
        list_all (\<lambda>row. length row = w \<and> list_all (\<lambda>px. length px = c) row) (data4 t ! b)"
    using assms by (simp_all add: wf_tensor4_def list_all_length)
  show "length (data4 t) = n" by (rule l)
  show h: "length (data4 t ! b) = h" if "b < n" using a that by simp
  have r: "length (data4 t ! b ! y) = w \<and> list_all (\<lambda>px. length px = c) (data4 t ! b ! y)"
    if "b < n" "y < h"
  proof -
    have "list_all (\<lambda>row. length row = w \<and> list_all (\<lambda>px. length px = c) row) (data4 t ! b)"
      using a that(1) by simp
    then show ?thesis using h[OF that(1)] that(2) by (simp add: list_all_length)
  qed
  show "length (data4 t ! b ! y) = w" if "b < n" "y < h" using r that by simp
  show "length (data4 t ! b ! y ! x) = c" if "b < n" "y < h" "x < w"
    using r[OF that(1,2)] that(3) by (simp add: list_all_length)
qed

lemma indices_from_dense: "indices (from_dense t) = map to_coord (active_sites t)"
  by (auto simp: from_dense_def to_coord_def split: prod.splits)

lemma from_dense_in_range:
  assumes "shape4 t = (n, h, w, c)"
  shows "list_all (in_range n h w) (indices (from_dense t))"
  unfolding indices_from_dense list_all_iff
  using assms by (auto simp: set_active_sites in_range_def to_coord_def)

lemma from_dense_distinct: "distinct (indices (from_dense t))"
  unfolding indices_from_dense
  by (simp add: distinct_map distinct_active_sites inj_on_subset[OF inj_to_coord subset_UNIV])

lemma dense_from_dense:
  assumes wf: "wf_tensor4 t"
  shows "dense (from_dense t) = Inr t"
proof -
  obtain n h w c where sh: "shape4 t = (n, h, w, c)" by (cases "shape4 t") auto
  let ?S = "active_sites t"
  let ?g = "\<lambda>(b, y, x). data4 t ! b ! y ! x"
  let ?kvs = "zip (map to_coord ?S) (map ?g ?S)"
  let ?d = "scatter ?kvs (zeros4 n h w c)"
  have fd: "features (from_dense t) = \<lparr>ncols = c, rows = map ?g ?S\<rparr>"
    "spatial_shape (from_dense t) = (int h, int w)" "batch_size (from_dense t) = int n"
    using sh by (simp_all add: from_dense_def)
  have keys: "map fst ?kvs = map to_coord ?S" by (simp add: map_fst_zip)
  have shp: "shaped n h w ?d" by (intro shaped_scatter shaped_zeros4)
  have get: "?d ! b ! y ! x = data4 t ! b ! y ! x" if "b < n" "y < h" "x < w" for b y x
  proof -
    have "?d ! b ! y ! x =
        (case map_of ?kvs (int b, int y, int x) of Some f \<Rightarrow> f
         | None \<Rightarrow> zeros4 n h w c ! b ! y ! x)"
      using that from_dense_in_range[OF sh] from_dense_distinct[of t]
      by (intro get_scatter) (simp_all add: keys indices_from_dense shaped_zeros4)
    also have "map_of ?kvs (int b, int y, int x) =
        (if (b, y, x) \<in> set ?S then Some (data4 t ! b ! y ! x) else None)"
      using map_of_sites[of ?S ?g "(b, y, x)"] by (simp add: to_coord_def)
    also have "(case (if (b, y, x) \<in> set ?S then Some (data4 t ! b ! y ! x) else None) of
          Some f \<Rightarrow> f | None \<Rightarrow> zeros4 n h w c ! b ! y ! x) = data4 t ! b ! y ! x"
    proof (cases "(b, y, x) \<in> set ?S")
      case True
      then show ?thesis by simp
    next
      case False
      then have "\<not> list_ex (\<lambda>v. v \<noteq> 0) (data4 t ! b ! y ! x)"
        using that by (simp add: set_active_sites[OF sh])
      then have "data4 t ! b ! y ! x = replicate c 0"
        using all_zero_replicate[of "data4 t ! b ! y ! x"] wf_tensor4_nth(4)[OF wf sh that] by simp
      then show ?thesis using False that by (simp add: zeros4_def)
    qed
    finally show ?thesis .
  qed
  have "?d = data4 t"
  proof (rule nth_equalityI)
    show "length ?d = length (data4 t)"
      using shp wf_tensor4_nth(1)[OF wf sh] by (simp add: shaped_def)
  next
    fix b assume "b < length ?d"
    then have b: "b < n" using shp by (simp add: shaped_def)
    show "?d ! b = data4 t ! b"
    proof (rule nth_equalityI)
      show "length (?d ! b) = length (data4 t ! b)"
        using shaped_nth(1)[OF shp b] wf_tensor4_nth(2)[OF wf sh b] by simp
    next
      fix y assume "y < length (?d ! b)"
      then have y: "y < h" using shaped_nth(1)[OF shp b] by simp
      show "?d ! b ! y = data4 t ! b ! y"
      proof (rule nth_equalityI)
        show "length (?d ! b ! y) = length (data4 t ! b ! y)"
          using shaped_nth(2)[OF shp b y] wf_tensor4_nth(3)[OF wf sh b y] by simp
      next
        fix x assume "x < length (?d ! b ! y)"
        then have "x < w" using shaped_nth(2)[OF shp b y] by simp
        then show "?d ! b ! y ! x = data4 t ! b ! y ! x" using b y by (rule get[rotated 2])
      qed
    qed
  qed
  then have d: "scatter (zip (indices (from_dense t)) (rows (features (from_dense t))))
      (zeros4 n h w c) = data4 t"
    by (simp only: indices_from_dense fd tensor2.simps)
  have t: "\<lparr>shape4 = (n, h, w, c), data4 = data4 t\<rparr> = t"
    using sh by (cases t) simp
  have len: "length (rows (features (from_dense t))) = length (indices (from_dense t))"
    by (simp add: fd indices_from_dense)
  have nc: "ncols (features (from_dense t)) = c" by (simp add: fd)
  show ?thesis
    unfolding dense_def
    by (simp only: fd(2,3) prod.case Let_def nat_int from_dense_distinct len nc d t
        from_dense_in_range[OF sh] not_True_eq_False not_not if_False simp_thms)
qed

text \<open>
  Claim C1. Densifying the sparse view built from a dense batch returns the batch: for every
  rectangular dense batch \<open>B\<close>, \<open>dense (from_dense B) = Inr B\<close> (no condition on zero
  values is needed). Densification fails with \<open>DuplicateCoordinate\<close> whenever two
  coordinates collide, so it returns a tensor only for distinct coordinates; the tensor
  it returns has the shape \<open>[batch_size, H, W, channels]\<close>, holds the feature of every
  listed coordinate at that coordinate and the zero vector at every other site.
\<close>

theorem C1_dense_from_dense:
  "(wf_tensor4 B \<longrightarrow> dense (from_dense B) = Inr B) \<and>
   (\<not> distinct (indices x) \<longrightarrow> dense x = Inl DuplicateCoordinate) \<and>
   (dense x = Inr d \<longrightarrow>
      distinct (indices x) \<and>
      shape4 d = (nat (batch_size x), nat (fst (spatial_shape x)), nat (snd (spatial_shape x)),
                  ncols (features x)) \<and>
      (\<forall>b y z. b < nat (batch_size x) \<and> y < nat (fst (spatial_shape x)) \<and>
                z < nat (snd (spatial_shape x)) \<longrightarrow>
         data4 d ! b ! y ! z =
           (case map_of (zip (indices x) (rows (features x))) (int b, int y, int z) of
              Some f \<Rightarrow> f
            | None \<Rightarrow> replicate (ncols (features x)) 0)))"
proof (intro conjI impI)
  assume "wf_tensor4 B"
  then show "dense (from_dense B) = Inr B" by (rule dense_from_dense)
next
  assume "\<not> distinct (indices x)"
  then show "dense x = Inl DuplicateCoordinate"
    by (simp add: dense_def split: prod.splits)
next
  assume d: "dense x = Inr d"
  obtain H W where sh: "spatial_shape x = (H, W)" by (cases "spatial_shape x") auto
  let ?n = "nat (batch_size x)" and ?h = "nat H" and ?w = "nat W" and ?c = "ncols (features x)"
  let ?kvs = "zip (indices x) (rows (features x))"
  from d sh have ok: "distinct (indices x)" "length (rows (features x)) = length (indices x)"
      "list_all (in_range ?n ?h ?w) (indices x)"
    and dd: "d = \<lparr>shape4 = (?n, ?h, ?w, ?c), data4 = scatter ?kvs (zeros4 ?n ?h ?w ?c)\<rparr>"
    by (auto simp: dense_def Let_def split: if_splits)
  show "distinct (indices x)" by (rule ok(1))
  show "shape4 d = (nat (batch_size x), nat (fst (spatial_shape x)), nat (snd (spatial_shape x)),
      ncols (features x))"
    by (simp add: dd sh)
  have keys: "map fst ?kvs = indices x" using ok(2) by (simp add: map_fst_zip)
  show "\<forall>b y z. b < nat (batch_size x) \<and> y < nat (fst (spatial_shape x)) \<and>
                z < nat (snd (spatial_shape x)) \<longrightarrow>
         data4 d ! b ! y ! z =
           (case map_of (zip (indices x) (rows (features x))) (int b, int y, int z) of
              Some f \<Rightarrow> f
            | None \<Rightarrow> replicate (ncols (features x)) 0)"
  proof (intro allI impI)
    fix b y z
    assume "b < nat (batch_size x) \<and> y < nat (fst (spatial_shape x)) \<and>
        z < nat (snd (spatial_shape x))"
    then have r: "b < ?n" "y < ?h" "z < ?w" by (simp_all add: sh)
    have "scatter ?kvs (zeros4 ?n ?h ?w ?c) ! b ! y ! z =
        (case map_of ?kvs (int b, int y, int z) of Some f \<Rightarrow> f
         | None \<Rightarrow> zeros4 ?n ?h ?w ?c ! b ! y ! z)"
      using r ok by (intro get_scatter) (simp_all add: keys shaped_zeros4)
    then show "data4 d ! b ! y ! z =
        (case map_of ?kvs (int b, int y, int z) of Some f \<Rightarrow> f
         | None \<Rightarrow> replicate (ncols (features x)) 0)"
      using r by (simp add: dd zeros4_def split: option.splits)
  qed
qed

theorem C1_dense_from_dense_witness:
  "wf_tensor4 \<lparr>shape4 = (1, 2, 2, 1), data4 = [[[[3], [0]], [[0], [5::int]]]]\<rparr> \<and>
   dense (from_dense \<lparr>shape4 = (1, 2, 2, 1), data4 = [[[[3], [0]], [[0], [5::int]]]]\<rparr>) =
     Inr \<lparr>shape4 = (1, 2, 2, 1), data4 = [[[[3], [0]], [[0], [5::int]]]]\<rparr> \<and>
   \<not> distinct (indices \<lparr>features = \<lparr>ncols = 1, rows = [[1], [2::int]]\<rparr>,
                          indices = [(0, 0, 0), (0, 0, 0)], spatial_shape = (2, 2),
                          batch_size = 1\<rparr>) \<and>
   dense \<lparr>features = \<lparr>ncols = 1, rows = [[1], [2::int]]\<rparr>,
          indices = [(0, 0, 0), (0, 0, 0)], spatial_shape = (2, 2), batch_size = 1\<rparr> =
     Inl DuplicateCoordinate \<and>
   distinct (indices (from_dense \<lparr>shape4 = (1, 2, 2, 1), data4 = [[[[3], [0]], [[0], [5::int]]]]\<rparr>))"
proof -
  let ?B = "\<lparr>shape4 = (1, 2, 2, 1), data4 = [[[[3], [0]], [[0], [5::int]]]]\<rparr>"
  let ?x = "\<lparr>features = \<lparr>ncols = 1, rows = [[1], [2::int]]\<rparr>,
             indices = [(0, 0, 0), (0, 0, 0)], spatial_shape = (2, 2), batch_size = 1\<rparr>"
  have wf: "wf_tensor4 ?B" by (simp add: wf_tensor4_def)
  have dup: "\<not> distinct (indices ?x)" by simp
  from wf C1_dense_from_dense[of ?B ?x] have rt: "dense (from_dense ?B) = Inr ?B" by blast
  from dup C1_dense_from_dense[of ?B ?x] have e: "dense ?x = Inl DuplicateCoordinate" by blast
  from rt C1_dense_from_dense[of ?B "from_dense ?B" ?B]
  have "distinct (indices (from_dense ?B))" by blast
  with wf dup rt e show ?thesis by blast
qed

section \<open>The stages\<close>

lemma SubMConvBNReLU_unfold:
  "SubMConvBNReLU i out k s g w b =
     SparseSequential [SubMConv2d (stage_cfg i out k s g) w None, BatchNorm1d (stage_bn out b), ReLU]"
  by (simp add: SubMConvBNReLU_def stage_cfg_def stage_bn_def Let_def)

lemma SparseConvBNReLU_unfold:
  "SparseConvBNReLU i out k s g w b =
     SparseSequential [SparseConv2d (stage_cfg i out k s g) w None, BatchNorm1d (stage_bn out b), ReLU]"
  by (simp add: SparseConvBNReLU_def stage_cfg_def stage_bn_def Let_def)

lemma BatchNorm1d_forward_keeps:
  assumes "BatchNorm1d_forward tr b t = Inr (t', b')"
  shows "num_features b' = num_features b" "momentum b' = momentum b" "eps b' = eps b"
    "bn_weight b' = bn_weight b" "bn_bias b' = bn_bias b"
    "ncols t' = ncols t" "length (rows t') = length (rows t)"
    "ncols t = num_features b"
    "wf_tensor2 t'"
    "\<not> tr \<Longrightarrow> b' = b"
  using assms
  by (auto simp: BatchNorm1d_forward_def Let_def wf_tensor2_def normalize_row_def list_all_iff
      split: if_splits)

text \<open>In training mode a normalization layer that returns has moved its state.\<close>

lemma BatchNorm1d_training_moves:
  assumes "BatchNorm1d_forward True b t = Inr (t', b')"
  shows "num_batches_tracked b' = num_batches_tracked b + 1 \<and> b' \<noteq> b"
proof -
  from assms have n: "num_batches_tracked b' = num_batches_tracked b + 1"
    by (auto simp: BatchNorm1d_forward_def Let_def split: if_splits)
  then have "num_batches_tracked b' \<noteq> num_batches_tracked b" by simp
  then have "b' \<noteq> b" by auto
  with n show ?thesis by simp
qed

lemma stage_bn_idem:
  "BatchNorm1d_forward tr (stage_bn out b) t = Inr (t', b') \<Longrightarrow> stage_bn out b' = b'"
  by (auto simp: BatchNorm1d_forward_def Let_def stage_bn_def split: if_splits)

lemma children_bn_relu:
  "forward_children tr [BatchNorm1d b, ReLU] (SparseV y) =
     (if indices y = [] then Inr (SparseV y, [BatchNorm1d b, ReLU])
      else case BatchNorm1d_forward tr b (features y) of
             Inl e \<Rightarrow> Inl e
           | Inr (t, b') \<Rightarrow> Inr (SparseV (y\<lparr>features := relu2 t\<rparr>), [BatchNorm1d b', ReLU]))"
  by (simp split: sum.splits prod.splits)


lemma conv_feature_length: "length (conv_feature cfg s w bias sites out) = out_channels cfg"
  by (cases out) (simp add: conv_feature_def Let_def)

lemma SubMConv2d_forward_props:
  assumes "SubMConv2d_forward cfg w bias x = Inr y"
  shows "conv_shape_ok cfg x" "indices y = indices x" "spatial_shape y = spatial_shape x"
    "batch_size y = batch_size x" "ncols (features y) = out_channels cfg"
    "length (rows (features y)) = length (indices y)" "wf_tensor2 (features y)"
  using assms
  by (auto simp: SubMConv2d_forward_def wf_tensor2_def list_all_iff conv_feature_length
      split: if_splits)

lemma SparseConv2d_forward_props:
  assumes "SparseConv2d_forward cfg w bias x = Inr y"
  shows "conv_shape_ok cfg x"
    "spatial_shape y =
       (conv_out_size (fst (spatial_shape x)) (conv_kernel_size cfg) (conv_stride cfg) (conv_padding cfg),
        conv_out_size (snd (spatial_shape x)) (conv_kernel_size cfg) (conv_stride cfg) (conv_padding cfg))"
    "indices y = strided_out_indices cfg (spatial_shape y) (indices x)"
    "batch_size y = batch_size x" "ncols (features y) = out_channels cfg"
    "length (rows (features y)) = length (indices y)" "wf_tensor2 (features y)"
  using assms
  by (auto simp: SparseConv2d_forward_def Let_def wf_tensor2_def list_all_iff conv_feature_length
      split: if_splits prod.splits)

lemma SubMConv2d_forward_succeeds:
  "conv_shape_ok cfg x \<Longrightarrow> \<exists>y. SubMConv2d_forward cfg w bias x = Inr y"
  by (simp add: SubMConv2d_forward_def)

lemma SparseConv2d_forward_succeeds:
  "conv_shape_ok cfg x \<Longrightarrow> \<exists>y. SparseConv2d_forward cfg w bias x = Inr y"
  by (simp add: SparseConv2d_forward_def Let_def split: prod.splits)

lemma strided_out_indices_distinct: "distinct (strided_out_indices cfg shp idx)"
  by (simp add: strided_out_indices_def)

lemma strided_out_indices_in_grid:
  assumes "(b, oy, ox) \<in> set (strided_out_indices cfg (H', W') idx)"
  shows "0 \<le> oy \<and> oy < H' \<and> 0 \<le> ox \<and> ox < W' \<and> (\<exists>y x. (b, y, x) \<in> set idx)"
  using assms
  by (auto simp: strided_out_indices_def out_positions_def Let_def)

lemma SubMConvBNReLU_forward:
  "forward_module tr (SubMConvBNReLU i out k s g w b) (SparseV x) =
     (case SubMConv2d_forward (stage_cfg i out k s g) w None x of
        Inl e \<Rightarrow> Inl e
      | Inr y \<Rightarrow>
          if indices y = [] then Inr (SparseV y, SubMConvBNReLU i out k s g w b)
          else case BatchNorm1d_forward tr (stage_bn out b) (features y) of
                 Inl e \<Rightarrow> Inl e
               | Inr (t, b') \<Rightarrow>
                   Inr (SparseV (y\<lparr>features := relu2 t\<rparr>), SubMConvBNReLU i out k s g w b'))"
  unfolding SubMConvBNReLU_unfold
  by (auto simp: stage_bn_idem split: sum.splits prod.splits)

lemma SparseConvBNReLU_forward:
  "forward_module tr (SparseConvBNReLU i out k s g w b) (SparseV x) =
     (case SparseConv2d_forward (stage_cfg i out k s g) w None x of
        Inl e \<Rightarrow> Inl e
      | Inr y \<Rightarrow>
          if indices y = [] then Inr (SparseV y, SparseConvBNReLU i out k s g w b)
          else case BatchNorm1d_forward tr (stage_bn out b) (features y) of
                 Inl e \<Rightarrow> Inl e
               | Inr (t, b') \<Rightarrow>
                   Inr (SparseV (y\<lparr>features := relu2 t\<rparr>), SparseConvBNReLU i out k s g w b'))"
  unfolding SparseConvBNReLU_unfold
  by (auto simp: stage_bn_idem split: sum.splits prod.splits)


lemma relu2_props: "ncols (relu2 t) = ncols t" "length (rows (relu2 t)) = length (rows t)"
  "wf_tensor2 t \<Longrightarrow> wf_tensor2 (relu2 t)"
  by (auto simp: relu2_def wf_tensor2_def list_all_iff)

lemma stage_same_bn:
  "SubMConvBNReLU i out k s g w (stage_bn out b) = SubMConvBNReLU i out k s g w b"
  "SparseConvBNReLU i out k s g w (stage_bn out b) = SparseConvBNReLU i out k s g w b"
  by (simp_all add: SubMConvBNReLU_def SparseConvBNReLU_def stage_bn_def)

lemma SubMConvBNReLU_result:
  assumes "forward_module tr (SubMConvBNReLU i out k s g w b) (SparseV x) = Inr (v', m')"
  shows "\<exists>y b'. v' = SparseV y \<and> m' = SubMConvBNReLU i out k s g w b' \<and>
           (\<not> tr \<longrightarrow> m' = SubMConvBNReLU i out k s g w b) \<and>
           conv_shape_ok (stage_cfg i out k s g) x \<and>
           indices y = indices x \<and> spatial_shape y = spatial_shape x \<and>
           batch_size y = batch_size x \<and> ncols (features y) = out \<and>
           length (rows (features y)) = length (indices y) \<and> wf_tensor2 (features y)"
proof -
  from assms obtain y0 where c: "SubMConv2d_forward (stage_cfg i out k s g) w None x = Inr y0"
    by (auto simp: SubMConvBNReLU_forward split: sum.splits)
  note p = SubMConv2d_forward_props[OF c]
  have oc: "out_channels (stage_cfg i out k s g) = out" by (simp add: stage_cfg_def)
  show ?thesis
  proof (cases "indices y0 = []")
    case True
    with assms c have "v' = SparseV y0" "m' = SubMConvBNReLU i out k s g w b"
      by (simp_all add: SubMConvBNReLU_forward)
    with p oc show ?thesis by auto
  next
    case False
    with assms c obtain t b' where bn: "BatchNorm1d_forward tr (stage_bn out b) (features y0) = Inr (t, b')"
      and v: "v' = SparseV (y0\<lparr>features := relu2 t\<rparr>)" and m: "m' = SubMConvBNReLU i out k s g w b'"
      by (auto simp: SubMConvBNReLU_forward split: sum.splits)
    note q = BatchNorm1d_forward_keeps[OF bn]
    have "\<not> tr \<longrightarrow> m' = SubMConvBNReLU i out k s g w b"
      using q(10) m by (auto simp: stage_same_bn)
    moreover have "ncols (features (y0\<lparr>features := relu2 t\<rparr>)) = out"
      using q(6) p(5) oc by (simp add: relu2_props)
    moreover have "length (rows (features (y0\<lparr>features := relu2 t\<rparr>))) = length (indices (y0\<lparr>features := relu2 t\<rparr>))"
      using q(7) p(6) by (simp add: relu2_props)
    moreover have "wf_tensor2 (features (y0\<lparr>features := relu2 t\<rparr>))"
      using q(9) by (simp add: relu2_props)
    ultimately show ?thesis using v m p by auto
  qed
qed

lemma SparseConvBNReLU_result:
  assumes "forward_module tr (SparseConvBNReLU i out k s g w b) (SparseV x) = Inr (v', m')"
  shows "\<exists>y b'. v' = SparseV y \<and> m' = SparseConvBNReLU i out k s g w b' \<and>
           (\<not> tr \<longrightarrow> m' = SparseConvBNReLU i out k s g w b) \<and>
           conv_shape_ok (stage_cfg i out k s g) x \<and>
           spatial_shape y =
             (conv_out_size (fst (spatial_shape x)) k s ((k - 1) div 2),
              conv_out_size (snd (spatial_shape x)) k s ((k - 1) div 2)) \<and>
           indices y = strided_out_indices (stage_cfg i out k s g) (spatial_shape y) (indices x) \<and>
           batch_size y = batch_size x \<and> ncols (features y) = out \<and>
           length (rows (features y)) = length (indices y) \<and> wf_tensor2 (features y)"
proof -
  from assms obtain y0 where c: "SparseConv2d_forward (stage_cfg i out k s g) w None x = Inr y0"
    by (auto simp: SparseConvBNReLU_forward split: sum.splits)
  note p = SparseConv2d_forward_props[OF c]
  have oc: "out_channels (stage_cfg i out k s g) = out"
    "conv_kernel_size (stage_cfg i out k s g) = k" "conv_stride (stage_cfg i out k s g) = s"
    "conv_padding (stage_cfg i out k s g) = (k - 1) div 2"
    by (simp_all add: stage_cfg_def)
  show ?thesis
  proof (cases "indices y0 = []")
    case True
    with assms c have "v' = SparseV y0" "m' = SparseConvBNReLU i out k s g w b"
      by (simp_all add: SparseConvBNReLU_forward)
    with p oc show ?thesis by auto
  next
    case False
    with assms c obtain t b' where bn: "BatchNorm1d_forward tr (stage_bn out b) (features y0) = Inr (t, b')"
      and v: "v' = SparseV (y0\<lparr>features := relu2 t\<rparr>)" and m: "m' = SparseConvBNReLU i out k s g w b'"
      by (auto simp: SparseConvBNReLU_forward split: sum.splits)
    note q = BatchNorm1d_forward_keeps[OF bn]
    have "\<not> tr \<longrightarrow> m' = SparseConvBNReLU i out k s g w b"
      using q(10) m by (auto simp: stage_same_bn)
    moreover have "ncols (features (y0\<lparr>features := relu2 t\<rparr>)) = out"
      using q(6) p(5) oc by (simp add: relu2_props)
    moreover have "length (rows (features (y0\<lparr>features := relu2 t\<rparr>))) = length (indices (y0\<lparr>features := relu2 t\<rparr>))"
      using q(7) p(6) by (simp add: relu2_props)
    moreover have "wf_tensor2 (features (y0\<lparr>features := relu2 t\<rparr>))"
      using q(9) by (simp add: relu2_props)
    ultimately show ?thesis using v m p oc by auto
  qed
qed

lemma BatchNorm1d_eval_succeeds:
  "ncols t = num_features b \<Longrightarrow> \<exists>t'. BatchNorm1d_forward False b t = Inr (t', b)"
  by (simp add: BatchNorm1d_forward_def)

lemma SubMConvBNReLU_eval_succeeds:
  assumes "conv_shape_ok (stage_cfg i out k s g) x"
  shows "\<exists>y. forward_module False (SubMConvBNReLU i out k s g w b) (SparseV x) =
           Inr (SparseV y, SubMConvBNReLU i out k s g w b)"
proof -
  obtain y0 where c: "SubMConv2d_forward (stage_cfg i out k s g) w None x = Inr y0"
    using SubMConv2d_forward_succeeds[OF assms] by blast
  have "ncols (features y0) = num_features (stage_bn out b)"
    using SubMConv2d_forward_props(5)[OF c] by (simp add: stage_cfg_def stage_bn_def)
  then obtain t where "BatchNorm1d_forward False (stage_bn out b) (features y0) = Inr (t, stage_bn out b)"
    using BatchNorm1d_eval_succeeds by blast
  with c show ?thesis
    by (simp add: SubMConvBNReLU_forward stage_same_bn)
qed

lemma SparseConvBNReLU_eval_succeeds:
  assumes "conv_shape_ok (stage_cfg i out k s g) x"
  shows "\<exists>y. forward_module False (SparseConvBNReLU i out k s g w b) (SparseV x) =
           Inr (SparseV y, SparseConvBNReLU i out k s g w b)"
proof -
  obtain y0 where c: "SparseConv2d_forward (stage_cfg i out k s g) w None x = Inr y0"
    using SparseConv2d_forward_succeeds[OF assms] by blast
  have "ncols (features y0) = num_features (stage_bn out b)"
    using SparseConv2d_forward_props(5)[OF c] by (simp add: stage_cfg_def stage_bn_def)
  then obtain t where "BatchNorm1d_forward False (stage_bn out b) (features y0) = Inr (t, stage_bn out b)"
    using BatchNorm1d_eval_succeeds by blast
  with c show ?thesis
    by (simp add: SparseConvBNReLU_forward stage_same_bn)
qed

lemma one_site_shape_ok: "conv_shape_ok (stage_cfg 1 32 3 1 1) one_site"
  by (simp add: conv_shape_ok_def stage_cfg_def one_site_def)

lemma conv_out_size_floor:
  "conv_out_size H k s p = \<lfloor>real_of_int (H + 2 * p - k) / real_of_int s\<rfloor> + 1"
  unfolding conv_out_size_def by (simp only: floor_divide_of_int_eq)

text \<open>
  Claim C2. A submanifold stage keeps the coordinates: whenever a \<open>SubMConvBNReLU\<close> stage
  (any channel counts, kernel size, stride, groups, parameter values, training or
  evaluation mode) returns an output for a sparse input, the output's coordinates are the
  input's, as a list and hence as a set. In evaluation mode the stage does return an
  output for every input whose feature width and spatial shape fit the convolution.
\<close>

theorem C2_submanifold_keeps_coordinates:
  "(forward_module tr (SubMConvBNReLU i out k s g w b) (SparseV x) = Inr (v', m') \<longrightarrow>
      (\<exists>y. v' = SparseV y \<and> indices y = indices x \<and> set (indices y) = set (indices x))) \<and>
   (conv_shape_ok (stage_cfg i out k s g) x \<longrightarrow>
      (\<exists>y. forward_module False (SubMConvBNReLU i out k s g w b) (SparseV x) =
              Inr (SparseV y, SubMConvBNReLU i out k s g w b) \<and>
            set (indices y) = set (indices x)))"
proof (intro conjI impI)
  assume "forward_module tr (SubMConvBNReLU i out k s g w b) (SparseV x) = Inr (v', m')"
  from SubMConvBNReLU_result[OF this]
  show "\<exists>y. v' = SparseV y \<and> indices y = indices x \<and> set (indices y) = set (indices x)"
    by auto
next
  assume "conv_shape_ok (stage_cfg i out k s g) x"
  from SubMConvBNReLU_eval_succeeds[OF this, of w b]
  obtain y where y: "forward_module False (SubMConvBNReLU i out k s g w b) (SparseV x) =
      Inr (SparseV y, SubMConvBNReLU i out k s g w b)" by blast
  from SubMConvBNReLU_result[OF y] have "indices y = indices x" by auto
  with y show "\<exists>y. forward_module False (SubMConvBNReLU i out k s g w b) (SparseV x) =
      Inr (SparseV y, SubMConvBNReLU i out k s g w b) \<and> set (indices y) = set (indices x)"
    by auto
qed

theorem C2_submanifold_keeps_coordinates_witness:
  "conv_shape_ok (stage_cfg 1 32 3 1 1) one_site \<and>
   (\<exists>y. forward_module False (SubMConvBNReLU 1 32 3 1 1 (const_weight 1) (BatchNorm1d_init 32))
           (SparseV one_site) =
           Inr (SparseV y, SubMConvBNReLU 1 32 3 1 1 (const_weight 1) (BatchNorm1d_init 32)) \<and>
         indices y = [(0, 3, 4)] \<and> set (indices y) = {(0, 3, 4)})"
proof -
  note c2 = C2_submanifold_keeps_coordinates[of False 1 32 3 1 1 "const_weight 1"
      "BatchNorm1d_init 32" one_site]
  from one_site_shape_ok c2 obtain y where
    y: "forward_module False (SubMConvBNReLU 1 32 3 1 1 (const_weight 1) (BatchNorm1d_init 32))
          (SparseV one_site) =
        Inr (SparseV y, SubMConvBNReLU 1 32 3 1 1 (const_weight 1) (BatchNorm1d_init 32))"
    by blast
  from y C2_submanifold_keeps_coordinates[of False 1 32 3 1 1 "const_weight 1"
      "BatchNorm1d_init 32" one_site "SparseV y"
      "SubMConvBNReLU 1 32 3 1 1 (const_weight 1) (BatchNorm1d_init 32)"]
  have "indices y = indices one_site" by auto
  then have "indices y = [(0, 3, 4)]" "set (indices y) = {(0, 3, 4)}"
    by (simp_all add: one_site_def)
  with y one_site_shape_ok show ?thesis by blast
qed

text \<open>
  Claim C3. A strided stage's output spatial shape follows the formula: whenever a
  \<open>SparseConvBNReLU\<close> stage, or a bare \<open>SparseConv2d\<close> layer, returns an output, its
  spatial shape is \<open>H' = floor((H + 2*padding - kernel_size)/stride) + 1\<close> and the same
  for \<open>W\<close>, and every output coordinate lies in that grid. The stage
  \<open>SparseConvBNReLU(64, 64, 2, 2)\<close> of the networks maps a 28 x 28 input to 14 x 14.
\<close>

theorem C3_strided_output_shape:
  "(forward_module tr (SparseConvBNReLU i out k s g w b) (SparseV x) = Inr (v', m') \<longrightarrow>
      (\<exists>y. v' = SparseV y \<and>
         spatial_shape y =
           (\<lfloor>real_of_int (fst (spatial_shape x) + 2 * ((k - 1) div 2) - k) / real_of_int s\<rfloor> + 1,
            \<lfloor>real_of_int (snd (spatial_shape x) + 2 * ((k - 1) div 2) - k) / real_of_int s\<rfloor> + 1) \<and>
         list_all (\<lambda>(b, oy, ox). 0 \<le> oy \<and> oy < fst (spatial_shape y) \<and>
                                  0 \<le> ox \<and> ox < snd (spatial_shape y)) (indices y))) \<and>
   (forward_module tr (SparseConv2d cfg w bias) (SparseV x) = Inr (v', m') \<longrightarrow>
      (\<exists>y. v' = SparseV y \<and>
         spatial_shape y =
           (\<lfloor>real_of_int (fst (spatial_shape x) + 2 * conv_padding cfg - conv_kernel_size cfg)
               / real_of_int (conv_stride cfg)\<rfloor> + 1,
            \<lfloor>real_of_int (snd (spatial_shape x) + 2 * conv_padding cfg - conv_kernel_size cfg)
               / real_of_int (conv_stride cfg)\<rfloor> + 1))) \<and>
   (spatial_shape x = (28, 28) \<and> ncols (features x) = 64 \<longrightarrow>
      (\<exists>y. forward_module False (SparseConvBNReLU 64 64 2 2 1 w b) (SparseV x) =
              Inr (SparseV y, SparseConvBNReLU 64 64 2 2 1 w b) \<and>
            spatial_shape y = (14, 14)))"
proof (intro conjI impI)
  assume "forward_module tr (SparseConvBNReLU i out k s g w b) (SparseV x) = Inr (v', m')"
  from SparseConvBNReLU_result[OF this] obtain y where
    v: "v' = SparseV y"
    and sh: "spatial_shape y =
      (conv_out_size (fst (spatial_shape x)) k s ((k - 1) div 2),
       conv_out_size (snd (spatial_shape x)) k s ((k - 1) div 2))"
    and ix: "indices y = strided_out_indices (stage_cfg i out k s g) (spatial_shape y) (indices x)"
    by auto
  have "list_all (\<lambda>(b, oy, ox). 0 \<le> oy \<and> oy < fst (spatial_shape y) \<and>
      0 \<le> ox \<and> ox < snd (spatial_shape y)) (indices y)"
    unfolding list_all_iff
  proof
    fix c assume c: "c \<in> set (indices y)"
    obtain b oy ox where [simp]: "c = (b, oy, ox)" by (cases c) auto
    obtain H' W' where hw: "spatial_shape y = (H', W')" by (cases "spatial_shape y") auto
    from c ix hw have "(b, oy, ox) \<in> set (strided_out_indices (stage_cfg i out k s g) (H', W') (indices x))"
      by simp
    from strided_out_indices_in_grid[OF this] hw
    show "case c of (b, oy, ox) \<Rightarrow> 0 \<le> oy \<and> oy < fst (spatial_shape y) \<and>
        0 \<le> ox \<and> ox < snd (spatial_shape y)"
      by simp
  qed
  with v sh show "\<exists>y. v' = SparseV y \<and>
         spatial_shape y =
           (\<lfloor>real_of_int (fst (spatial_shape x) + 2 * ((k - 1) div 2) - k) / real_of_int s\<rfloor> + 1,
            \<lfloor>real_of_int (snd (spatial_shape x) + 2 * ((k - 1) div 2) - k) / real_of_int s\<rfloor> + 1) \<and>
         list_all (\<lambda>(b, oy, ox). 0 \<le> oy \<and> oy < fst (spatial_shape y) \<and>
                                  0 \<le> ox \<and> ox < snd (spatial_shape y)) (indices y)"
    by (simp add: conv_out_size_floor)
next
  assume "forward_module tr (SparseConv2d cfg w bias) (SparseV x) = Inr (v', m')"
  then obtain y where v: "v' = SparseV y" and c: "SparseConv2d_forward cfg w bias x = Inr y"
    by (auto split: sum.splits)
  from v SparseConv2d_forward_props(2)[OF c]
  show "\<exists>y. v' = SparseV y \<and>
         spatial_shape y =
           (\<lfloor>real_of_int (fst (spatial_shape x) + 2 * conv_padding cfg - conv_kernel_size cfg)
               / real_of_int (conv_stride cfg)\<rfloor> + 1,
            \<lfloor>real_of_int (snd (spatial_shape x) + 2 * conv_padding cfg - conv_kernel_size cfg)
               / real_of_int (conv_stride cfg)\<rfloor> + 1)"
    by (simp add: conv_out_size_floor)
next
  assume a: "spatial_shape x = (28, 28) \<and> ncols (features x) = 64"
  then have "conv_shape_ok (stage_cfg 64 64 2 2 1) x"
    by (simp add: conv_shape_ok_def stage_cfg_def)
  from SparseConvBNReLU_eval_succeeds[OF this, of w b] obtain y where
    y: "forward_module False (SparseConvBNReLU 64 64 2 2 1 w b) (SparseV x) =
      Inr (SparseV y, SparseConvBNReLU 64 64 2 2 1 w b)" by blast
  from SparseConvBNReLU_result[OF y] a have "spatial_shape y = (14, 14)"
    by (auto simp: conv_out_size_def)
  with y show "\<exists>y. forward_module False (SparseConvBNReLU 64 64 2 2 1 w b) (SparseV x) =
      Inr (SparseV y, SparseConvBNReLU 64 64 2 2 1 w b) \<and> spatial_shape y = (14, 14)"
    by blast
qed

theorem C3_strided_output_shape_witness:
  "spatial_shape (one_site\<lparr>features := \<lparr>ncols = 64, rows = [replicate 64 1]\<rparr>\<rparr>) = (28, 28) \<and>
   ncols (features (one_site\<lparr>features := \<lparr>ncols = 64, rows = [replicate 64 1]\<rparr>\<rparr>)) = 64 \<and>
   (\<exists>y. forward_module False (SparseConvBNReLU 64 64 2 2 1 (const_weight 1) (BatchNorm1d_init 64))
           (SparseV (one_site\<lparr>features := \<lparr>ncols = 64, rows = [replicate 64 1]\<rparr>\<rparr>)) =
           Inr (SparseV y, SparseConvBNReLU 64 64 2 2 1 (const_weight 1) (BatchNorm1d_init 64)) \<and>
         spatial_shape y = (14, 14) \<and>
         list_all (\<lambda>(b, oy, ox). 0 \<le> oy \<and> oy < 14 \<and> 0 \<le> ox \<and> ox < 14) (indices y))"
proof -
  let ?x = "one_site\<lparr>features := \<lparr>ncols = 64, rows = [replicate 64 1]\<rparr>\<rparr>"
  let ?m = "SparseConvBNReLU 64 64 2 2 1 (const_weight 1) (BatchNorm1d_init 64)"
  have h: "spatial_shape ?x = (28, 28)" "ncols (features ?x) = 64"
    by (simp_all add: one_site_def)
  with C3_strided_output_shape[of False 64 64 2 2 1 "const_weight 1" "BatchNorm1d_init 64" ?x]
  obtain y where y: "forward_module False ?m (SparseV ?x) = Inr (SparseV y, ?m)"
    and s: "spatial_shape y = (14, 14)"
    by blast
  from y C3_strided_output_shape[of False 64 64 2 2 1 "const_weight 1" "BatchNorm1d_init 64" ?x
      "SparseV y" ?m]
  have "\<exists>y'. SparseV y = SparseV y' \<and>
      list_all (\<lambda>(b, oy, ox). 0 \<le> oy \<and> oy < fst (spatial_shape y') \<and>
        0 \<le> ox \<and> ox < snd (spatial_shape y')) (indices y')"
    by blast
  then have "list_all (\<lambda>(b, oy, ox). 0 \<le> oy \<and> oy < fst (spatial_shape y) \<and>
      0 \<le> ox \<and> ox < snd (spatial_shape y)) (indices y)"
    by simp
  with s have "list_all (\<lambda>(b, oy, ox). 0 \<le> oy \<and> oy < 14 \<and> 0 \<le> ox \<and> ox < 14) (indices y)"
    by simp
  with h y s show ?thesis by blast
qed

text \<open>
  Claim C10. Both stage constructors derive the padding of their convolution from the
  kernel size alone, \<open>padding = (kernel_size - 1) div 2\<close>. Hence a stride-1 stage with an
  odd kernel size keeps the spatial shape (a submanifold stage keeps it for every kernel
  size and stride), and for an even kernel size the padding is strictly less than half
  the kernel size.
\<close>

theorem C10_stage_padding:
  "SubMConvBNReLU i out k s g w b =
     SparseSequential [SubMConv2d (stage_cfg i out k s g) w None, BatchNorm1d (stage_bn out b), ReLU] \<and>
   SparseConvBNReLU i out k s g w b =
     SparseSequential [SparseConv2d (stage_cfg i out k s g) w None, BatchNorm1d (stage_bn out b), ReLU] \<and>
   conv_kernel_size (stage_cfg i out k s g) = k \<and>
   conv_padding (stage_cfg i out k s g) = (k - 1) div 2 \<and>
   (odd k \<longrightarrow> conv_out_size H k 1 (conv_padding (stage_cfg i out k 1 g)) = H) \<and>
   (odd k \<and> forward_module tr (SparseConvBNReLU i out k 1 g w b) (SparseV x) = Inr (v', m') \<longrightarrow>
      (\<exists>y. v' = SparseV y \<and> spatial_shape y = spatial_shape x)) \<and>
   (forward_module tr (SubMConvBNReLU i out k s g w b) (SparseV x) = Inr (v'', m'') \<longrightarrow>
      (\<exists>y. v'' = SparseV y \<and> spatial_shape y = spatial_shape x)) \<and>
   (even k \<longrightarrow> 2 * conv_padding (stage_cfg i out k s g) < k \<and>
               real_of_int (conv_padding (stage_cfg i out k s g)) < real_of_int k / 2)"
proof -
  have odd_keeps: "conv_out_size E k 1 ((k - 1) div 2) = E" if "odd k" for E
  proof -
    from that obtain j where "k = 2 * j + 1" by (auto elim: oddE)
    then show ?thesis by (simp add: conv_out_size_def)
  qed
  have even_less: "2 * ((k - 1) div 2) < k" if "even k"
  proof -
    from that obtain j where "k = 2 * j" by (auto elim: evenE)
    then show ?thesis by simp
  qed
  have a: "odd k \<and> forward_module tr (SparseConvBNReLU i out k 1 g w b) (SparseV x) = Inr (v', m') \<longrightarrow>
      (\<exists>y. v' = SparseV y \<and> spatial_shape y = spatial_shape x)"
  proof
    assume h: "odd k \<and> forward_module tr (SparseConvBNReLU i out k 1 g w b) (SparseV x) = Inr (v', m')"
    from SparseConvBNReLU_result[OF conjunct2[OF h]] obtain y where
      "v' = SparseV y" "spatial_shape y =
        (conv_out_size (fst (spatial_shape x)) k 1 ((k - 1) div 2),
         conv_out_size (snd (spatial_shape x)) k 1 ((k - 1) div 2))"
      by auto
    with h show "\<exists>y. v' = SparseV y \<and> spatial_shape y = spatial_shape x"
      by (simp add: odd_keeps)
  qed
  have c: "forward_module tr (SubMConvBNReLU i out k s g w b) (SparseV x) = Inr (v'', m'') \<longrightarrow>
      (\<exists>y. v'' = SparseV y \<and> spatial_shape y = spatial_shape x)"
  proof
    assume "forward_module tr (SubMConvBNReLU i out k s g w b) (SparseV x) = Inr (v'', m'')"
    from SubMConvBNReLU_result[OF this]
    show "\<exists>y. v'' = SparseV y \<and> spatial_shape y = spatial_shape x" by auto
  qed
  have e: "even k \<longrightarrow> 2 * conv_padding (stage_cfg i out k s g) < k \<and>
      real_of_int (conv_padding (stage_cfg i out k s g)) < real_of_int k / 2"
  proof
    assume "even k"
    then have l: "2 * ((k - 1) div 2) < k" by (rule even_less)
    then have "real_of_int (2 * ((k - 1) div 2)) < real_of_int k" by (simp only: of_int_less_iff)
    then have "real_of_int ((k - 1) div 2) < real_of_int k / 2" by simp
    with l show "2 * conv_padding (stage_cfg i out k s g) < k \<and>
        real_of_int (conv_padding (stage_cfg i out k s g)) < real_of_int k / 2"
      by (simp add: stage_cfg_def)
  qed
  have o: "odd k \<longrightarrow> conv_out_size H k 1 (conv_padding (stage_cfg i out k 1 g)) = H"
    by (simp add: stage_cfg_def odd_keeps)
  show ?thesis
    using a c e o SubMConvBNReLU_unfold[of i out k s g w b] SparseConvBNReLU_unfold[of i out k s g w b]
    by (simp add: stage_cfg_def)
qed

theorem C10_stage_padding_witness:
  "odd (3::int) \<and> conv_padding (stage_cfg 1 32 3 1 1) = 1 \<and>
   conv_out_size 28 3 1 (conv_padding (stage_cfg 1 32 3 1 1)) = 28 \<and>
   (\<exists>y. forward_module False (SparseConvBNReLU 1 32 3 1 1 (const_weight 1) (BatchNorm1d_init 32))
           (SparseV one_site) =
           Inr (SparseV y, SparseConvBNReLU 1 32 3 1 1 (const_weight 1) (BatchNorm1d_init 32)) \<and>
         spatial_shape y = (28, 28)) \<and>
   even (2::int) \<and> conv_padding (stage_cfg 64 64 2 2 1) = 0 \<and>
   2 * conv_padding (stage_cfg 64 64 2 2 1) < 2"
proof -
  let ?m = "SparseConvBNReLU 1 32 3 1 1 (const_weight 1) (BatchNorm1d_init 32)"
  from SparseConvBNReLU_eval_succeeds[OF one_site_shape_ok, of "const_weight 1" "BatchNorm1d_init 32"]
  obtain y where y: "forward_module False ?m (SparseV one_site) = Inr (SparseV y, ?m)" by blast
  have o: "odd (3::int)" by simp
  from o y C10_stage_padding[of 1 32 3 1 1 "const_weight 1" "BatchNorm1d_init 32" 28 False
      one_site "SparseV y" ?m]
  have "\<exists>y'. SparseV y = SparseV y' \<and> spatial_shape y' = spatial_shape one_site"
    and k3: "conv_out_size 28 3 1 (conv_padding (stage_cfg 1 32 3 1 1)) = 28"
    by blast+
  then have s: "spatial_shape y = (28, 28)" by (simp add: one_site_def)
  have p3: "conv_padding (stage_cfg 1 32 3 1 1) = 1"
    using C10_stage_padding[of 1 32 3 1 1 "const_weight 1" "BatchNorm1d_init 32" 28 False
      one_site "SparseV y" ?m] by simp
  have e: "even (2::int)" by simp
  from e C10_stage_padding[of 64 64 2 2 1 "const_weight 1" "BatchNorm1d_init 64" 28 False
      one_site "SparseV y" ?m]
  have l: "2 * conv_padding (stage_cfg 64 64 2 2 1) < 2"
    by blast
  have p2: "conv_padding (stage_cfg 64 64 2 2 1) = 0"
    by (simp add: stage_cfg_def)
  from o e p3 k3 y s l p2 show ?thesis by blast
qed

section \<open>Shapes through a container\<close>

lemma forward_children_Cons:
  "forward_children tr (m # ms) v =
     (case child_step tr m v of
        Inl e \<Rightarrow> Inl e
      | Inr (v', m') \<Rightarrow>
          (case forward_children tr ms v' of
             Inl e \<Rightarrow> Inl e
           | Inr (v'', ms') \<Rightarrow> Inr (v'', m' # ms')))"
  by (simp add: child_step_def)

lemma batch_ok_strided:
  assumes "batch_ok N idx"
  shows "batch_ok N (strided_out_indices cfg (H', W') idx)"
  unfolding batch_ok_def list_all_iff
proof
  fix c assume c: "c \<in> set (strided_out_indices cfg (H', W') idx)"
  obtain b oy ox where [simp]: "c = (b, oy, ox)" by (cases c) auto
  from strided_out_indices_in_grid[of b oy ox cfg H' W' idx] c
  obtain y x where "(b, y, x) \<in> set idx" by auto
  with assms show "case c of (b, y, x) \<Rightarrow> 0 \<le> b \<and> b < N"
    by (auto simp: batch_ok_def list_all_iff)
qed

lemma grid_strided:
  "list_all (\<lambda>(b, y, z). 0 \<le> y \<and> y < H' \<and> 0 \<le> z \<and> z < W') (strided_out_indices cfg (H', W') idx)"
  unfolding list_all_iff
proof
  fix c assume c: "c \<in> set (strided_out_indices cfg (H', W') idx)"
  obtain b oy ox where [simp]: "c = (b, oy, ox)" by (cases c) auto
  from strided_out_indices_in_grid[of b oy ox cfg H' W' idx] c
  show "case c of (b, y, z) \<Rightarrow> 0 \<le> y \<and> y < H' \<and> 0 \<le> z \<and> z < W'" by auto
qed

lemma wf_relu4: "wf_tensor4 d \<Longrightarrow> wf_tensor4 (relu4 d)"
  by (auto simp: wf_tensor4_def relu4_def list_all_iff split: prod.splits)

lemma shape_relu4: "shape4 (relu4 d) = shape4 d"
  by (simp add: relu4_def)


lemma wf_tensor4_I:
  assumes "shaped n h w t"
    and "\<And>b y x. b < n \<Longrightarrow> y < h \<Longrightarrow> x < w \<Longrightarrow> length (t ! b ! y ! x) = c"
  shows "wf_tensor4 \<lparr>shape4 = (n, h, w, c), data4 = t\<rparr>"
proof -
  have l: "length t = n" using assms(1) by (simp add: shaped_def)
  have "length (t ! b) = h \<and>
      list_all (\<lambda>row. length row = w \<and> list_all (\<lambda>px. length px = c) row) (t ! b)"
    if b: "b < n" for b
  proof -
    have lb: "length (t ! b) = h" using shaped_nth(1)[OF assms(1) b] .
    have "length (t ! b ! y) = w \<and> list_all (\<lambda>px. length px = c) (t ! b ! y)"
      if y: "y < h" for y
    proof -
      have ly: "length (t ! b ! y) = w" using shaped_nth(2)[OF assms(1) b y] .
      then show ?thesis using assms(2)[OF b y] by (simp add: list_all_length)
    qed
    then show ?thesis using lb by (simp add: list_all_length)
  qed
  then show ?thesis using l by (simp add: wf_tensor4_def list_all_length)
qed

lemma dense_ok:
  assumes "distinct (indices x)" "length (rows (features x)) = length (indices x)"
    "list_all (in_range (nat N) (nat H) (nat W)) (indices x)"
    "wf_tensor2 (features x)" "spatial_shape x = (H, W)" "batch_size x = N"
  shows "\<exists>d. dense x = Inr d \<and> shape4 d = (nat N, nat H, nat W, ncols (features x)) \<and> wf_tensor4 d"
proof -
  let ?n = "nat N" and ?h = "nat H" and ?w = "nat W" and ?c = "ncols (features x)"
  let ?kvs = "zip (indices x) (rows (features x))"
  let ?t = "scatter ?kvs (zeros4 ?n ?h ?w ?c)"
  have d: "dense x = Inr \<lparr>shape4 = (?n, ?h, ?w, ?c), data4 = ?t\<rparr>"
    using assms by (simp add: dense_def Let_def)
  have keys: "map fst ?kvs = indices x" using assms(2) by (simp add: map_fst_zip)
  have sh: "shaped ?n ?h ?w ?t" by (intro shaped_scatter shaped_zeros4)
  have px: "length (?t ! b ! y ! z) = ?c" if r: "b < ?n" "y < ?h" "z < ?w" for b y z
  proof -
    have g: "?t ! b ! y ! z =
        (case map_of ?kvs (int b, int y, int z) of Some f \<Rightarrow> f
         | None \<Rightarrow> zeros4 ?n ?h ?w ?c ! b ! y ! z)"
      using r assms(1,3) by (intro get_scatter) (simp_all add: keys shaped_zeros4)
    show ?thesis
    proof (cases "map_of ?kvs (int b, int y, int z)")
      case None
      with g r show ?thesis by (simp add: zeros4_def)
    next
      case (Some f)
      then have "f \<in> set (rows (features x))"
        by (meson map_of_SomeD set_zip_rightD)
      with assms(4) have "length f = ?c" by (auto simp: wf_tensor2_def list_all_iff)
      with g Some show ?thesis by simp
    qed
  qed
  have "wf_tensor4 \<lparr>shape4 = (?n, ?h, ?w, ?c), data4 = ?t\<rparr>"
    using sh px by (rule wf_tensor4_I)
  with d show ?thesis by simp
qed

lemma in_range_of_sat:
  assumes "batch_ok N idx" "list_all (\<lambda>(b, y, z). 0 \<le> y \<and> y < H \<and> 0 \<le> z \<and> z < W) idx"
  shows "list_all (in_range (nat N) (nat H) (nat W)) idx"
  using assms by (auto simp: batch_ok_def list_all_iff in_range_def)

lemma length_concat_uniform:
  "(\<forall>xs \<in> set xss. length xs = k) \<Longrightarrow> length (concat xss) = length xss * k"
  by (induction xss) auto

lemma flatten1_props:
  assumes "wf_tensor4 d" "shape4 d = (n, h, w, c)"
  shows "ncols (flatten1 d) = h * w * c" "length (rows (flatten1 d)) = n" "wf_tensor2 (flatten1 d)"
proof -
  show "ncols (flatten1 d) = h * w * c" using assms(2) by (simp add: flatten1_def)
  show "length (rows (flatten1 d)) = n" using assms by (simp add: flatten1_def wf_tensor4_def)
  have "length (concat (concat img)) = h * w * c" if "img \<in> set (data4 d)" for img
  proof -
    from that assms have li: "length img = h"
      and rows: "\<forall>row \<in> set img. length row = w \<and> (\<forall>px \<in> set row. length px = c)"
      by (auto simp: wf_tensor4_def list_all_iff)
    have "\<forall>row \<in> set img. length row = w" using rows by simp
    then have lc: "length (concat img) = h * w" using li length_concat_uniform[of img w] by simp
    have "\<forall>px \<in> set (concat img). length px = c" using rows by auto
    then show ?thesis using lc length_concat_uniform[of "concat img" c] by simp
  qed
  then show "wf_tensor2 (flatten1 d)"
    using assms(2) by (simp add: flatten1_def wf_tensor2_def list_all_iff)
qed

lemma log_softmax_props:
  "ncols (log_softmax t) = ncols t" "length (rows (log_softmax t)) = length (rows t)"
  "wf_tensor2 t \<Longrightarrow> wf_tensor2 (log_softmax t)"
  by (auto simp: log_softmax_def log_softmax_row_def wf_tensor2_def list_all_iff)


lemma sat_cases:
  assumes "sat N s v"
  obtains (Sparse) H W C clean x where "s = SparseS H W C clean" "v = SparseV x"
  | (Dense) h w c d where "s = DenseS h w c" "v = Tensor4V d"
  using assms by (cases s; cases v) auto

lemma sound_SubMConv2d: "sound_step tr N (SubMConv2d cfg w bias)"
  unfolding sound_step_def
proof (intro allI impI)
  fix s s' v
  assume sh: "shape_module (SubMConv2d cfg w bias) s = Some s'" and st: "sat N s v"
  from st sh obtain H W C clean x where s: "s = SparseS H W C clean" and v: "v = SparseV x"
    by (cases rule: sat_cases) auto
  from sh s have c: "C = in_channels cfg" "\<not> H < conv_kernel_size cfg - conv_padding cfg"
      "\<not> W < conv_kernel_size cfg - conv_padding cfg"
    and s': "s' = SparseS H W (out_channels cfg) clean"
    by (auto split: if_splits)
  from st c have ok: "conv_shape_ok cfg x" by (simp add: s v conv_shape_ok_def)
  then obtain y where y: "SubMConv2d_forward cfg w bias x = Inr y"
    using SubMConv2d_forward_succeeds by blast
  note p = SubMConv2d_forward_props[OF y]
  have cs: "child_step tr' (SubMConv2d cfg w bias) v = Inr (SparseV y, SubMConv2d cfg w bias)" for tr'
    by (simp add: child_step_def v y)
  have "sat N s' (SparseV y)"
    using st p by (simp add: s s' v)
  with cs show "(\<forall>v' m'. child_step tr (SubMConv2d cfg w bias) v = Inr (v', m') \<longrightarrow> sat N s' v') \<and>
      (\<not> tr \<longrightarrow> (\<exists>v' m'. child_step tr (SubMConv2d cfg w bias) v = Inr (v', m')))"
    by simp
qed

lemma sound_SparseConv2d: "sound_step tr N (SparseConv2d cfg w bias)"
  unfolding sound_step_def
proof (intro allI impI)
  fix s s' v
  assume sh: "shape_module (SparseConv2d cfg w bias) s = Some s'" and st: "sat N s v"
  from st sh obtain H W C clean x where s: "s = SparseS H W C clean" and v: "v = SparseV x"
    by (cases rule: sat_cases) auto
  let ?H' = "conv_out_size H (conv_kernel_size cfg) (conv_stride cfg) (conv_padding cfg)"
  let ?W' = "conv_out_size W (conv_kernel_size cfg) (conv_stride cfg) (conv_padding cfg)"
  from sh s have c: "C = in_channels cfg" "\<not> H < conv_kernel_size cfg - conv_padding cfg"
      "\<not> W < conv_kernel_size cfg - conv_padding cfg"
    and s': "s' = SparseS ?H' ?W' (out_channels cfg) True"
    by (auto split: if_splits)
  from st c have ok: "conv_shape_ok cfg x" by (simp add: s v conv_shape_ok_def)
  then obtain y where y: "SparseConv2d_forward cfg w bias x = Inr y"
    using SparseConv2d_forward_succeeds by blast
  note p = SparseConv2d_forward_props[OF y]
  have shp: "spatial_shape y = (?H', ?W')" using p(2) st by (simp add: s v)
  have ix: "indices y = strided_out_indices cfg (?H', ?W') (indices x)" using p(3) shp by simp
  have cs: "child_step tr' (SparseConv2d cfg w bias) v = Inr (SparseV y, SparseConv2d cfg w bias)" for tr'
    by (simp add: child_step_def v y)
  have "batch_ok N (indices x)" using st by (simp add: s v)
  then have "batch_ok N (indices y)" unfolding ix by (rule batch_ok_strided)
  moreover have "distinct (indices y)" unfolding ix by (rule strided_out_indices_distinct)
  moreover have "list_all (\<lambda>(b, y, z). 0 \<le> y \<and> y < ?H' \<and> 0 \<le> z \<and> z < ?W') (indices y)"
    unfolding ix by (rule grid_strided)
  ultimately have "sat N s' (SparseV y)"
    using st p(4-7) shp by (simp add: s s' v)
  with cs show "(\<forall>v' m'. child_step tr (SparseConv2d cfg w bias) v = Inr (v', m') \<longrightarrow> sat N s' v') \<and>
      (\<not> tr \<longrightarrow> (\<exists>v' m'. child_step tr (SparseConv2d cfg w bias) v = Inr (v', m')))"
    by simp
qed

lemma sound_BatchNorm1d: "sound_step tr N (BatchNorm1d b)"
  unfolding sound_step_def
proof (intro allI impI)
  fix s s' v
  assume sh: "shape_module (BatchNorm1d b) s = Some s'" and st: "sat N s v"
  from st sh obtain H W C clean x where s: "s = SparseS H W C clean" and v: "v = SparseV x"
    by (cases rule: sat_cases) auto
  from sh s have c: "C = num_features b" and s': "s' = s" by (auto split: if_splits)
  show "(\<forall>v' m'. child_step tr (BatchNorm1d b) v = Inr (v', m') \<longrightarrow> sat N s' v') \<and>
      (\<not> tr \<longrightarrow> (\<exists>v' m'. child_step tr (BatchNorm1d b) v = Inr (v', m')))"
  proof (cases "indices x = []")
    case True
    then show ?thesis using st by (simp add: child_step_def v s')
  next
    case False
    have a: "sat N s' v'" if "child_step tr (BatchNorm1d b) v = Inr (v', m')" for v' m'
    proof -
      from that False obtain t b' where bn: "BatchNorm1d_forward tr b (features x) = Inr (t, b')"
        and v': "v' = SparseV (x\<lparr>features := t\<rparr>)"
        by (auto simp: child_step_def v split: sum.splits)
      note q = BatchNorm1d_forward_keeps[OF bn]
      show ?thesis using st q(6,7,9) by (simp add: s s' v v')
    qed
    have "\<exists>v' m'. child_step False (BatchNorm1d b) v = Inr (v', m')"
    proof -
      have "ncols (features x) = num_features b" using st c by (simp add: s v)
      then obtain t where "BatchNorm1d_forward False b (features x) = Inr (t, b)"
        using BatchNorm1d_eval_succeeds by blast
      then show ?thesis using False by (simp add: child_step_def v)
    qed
    with a show ?thesis by auto
  qed
qed

lemma sound_ReLU: "sound_step tr N ReLU"
  unfolding sound_step_def
proof (intro allI impI)
  fix s s' v
  assume sh: "shape_module ReLU s = Some s'" and st: "sat N s v"
  then have s': "s' = s" by simp
  from st show "(\<forall>v' m'. child_step tr ReLU v = Inr (v', m') \<longrightarrow> sat N s' v') \<and>
      (\<not> tr \<longrightarrow> (\<exists>v' m'. child_step tr ReLU v = Inr (v', m')))"
  proof (cases rule: sat_cases)
    case (Sparse H W C clean x)
    with st show ?thesis
      by (auto simp: child_step_def s' relu2_props)
  next
    case (Dense h w c d)
    with st show ?thesis
      by (auto simp: child_step_def s' wf_relu4 shape_relu4)
  qed
qed

lemma sound_ToDense: "sound_step tr N ToDense"
  unfolding sound_step_def
proof (intro allI impI)
  fix s s' v
  assume sh: "shape_module ToDense s = Some s'" and st: "sat N s v"
  from st sh obtain H W C clean x where s: "s = SparseS H W C clean" and v: "v = SparseV x"
    by (cases rule: sat_cases) auto
  from sh s have cl: "clean" and s': "s' = DenseS (nat H) (nat W) C" by (auto split: if_splits)
  have "list_all (in_range (nat N) (nat H) (nat W)) (indices x)"
    using st cl by (intro in_range_of_sat) (simp_all add: s v)
  then obtain d where d: "dense x = Inr d"
    "shape4 d = (nat N, nat H, nat W, ncols (features x))" "wf_tensor4 d"
    using dense_ok[of x N H W] st cl by (auto simp: s v)
  have cs: "child_step tr' ToDense v = Inr (Tensor4V d, ToDense)" for tr'
    by (simp add: child_step_def v d(1))
  have "sat N s' (Tensor4V d)" using d(2,3) st by (simp add: s s' v)
  with cs show "(\<forall>v' m'. child_step tr ToDense v = Inr (v', m') \<longrightarrow> sat N s' v') \<and>
      (\<not> tr \<longrightarrow> (\<exists>v' m'. child_step tr ToDense v = Inr (v', m')))"
    by simp
qed

lemma sound_transparent:
  assumes "\<not> is_spconv_module m" "shape_module m = Some"
    and "\<And>tr t. \<exists>m'. forward_module tr m (Tensor2V t) = Inr (Tensor2V t, m')"
    and "\<And>tr d. \<exists>m'. forward_module tr m (Tensor4V d) = Inr (Tensor4V d, m')"
  shows "sound_step tr N m"
  unfolding sound_step_def
proof (intro allI impI)
  fix s s' v
  assume sh: "shape_module m s = Some s'" and st: "sat N s v"
  then have s': "s' = s" by (simp add: assms(2))
  from st show "(\<forall>v' m'. child_step tr m v = Inr (v', m') \<longrightarrow> sat N s' v') \<and>
      (\<not> tr \<longrightarrow> (\<exists>v' m'. child_step tr m v = Inr (v', m')))"
  proof (cases rule: sat_cases)
    case (Sparse H W C clean x)
    obtain m1 where "forward_module tr m (Tensor2V (features x)) = Inr (Tensor2V (features x), m1)"
      using assms(3) by blast
    then have "child_step tr m v = Inr (v, if indices x = [] then m else m1)"
      using assms(1) by (simp add: child_step_def Sparse)
    with st show ?thesis by (auto simp: s')
  next
    case (Dense h w c d)
    obtain m1 where "forward_module tr m (Tensor4V d) = Inr (Tensor4V d, m1)"
      using assms(4) by blast
    then have "child_step tr m v = Inr (v, m1)"
      using assms(1) by (simp add: child_step_def Dense)
    with st show ?thesis by (auto simp: s')
  qed
qed

lemma sound_stubs:
  "sound_step tr N QuantStub" "sound_step tr N DeQuantStub" "sound_step tr N (Observer r)"
  by (rule sound_transparent; auto)+


lemma sound_children:
  assumes "\<And>m. m \<in> set ms \<Longrightarrow> sound_step tr N m"
    and "shape_children ms s = Some s'" "sat N s v"
  shows "(\<forall>v' ms'. forward_children tr ms v = Inr (v', ms') \<longrightarrow> sat N s' v') \<and>
         (\<not> tr \<longrightarrow> (\<exists>v' ms'. forward_children tr ms v = Inr (v', ms')))"
  using assms
proof (induction ms arbitrary: s v)
  case Nil
  then show ?case by simp
next
  case (Cons m ms)
  from Cons.prems(2) obtain s1 where s1: "shape_module m s = Some s1"
    and rest: "shape_children ms s1 = Some s'"
    by (auto split: option.splits)
  have sm: "sound_step tr N m" using Cons.prems(1) by simp
  from sm s1 Cons.prems(3)
  have step: "\<forall>v' m'. child_step tr m v = Inr (v', m') \<longrightarrow> sat N s1 v'"
    and ex: "\<not> tr \<longrightarrow> (\<exists>v' m'. child_step tr m v = Inr (v', m'))"
    unfolding sound_step_def by blast+
  have ih: "(\<forall>v' ms'. forward_children tr ms v1 = Inr (v', ms') \<longrightarrow> sat N s' v') \<and>
      (\<not> tr \<longrightarrow> (\<exists>v' ms'. forward_children tr ms v1 = Inr (v', ms')))"
    if "sat N s1 v1" for v1
    using Cons.IH[OF _ rest that] Cons.prems(1) by simp
  show ?case
  proof (intro conjI allI impI)
    fix v' ms'
    assume "forward_children tr (m # ms) v = Inr (v', ms')"
    then obtain v1 m1 ms1 where c: "child_step tr m v = Inr (v1, m1)"
      and f: "forward_children tr ms v1 = Inr (v', ms1)"
      unfolding forward_children_Cons by (auto split: sum.splits)
    from step c have "sat N s1 v1" by blast
    from ih[OF this] f show "sat N s' v'" by blast
  next
    assume nt: "\<not> tr"
    with ex obtain v1 m1 where c: "child_step tr m v = Inr (v1, m1)" by blast
    from step c have "sat N s1 v1" by blast
    from ih[OF this] nt obtain v2 ms2 where "forward_children tr ms v1 = Inr (v2, ms2)" by blast
    with c show "\<exists>v' ms'. forward_children tr (m # ms) v = Inr (v', ms')"
      unfolding forward_children_Cons by simp
  qed
qed

lemma sound_module: "sound_step tr N m"
proof (induction m)
  case (SparseSequential ms)
  show ?case
    unfolding sound_step_def
  proof (intro allI impI)
    fix s s' v
    assume sh: "shape_module (SparseSequential ms) s = Some s'" and st: "sat N s v"
    from st sh obtain H W C clean x where s: "s = SparseS H W C clean" and v: "v = SparseV x"
      by (cases rule: sat_cases) auto
    from sh s have shc: "shape_children ms s = Some s'" by simp
    note sc = sound_children[OF SparseSequential.IH shc st]
    have cs: "child_step tr' (SparseSequential ms) v =
        (case forward_children tr' ms v of Inl e \<Rightarrow> Inl e
         | Inr (v', ms') \<Rightarrow> Inr (v', SparseSequential ms'))" for tr'
      by (simp add: child_step_def v)
    show "(\<forall>v' m'. child_step tr (SparseSequential ms) v = Inr (v', m') \<longrightarrow> sat N s' v') \<and>
        (\<not> tr \<longrightarrow> (\<exists>v' m'. child_step tr (SparseSequential ms) v = Inr (v', m')))"
    proof (intro conjI allI impI)
      fix v' m'
      assume "child_step tr (SparseSequential ms) v = Inr (v', m')"
      then obtain ms' where "forward_children tr ms v = Inr (v', ms')"
        unfolding cs by (auto split: sum.splits)
      with sc show "sat N s' v'" by blast
    next
      assume "\<not> tr"
      with sc obtain v' ms' where "forward_children tr ms v = Inr (v', ms')" by blast
      then show "\<exists>v' m'. child_step tr (SparseSequential ms) v = Inr (v', m')"
        unfolding cs by simp
    qed
  qed
qed (simp_all add: sound_SubMConv2d sound_SparseConv2d sound_BatchNorm1d sound_ReLU
    sound_ToDense sound_stubs)

lemma net_sound:
  assumes "shape_children ms s = Some s'" "sat N s (SparseV x)"
  shows "(\<forall>v' m'. forward_module tr (SparseSequential ms) (SparseV x) = Inr (v', m') \<longrightarrow> sat N s' v') \<and>
         (\<not> tr \<longrightarrow> (\<exists>v' m'. forward_module tr (SparseSequential ms) (SparseV x) = Inr (v', m')))"
proof -
  have sc: "(\<forall>v' ms'. forward_children tr ms (SparseV x) = Inr (v', ms') \<longrightarrow> sat N s' v') \<and>
      (\<not> tr \<longrightarrow> (\<exists>v' ms'. forward_children tr ms (SparseV x) = Inr (v', ms')))"
    using assms by (intro sound_children sound_module)
  show ?thesis
  proof (intro conjI allI impI)
    fix v' m'
    assume "forward_module tr (SparseSequential ms) (SparseV x) = Inr (v', m')"
    then obtain ms' where "forward_children tr ms (SparseV x) = Inr (v', ms')"
      by (auto split: sum.splits)
    with sc show "sat N s' v'" by blast
  next
    assume "\<not> tr"
    with sc obtain v' ms' where "forward_children tr ms (SparseV x) = Inr (v', ms')" by blast
    then show "\<exists>v' m'. forward_module tr (SparseSequential ms) (SparseV x) = Inr (v', m')"
      by simp
  qed
qed

section \<open>The output shape of the network\<close>

lemma transparent_forward2:
  "transparent m \<Longrightarrow> \<exists>m'. forward_module tr m (Tensor2V t) = Inr (Tensor2V t, m') \<and> transparent m'"
  by (cases m) auto

lemma NetPTQ_net_shape:
  "\<exists>ms. NetPTQ_net P = SparseSequential ms \<and>
        shape_children ms (SparseS 28 28 1 clean) = Some (DenseS 1 1 10)"
  by (simp add: NetPTQ_net_def SubMConvBNReLU_def SparseConvBNReLU_def conv_out_size_def Let_def)

lemma NetPTQ_described_net_shape:
  "\<exists>ms. NetPTQ_described_net P = SparseSequential ms \<and>
        shape_children ms (SparseS 28 28 1 clean) = Some (DenseS 1 1 10)"
  by (simp add: NetPTQ_described_net_def SubMConvBNReLU_def SparseConvBNReLU_def conv_out_size_def Let_def)

lemma NetPTQ_forward_shape:
  assumes net: "ptq_net M = SparseSequential ms"
      "shape_children ms (SparseS 28 28 (ncols feats) False) = Some (DenseS h w c)"
    and stubs: "transparent (ptq_quant M)" "transparent (ptq_dequant M)"
    and inp: "wf_tensor2 feats" "length (rows feats) = length idx" "batch_ok N idx"
  shows "(\<forall>out M'. NetPTQ_forward M feats idx N = Inr (out, M') \<longrightarrow>
            ncols out = h * w * c \<and> length (rows out) = nat N \<and> wf_tensor2 out) \<and>
         (\<not> ptq_training M \<longrightarrow> (\<exists>out M'. NetPTQ_forward M feats idx N = Inr (out, M')))"
proof -
  let ?tr = "ptq_training M"
  let ?x = "\<lparr>features = feats, indices = idx, spatial_shape = (28, 28), batch_size = N\<rparr>"
  obtain q' where q: "forward_module ?tr (ptq_quant M) (Tensor2V feats) = Inr (Tensor2V feats, q')"
    using transparent_forward2[OF stubs(1)] by blast
  have dq: "\<exists>d'. forward_module ?tr (ptq_dequant M) (Tensor2V t) = Inr (Tensor2V t, d')" for t
    using transparent_forward2[OF stubs(2)] by blast
  have st: "sat N (SparseS 28 28 (ncols feats) False) (SparseV ?x)"
    using inp by simp
  note ns = net_sound[OF net(2) st, of ?tr, folded net(1)]
  have ns1: "sat N (DenseS h w c) v'"
    if "forward_module ?tr (ptq_net M) (SparseV ?x) = Inr (v', m')" for v' m'
    using conjunct1[OF ns] that by simp
  have ns2: "\<exists>v' m'. forward_module ?tr (ptq_net M) (SparseV ?x) = Inr (v', m')"
    if "\<not> ?tr"
    using conjunct2[OF ns] that by simp
  have body: "NetPTQ_forward M feats idx N =
      (case forward_module ?tr (ptq_net M) (SparseV ?x) of
         Inl e \<Rightarrow> Inl e
       | Inr (x, net') \<Rightarrow>
      (case flatten_val x of
         Inl e \<Rightarrow> Inl e
       | Inr x1 \<Rightarrow>
      (case forward_module ?tr (ptq_dequant M) (Tensor2V x1) of
         Inl e \<Rightarrow> Inl e
       | Inr (dv, dequant') \<Rightarrow>
      (case as_tensor2 dv of
         Inl e \<Rightarrow> Inl e
       | Inr x2 \<Rightarrow>
           Inr (log_softmax x2, M\<lparr>ptq_net := net', ptq_quant := q', ptq_dequant := dequant'\<rparr>)))))"
    unfolding NetPTQ_forward_def Let_def q by (simp add: as_tensor2_def)
  have res: "\<exists>d. v = Tensor4V d \<and> shape4 d = (nat N, h, w, c) \<and> wf_tensor4 d"
    if "sat N (DenseS h w c) v" for v
    using that by (cases v) auto
  show ?thesis
  proof (intro conjI allI impI)
    fix out M'
    assume a: "NetPTQ_forward M feats idx N = Inr (out, M')"
    then obtain v net' where f: "forward_module ?tr (ptq_net M) (SparseV ?x) = Inr (v, net')"
      unfolding body by (auto split: sum.splits)
    from ns1[OF f] have "sat N (DenseS h w c) v" .
    from res[OF this] obtain d where v: "v = Tensor4V d" and d: "shape4 d = (nat N, h, w, c)" "wf_tensor4 d"
      by auto
    obtain d' where dq': "forward_module ?tr (ptq_dequant M) (Tensor2V (flatten1 d)) = Inr (Tensor2V (flatten1 d), d')"
      using dq[of "flatten1 d"] by auto
    from a have "out = log_softmax (flatten1 d)"
      unfolding body by (simp add: f v flatten_val_def dq' as_tensor2_def)
    then show "ncols out = h * w * c" "length (rows out) = nat N" "wf_tensor2 out"
      using flatten1_props[OF d(2,1)] by (simp_all add: log_softmax_props)
  next
    assume "\<not> ptq_training M"
    from ns2[OF this] obtain v net' where f: "forward_module ?tr (ptq_net M) (SparseV ?x) = Inr (v, net')"
      by auto
    from ns1[OF f] have "sat N (DenseS h w c) v" .
    from res[OF this] obtain d where v: "v = Tensor4V d" by auto
    obtain d' where dq': "forward_module ?tr (ptq_dequant M) (Tensor2V (flatten1 d)) = Inr (Tensor2V (flatten1 d), d')"
      using dq[of "flatten1 d"] by auto
    show "\<exists>out M'. NetPTQ_forward M feats idx N = Inr (out, M')"
      unfolding body by (simp add: f v flatten_val_def dq' as_tensor2_def)
  qed
qed

lemma from_dense_fields:
  assumes "shape4 B = (n, h, w, c)"
  shows "spatial_shape (from_dense B) = (int h, int w)" "batch_size (from_dense B) = int n"
    "ncols (features (from_dense B)) = c"
    "length (rows (features (from_dense B))) = length (indices (from_dense B))"
  using assms by (simp_all add: from_dense_def)

lemma from_dense_wf_features:
  assumes "wf_tensor4 B"
  shows "wf_tensor2 (features (from_dense B))"
proof -
  obtain n h w c where sh: "shape4 B = (n, h, w, c)" by (cases "shape4 B") auto
  have "length (data4 B ! b ! y ! x) = c" if "(b, y, x) \<in> set (active_sites B)" for b y x
    using that wf_tensor4_nth(4)[OF assms sh] by (simp add: set_active_sites[OF sh])
  then show ?thesis
    using sh by (auto simp: from_dense_def wf_tensor2_def list_all_iff)
qed

lemma from_dense_batch_ok:
  assumes "shape4 B = (n, h, w, c)"
  shows "batch_ok (int n) (indices (from_dense B))"
  using from_dense_in_range[OF assms]
  by (auto simp: batch_ok_def list_all_iff in_range_def)


lemma wf_one_pixel_image: "wf_tensor4 one_pixel_image"
  by (simp add: wf_tensor4_def one_pixel_image_def list_all_length nth_list_update)

lemma NetPTQ_init_shape:
  assumes "wf_tensor2 feats" "ncols feats = 1" "length (rows feats) = length idx" "batch_ok N idx"
  shows "(\<forall>out M'. NetPTQ_forward ((NetPTQ_init P)\<lparr>ptq_training := tr\<rparr>) feats idx N = Inr (out, M') \<longrightarrow>
            ncols out = 10 \<and> length (rows out) = nat N \<and> wf_tensor2 out) \<and>
         (\<exists>out M'. NetPTQ_forward (eval_mode (NetPTQ_init P)) feats idx N = Inr (out, M') \<and>
            ncols out = 10 \<and> length (rows out) = nat N \<and> wf_tensor2 out)"
proof -
  obtain ms where ms: "NetPTQ_net P = SparseSequential ms"
    "shape_children ms (SparseS 28 28 (ncols feats) False) = Some (DenseS 1 1 10)"
    using NetPTQ_net_shape[of P False] assms(2) by auto
  have a: "(\<forall>out M'. NetPTQ_forward ((NetPTQ_init P)\<lparr>ptq_training := t\<rparr>) feats idx N = Inr (out, M') \<longrightarrow>
            ncols out = 1 * 1 * 10 \<and> length (rows out) = nat N \<and> wf_tensor2 out) \<and>
         (\<not> ptq_training ((NetPTQ_init P)\<lparr>ptq_training := t\<rparr>) \<longrightarrow>
            (\<exists>out M'. NetPTQ_forward ((NetPTQ_init P)\<lparr>ptq_training := t\<rparr>) feats idx N = Inr (out, M')))" for t
    using ms assms(1,3,4) by (intro NetPTQ_forward_shape) (simp_all add: NetPTQ_init_def)
  have e: "eval_mode (NetPTQ_init P) = (NetPTQ_init P)\<lparr>ptq_training := False\<rparr>"
    by (simp add: eval_mode_def)
  from a[of False] obtain out M' where
    r: "NetPTQ_forward ((NetPTQ_init P)\<lparr>ptq_training := False\<rparr>) feats idx N = Inr (out, M')"
    by auto
  with a[of False] have "ncols out = 10 \<and> length (rows out) = nat N \<and> wf_tensor2 out" by simp
  with r a[of tr] show ?thesis unfolding e by auto
qed

lemma NetPTQ_described_shape:
  assumes "wf_tensor2 feats" "ncols feats = 1" "length (rows feats) = length idx" "batch_ok N idx"
  shows "\<exists>out M'. NetPTQ_forward (eval_mode ((NetPTQ_init P)\<lparr>ptq_net := NetPTQ_described_net P\<rparr>))
            feats idx N = Inr (out, M') \<and> shape_N_10 (nat N) out"
proof -
  let ?M = "eval_mode ((NetPTQ_init P)\<lparr>ptq_net := NetPTQ_described_net P\<rparr>)"
  obtain ms where ms: "NetPTQ_described_net P = SparseSequential ms"
    "shape_children ms (SparseS 28 28 (ncols feats) False) = Some (DenseS 1 1 10)"
    using NetPTQ_described_net_shape[of P False] assms(2) by auto
  have a: "(\<forall>out M'. NetPTQ_forward ?M feats idx N = Inr (out, M') \<longrightarrow>
            ncols out = 1 * 1 * 10 \<and> length (rows out) = nat N \<and> wf_tensor2 out) \<and>
         (\<not> ptq_training ?M \<longrightarrow> (\<exists>out M'. NetPTQ_forward ?M feats idx N = Inr (out, M')))"
    using ms assms(1,3,4)
    by (intro NetPTQ_forward_shape) (simp_all add: NetPTQ_init_def eval_mode_def)
  then obtain out M' where r: "NetPTQ_forward ?M feats idx N = Inr (out, M')"
    by (auto simp: eval_mode_def)
  with a have "shape_N_10 (nat N) out" by (simp add: shape_N_10_def)
  with r show ?thesis by auto
qed

text \<open>
  Claim C4. The network \<open>NetPTQ\<close> of the source (any parameter values) maps a batch of
  \<open>N\<close> single-channel 28 x 28 images to an output of shape \<open>[N, 10]\<close>: in evaluation mode
  \<open>forward\<close> returns such an output for every well-formed input triple, in particular for
  the triple that \<open>from_dense\<close> builds from a dense batch; in training mode it has this
  shape whenever \<open>forward\<close> returns. The six stages as the spec describes them give the
  same output shape.
\<close>

theorem C4_NetPTQ_output_shape:
  "(wf_tensor2 feats \<and> ncols feats = 1 \<and> length (rows feats) = length idx \<and> batch_ok N idx \<longrightarrow>
      (\<forall>out M'. NetPTQ_forward ((NetPTQ_init P)\<lparr>ptq_training := tr\<rparr>) feats idx N = Inr (out, M') \<longrightarrow>
         shape_N_10 (nat N) out) \<and>
      (\<exists>out M'. NetPTQ_forward (eval_mode (NetPTQ_init P)) feats idx N = Inr (out, M') \<and>
         shape_N_10 (nat N) out) \<and>
      (\<exists>out M'. NetPTQ_forward (eval_mode ((NetPTQ_init P)\<lparr>ptq_net := NetPTQ_described_net P\<rparr>))
                   feats idx N = Inr (out, M') \<and>
         shape_N_10 (nat N) out)) \<and>
   (wf_tensor4 B \<and> shape4 B = (n, 28, 28, 1) \<longrightarrow>
      (\<exists>out M'. NetPTQ_forward (eval_mode (NetPTQ_init P))
                   (features (from_dense B)) (indices (from_dense B)) (batch_size (from_dense B)) =
                 Inr (out, M') \<and>
         shape_N_10 n out))"
proof (intro conjI impI)
  assume "wf_tensor2 feats \<and> ncols feats = 1 \<and> length (rows feats) = length idx \<and> batch_ok N idx"
  then have h: "wf_tensor2 feats" "ncols feats = 1" "length (rows feats) = length idx" "batch_ok N idx"
    by simp_all
  note a = NetPTQ_init_shape[OF h, where P = P and tr = tr]
  show "\<forall>out M'. NetPTQ_forward ((NetPTQ_init P)\<lparr>ptq_training := tr\<rparr>) feats idx N = Inr (out, M') \<longrightarrow>
      shape_N_10 (nat N) out"
    using conjunct1[OF a] by (simp add: shape_N_10_def)
  show "\<exists>out M'. NetPTQ_forward (eval_mode (NetPTQ_init P)) feats idx N = Inr (out, M') \<and>
      shape_N_10 (nat N) out"
    using conjunct2[OF a] by (simp add: shape_N_10_def)
  show "\<exists>out M'. NetPTQ_forward (eval_mode ((NetPTQ_init P)\<lparr>ptq_net := NetPTQ_described_net P\<rparr>))
      feats idx N = Inr (out, M') \<and> shape_N_10 (nat N) out"
    using h by (rule NetPTQ_described_shape)
next
  assume "wf_tensor4 B \<and> shape4 B = (n, 28, 28, 1)"
  then have wf: "wf_tensor4 B" and sh: "shape4 B = (n, 28, 28, 1)" by simp_all
  note f = from_dense_fields[OF sh]
  have "\<exists>out M'. NetPTQ_forward (eval_mode (NetPTQ_init P))
      (features (from_dense B)) (indices (from_dense B)) (int n) = Inr (out, M') \<and>
      ncols out = 10 \<and> length (rows out) = nat (int n) \<and> wf_tensor2 out"
    using conjunct2[OF NetPTQ_init_shape[OF from_dense_wf_features[OF wf] f(3,4)
        from_dense_batch_ok[OF sh], where P = P and tr = tr]] .
  then show "\<exists>out M'. NetPTQ_forward (eval_mode (NetPTQ_init P))
      (features (from_dense B)) (indices (from_dense B)) (batch_size (from_dense B)) =
      Inr (out, M') \<and> shape_N_10 n out"
    by (simp add: f(2) shape_N_10_def)
qed

theorem C4_NetPTQ_output_shape_witness:
  "wf_tensor2 (features one_site) \<and> ncols (features one_site) = 1 \<and>
   length (rows (features one_site)) = length (indices one_site) \<and> batch_ok 1 (indices one_site) \<and>
   (\<exists>out M'. NetPTQ_forward (eval_mode (NetPTQ_init example_params))
                (features one_site) (indices one_site) 1 = Inr (out, M') \<and>
      shape_N_10 1 out) \<and>
   wf_tensor4 one_pixel_image \<and> shape4 one_pixel_image = (1, 28, 28, 1) \<and>
   (\<exists>out M'. NetPTQ_forward (eval_mode (NetPTQ_init example_params))
                (features (from_dense one_pixel_image)) (indices (from_dense one_pixel_image))
                (batch_size (from_dense one_pixel_image)) = Inr (out, M') \<and>
      shape_N_10 1 out)"
proof -
  have h: "wf_tensor2 (features one_site) \<and> ncols (features one_site) = 1 \<and>
      length (rows (features one_site)) = length (indices one_site) \<and> batch_ok 1 (indices one_site)"
    by (simp add: one_site_def wf_tensor2_def batch_ok_def)
  have b: "wf_tensor4 one_pixel_image \<and> shape4 one_pixel_image = (1, 28, 28, 1)"
    using wf_one_pixel_image by (simp add: one_pixel_image_def)
  note c4 = C4_NetPTQ_output_shape[where feats = "features one_site" and idx = "indices one_site"
      and N = 1 and P = example_params and tr = False and B = one_pixel_image and n = 1]
  from conjunct1[OF c4, THEN mp, OF h]
  have r1: "\<exists>out M'. NetPTQ_forward (eval_mode (NetPTQ_init example_params))
      (features one_site) (indices one_site) 1 = Inr (out, M') \<and> shape_N_10 1 out"
    by simp
  from conjunct2[OF c4, THEN mp, OF b]
  have r2: "\<exists>out M'. NetPTQ_forward (eval_mode (NetPTQ_init example_params))
      (features (from_dense one_pixel_image)) (indices (from_dense one_pixel_image))
      (batch_size (from_dense one_pixel_image)) = Inr (out, M') \<and> shape_N_10 1 out" .
  from h b r1 r2 show ?thesis by (intro conjI) simp_all
qed

section \<open>What a forward pass changes\<close>

lemma child_step_frame:
  assumes "frame_step tr m" "child_step tr m v = Inr (v', m')"
  shows "parameters m' = parameters m"
    "\<not> tr \<Longrightarrow> erase_observers m' = erase_observers m"
    "\<not> tr \<Longrightarrow> observer_free m \<Longrightarrow> m' = m"
proof -
  have "m' = m \<or> (\<exists>u u'. forward_module tr m u = Inr (u', m'))"
    using assms(2)
    by (auto simp: child_step_def split: if_splits val.splits sum.splits)
  then show "parameters m' = parameters m"
    "\<not> tr \<Longrightarrow> erase_observers m' = erase_observers m"
    "\<not> tr \<Longrightarrow> observer_free m \<Longrightarrow> m' = m"
    using assms(1) unfolding frame_step_def by auto
qed

lemma children_frame:
  assumes "\<And>m. m \<in> set ms \<Longrightarrow> frame_step tr m"
    and "forward_children tr ms v = Inr (v', ms')"
  shows "map parameters ms' = map parameters ms \<and>
         (\<not> tr \<longrightarrow> map erase_observers ms' = map erase_observers ms) \<and>
         (\<not> tr \<and> list_all observer_free ms \<longrightarrow> ms' = ms)"
  using assms
proof (induction ms arbitrary: v ms')
  case Nil
  then show ?case by simp
next
  case (Cons m ms)
  from Cons.prems(2) obtain v1 m1 ms1 where c: "child_step tr m v = Inr (v1, m1)"
    and f: "forward_children tr ms v1 = Inr (v', ms1)" and e: "ms' = m1 # ms1"
    unfolding forward_children_Cons by (auto split: sum.splits)
  have fm: "frame_step tr m" using Cons.prems(1) by simp
  note cf = child_step_frame[OF fm c]
  have ih: "map parameters ms1 = map parameters ms \<and>
      (\<not> tr \<longrightarrow> map erase_observers ms1 = map erase_observers ms) \<and>
      (\<not> tr \<and> list_all observer_free ms \<longrightarrow> ms1 = ms)"
    using Cons.IH[OF _ f] Cons.prems(1) by simp
  show ?case using cf ih by (simp add: e)
qed

lemma frame_module: "frame_step tr m"
proof (induction m)
  case (SparseSequential ms)
  show ?case
    unfolding frame_step_def
  proof (intro allI impI)
    fix v v' m'
    assume "forward_module tr (SparseSequential ms) v = Inr (v', m')"
    then obtain ms' where f: "forward_children tr ms v = Inr (v', ms')"
      and m': "m' = SparseSequential ms'"
      by (auto split: sum.splits)
    from children_frame[OF SparseSequential.IH f]
    show "parameters m' = parameters (SparseSequential ms) \<and>
        (\<not> tr \<longrightarrow> erase_observers m' = erase_observers (SparseSequential ms)) \<and>
        (\<not> tr \<and> observer_free (SparseSequential ms) \<longrightarrow> m' = SparseSequential ms)"
      by (simp add: m')
  qed
next
  case (BatchNorm1d b)
  show ?case
    unfolding frame_step_def
  proof (intro allI impI)
    fix v v' m'
    assume "forward_module tr (BatchNorm1d b) v = Inr (v', m')"
    then obtain t t' b' where bn: "BatchNorm1d_forward tr b t = Inr (t', b')"
      and m': "m' = BatchNorm1d b'"
      by (auto split: val.splits sum.splits)
    note q = BatchNorm1d_forward_keeps[OF bn]
    show "parameters m' = parameters (BatchNorm1d b) \<and>
        (\<not> tr \<longrightarrow> erase_observers m' = erase_observers (BatchNorm1d b)) \<and>
        (\<not> tr \<and> observer_free (BatchNorm1d b) \<longrightarrow> m' = BatchNorm1d b)"
      using q(4,5,10) by (simp add: m')
  qed
qed (auto simp: frame_step_def split: val.splits sum.splits)


lemma forward_module_frame:
  assumes "forward_module tr m v = Inr (v', m')"
  shows "parameters m' = parameters m"
    "\<not> tr \<Longrightarrow> erase_observers m' = erase_observers m"
    "\<not> tr \<Longrightarrow> observer_free m \<Longrightarrow> m' = m"
  using frame_module[of tr m] assms unfolding frame_step_def by auto

lemma NetPTQ_forward_parts:
  assumes "NetPTQ_forward M feats idx N = Inr (out, M')"
  obtains v1 u q' v2 v3 net' v4 v5 d' where
    "forward_module (ptq_training M) (ptq_quant M) v1 = Inr (u, q')"
    "forward_module (ptq_training M) (ptq_net M) v2 = Inr (v3, net')"
    "forward_module (ptq_training M) (ptq_dequant M) v4 = Inr (v5, d')"
    "M' = M\<lparr>ptq_net := net', ptq_quant := q', ptq_dequant := d'\<rparr>"
  using assms unfolding NetPTQ_forward_def Let_def
  by (auto split: sum.splits prod.splits)

lemma NetPTQ_forward_frame:
  assumes "NetPTQ_forward M feats idx N = Inr (out, M')"
  shows "NetPTQ_parameters M' = NetPTQ_parameters M"
    "ptq_training M' = ptq_training M"
    "\<not> ptq_training M \<Longrightarrow> NetPTQ_erase_observers M' = NetPTQ_erase_observers M"
    "\<not> ptq_training M \<Longrightarrow> observer_free (ptq_net M) \<Longrightarrow> observer_free (ptq_quant M) \<Longrightarrow>
       observer_free (ptq_dequant M) \<Longrightarrow> M' = M"
proof -
  from assms obtain v1 u q' v2 v3 net' v4 v5 d' where
    q: "forward_module (ptq_training M) (ptq_quant M) v1 = Inr (u, q')"
    and n: "forward_module (ptq_training M) (ptq_net M) v2 = Inr (v3, net')"
    and d: "forward_module (ptq_training M) (ptq_dequant M) v4 = Inr (v5, d')"
    and M': "M' = M\<lparr>ptq_net := net', ptq_quant := q', ptq_dequant := d'\<rparr>"
    by (rule NetPTQ_forward_parts)
  note fq = forward_module_frame[OF q] and fn = forward_module_frame[OF n]
    and fd = forward_module_frame[OF d]
  show "NetPTQ_parameters M' = NetPTQ_parameters M"
    using fq(1) fn(1) fd(1) by (simp add: NetPTQ_parameters_def M')
  show "ptq_training M' = ptq_training M" by (simp add: M')
  show "NetPTQ_erase_observers M' = NetPTQ_erase_observers M" if "\<not> ptq_training M"
    using fq(2) fn(2) fd(2) that by (simp add: NetPTQ_erase_observers_def M')
  show "M' = M" if "\<not> ptq_training M" "observer_free (ptq_net M)" "observer_free (ptq_quant M)"
    "observer_free (ptq_dequant M)"
    using fq(3) fn(3) fd(3) that by (simp add: M')
qed

lemma model_step_frame:
  assumes "model_step sparse M data = Inr (out, M')"
  shows "NetPTQ_parameters M' = NetPTQ_parameters M"
    "ptq_training M' = ptq_training M"
    "\<not> ptq_training M \<Longrightarrow> NetPTQ_erase_observers M' = NetPTQ_erase_observers M"
proof -
  from assms obtain feats idx N where f: "NetPTQ_forward M feats idx N = Inr (out, M')"
    by (auto simp: model_step_def NetPTQ_call_def Let_def split: if_splits sum.splits)
  show "NetPTQ_parameters M' = NetPTQ_parameters M" "ptq_training M' = ptq_training M"
    "\<not> ptq_training M \<Longrightarrow> NetPTQ_erase_observers M' = NetPTQ_erase_observers M"
    using NetPTQ_forward_frame[OF f] by simp_all
qed

lemma calibrate_loop_frame:
  assumes "calibrate_loop sparse M loader = Inr M'" "\<not> ptq_training M"
  shows "NetPTQ_parameters M' = NetPTQ_parameters M \<and>
         NetPTQ_erase_observers M' = NetPTQ_erase_observers M"
  using assms
proof (induction loader arbitrary: M)
  case Nil
  then show ?case by simp
next
  case (Cons img loader)
  from Cons.prems(1) obtain out M1 where s: "model_step sparse M img = Inr (out, M1)"
    and l: "calibrate_loop sparse M1 loader = Inr M'"
    by (auto split: sum.splits)
  note f = model_step_frame[OF s]
  have "\<not> ptq_training M1" using f(2) Cons.prems(2) by simp
  from Cons.IH[OF l this] f(1) f(3)[OF Cons.prems(2)] show ?case by simp
qed


lemma length_flat:
  assumes "wf_tensor4 t" "shape4 t = (n, h, w, c)"
  shows "length (concat (concat (concat (data4 t)))) = n * h * w * c"
proof -
  have l0: "length (data4 t) = n"
    and a: "\<forall>img \<in> set (data4 t). length img = h \<and>
        (\<forall>row \<in> set img. length row = w \<and> (\<forall>px \<in> set row. length px = c))"
    using assms by (auto simp: wf_tensor4_def list_all_iff)
  have "\<forall>img \<in> set (data4 t). length img = h" using a by simp
  then have l1: "length (concat (data4 t)) = n * h"
    using length_concat_uniform[of "data4 t" h] l0 by simp
  have "\<forall>row \<in> set (concat (data4 t)). length row = w" using a by auto
  then have l2: "length (concat (concat (data4 t))) = n * h * w"
    using length_concat_uniform[of "concat (data4 t)" w] l1 by simp
  have "\<forall>px \<in> set (concat (concat (data4 t))). length px = c" using a by auto
  then show ?thesis
    using length_concat_uniform[of "concat (concat (data4 t))" c] l2 by simp
qed

lemma reshape_ok:
  assumes "wf_tensor4 t" "shape4 t = (n, h, w, c)" "(n * h * w * c) mod 784 = 0"
  shows "\<exists>d. reshape_28_28_1 t = Inr d \<and> wf_tensor4 d \<and> shape4 d = (n * h * w * c div 784, 28, 28, 1)"
  using assms(3) length_flat[OF assms(1,2)]
  by (simp add: reshape_28_28_1_def Let_def wf_tensor4_def list_all_iff)

lemma model_step_succeeds:
  assumes data: "wf_tensor4 data" "shape4 data = (n, h, w, c)" "(n * h * w * c) mod 784 = 0"
    and net: "ptq_net M = SparseSequential ms"
      "shape_children ms (SparseS 28 28 1 False) = Some (DenseS h' w' c')"
    and stubs: "transparent (ptq_quant M)" "transparent (ptq_dequant M)"
    and ev: "\<not> ptq_training M"
  shows "\<exists>out M'. model_step True M data = Inr (out, M')"
proof -
  from reshape_ok[OF data] obtain d where d: "reshape_28_28_1 data = Inr d" "wf_tensor4 d"
    "shape4 d = (n * h * w * c div 784, 28, 28, 1)" by auto
  let ?v = "from_dense d"
  note f = from_dense_fields[OF d(3)]
  have n1: "shape_children ms (SparseS 28 28 (ncols (features ?v)) False) = Some (DenseS h' w' c')"
    using net(2) f(3) by simp
  from NetPTQ_forward_shape[OF net(1) n1 stubs from_dense_wf_features[OF d(2)] f(4)
      from_dense_batch_ok[OF d(3)]] ev
  obtain out M' where "NetPTQ_forward M (features ?v) (indices ?v) (int (n * h * w * c div 784)) =
      Inr (out, M')" by auto
  then show ?thesis
    by (simp add: model_step_def d(1) NetPTQ_call_def Let_def f(2))
qed

lemma prepared_shape:
  "\<exists>ms. ptq_net (prepare (NetPTQ_init P)) = SparseSequential ms \<and>
        shape_children ms (SparseS 28 28 1 clean) = Some (DenseS 1 1 10)"
  by (simp add: prepare_def NetPTQ_init_def NetPTQ_net_def SubMConvBNReLU_def SparseConvBNReLU_def
      conv_out_size_def Let_def)

lemma prepared_calibrate_succeeds:
  "\<exists>M'. calibrate True (prepare (NetPTQ_init P)) [one_pixel_image] = Inr M'"
proof -
  let ?M = "eval_mode (prepare (NetPTQ_init P))"
  obtain ms where ms: "ptq_net (prepare (NetPTQ_init P)) = SparseSequential ms"
    "shape_children ms (SparseS 28 28 1 False) = Some (DenseS 1 1 10)"
    using prepared_shape[of P False] by auto
  have "\<exists>out M'. model_step True ?M one_pixel_image = Inr (out, M')"
  proof (rule model_step_succeeds)
    show "wf_tensor4 one_pixel_image" by (rule wf_one_pixel_image)
    show "shape4 one_pixel_image = (1, 28, 28, 1)" by (simp add: one_pixel_image_def)
    show "(1 * 28 * 28 * 1) mod 784 = (0::nat)" by simp
    show "ptq_net ?M = SparseSequential ms" using ms(1) by (simp add: eval_mode_def)
    show "shape_children ms (SparseS 28 28 1 False) = Some (DenseS 1 1 10)" by (rule ms(2))
    show "transparent (ptq_quant ?M)" "transparent (ptq_dequant ?M)" "\<not> ptq_training ?M"
      by (simp_all add: eval_mode_def prepare_def)
  qed
  then show ?thesis by (auto simp: calibrate_def)
qed

text \<open>
  Claim C9. Calibration changes no parameter. Whenever \<open>calibrate\<close> returns, for any
  model (with observers anywhere in it) and any loader, the parameters of the model are
  the ones it started with, and nothing but the statistics of the observers differs from
  the model put into evaluation mode; the same holds for every single batch processed
  in evaluation mode.
\<close>

theorem C9_calibrate_keeps_parameters:
  "(calibrate sparse M data_loader = Inr M' \<longrightarrow>
      NetPTQ_parameters M' = NetPTQ_parameters M \<and>
      NetPTQ_erase_observers M' = NetPTQ_erase_observers (eval_mode M)) \<and>
   (\<not> ptq_training M \<and> model_step sparse M batch = Inr (out, M1) \<longrightarrow>
      NetPTQ_parameters M1 = NetPTQ_parameters M \<and>
      NetPTQ_erase_observers M1 = NetPTQ_erase_observers M)"
proof (intro conjI impI)
  assume c: "calibrate sparse M data_loader = Inr M'"
  have e: "\<not> ptq_training (eval_mode M)" by (simp add: eval_mode_def)
  from c have "calibrate_loop sparse (eval_mode M) data_loader = Inr M'"
    by (simp add: calibrate_def)
  from calibrate_loop_frame[OF this e]
  have "NetPTQ_parameters M' = NetPTQ_parameters (eval_mode M)"
    and r: "NetPTQ_erase_observers M' = NetPTQ_erase_observers (eval_mode M)"
    by simp_all
  then show "NetPTQ_parameters M' = NetPTQ_parameters M"
    by (simp add: eval_mode_def NetPTQ_parameters_def)
  show "NetPTQ_erase_observers M' = NetPTQ_erase_observers (eval_mode M)" by (rule r)
next
  assume a: "\<not> ptq_training M \<and> model_step sparse M batch = Inr (out, M1)"
  note f = model_step_frame[OF conjunct2[OF a]]
  show "NetPTQ_parameters M1 = NetPTQ_parameters M" by (rule f(1))
  show "NetPTQ_erase_observers M1 = NetPTQ_erase_observers M" using f(3) a by simp
qed

theorem C9_calibrate_keeps_parameters_witness:
  "(\<exists>M'. calibrate True (prepare (NetPTQ_init example_params)) [one_pixel_image] = Inr M' \<and>
          NetPTQ_parameters M' = NetPTQ_parameters (prepare (NetPTQ_init example_params)) \<and>
          NetPTQ_erase_observers M' =
            NetPTQ_erase_observers (eval_mode (prepare (NetPTQ_init example_params)))) \<and>
   \<not> ptq_training (eval_mode (prepare (NetPTQ_init example_params))) \<and>
   (\<exists>out M1. model_step True (eval_mode (prepare (NetPTQ_init example_params))) one_pixel_image =
              Inr (out, M1) \<and>
            NetPTQ_parameters M1 = NetPTQ_parameters (eval_mode (prepare (NetPTQ_init example_params))))"
proof -
  let ?M = "prepare (NetPTQ_init example_params)"
  obtain M' where c: "calibrate True ?M [one_pixel_image] = Inr M'"
    using prepared_calibrate_succeeds[of example_params] by auto
  then obtain out where s: "model_step True (eval_mode ?M) one_pixel_image = Inr (out, M')"
    by (auto simp: calibrate_def split: sum.splits)
  have e: "\<not> ptq_training (eval_mode ?M)" by (simp add: eval_mode_def)
  from conjunct1[OF C9_calibrate_keeps_parameters[where sparse = True
        and M = ?M and data_loader = "[one_pixel_image]" and M' = M'], THEN mp, OF c]
  have r1: "NetPTQ_parameters M' = NetPTQ_parameters ?M \<and>
      NetPTQ_erase_observers M' = NetPTQ_erase_observers (eval_mode ?M)" .
  from conjunct2[OF C9_calibrate_keeps_parameters[where sparse = True
        and M = "eval_mode ?M" and batch = one_pixel_image and out = out and ?M1.0 = M'],
      THEN mp, OF conjI[OF e s]]
  have r2: "NetPTQ_parameters M' = NetPTQ_parameters (eval_mode ?M)" by simp
  from c s e r1 r2 show ?thesis by auto
qed

section \<open>Determinism, composition and input forms of forward\<close>

lemma sum_list_exp_pos: "r \<noteq> [] \<Longrightarrow> 0 < (\<Sum>u \<leftarrow> r. exp (u :: real))"
proof (induction r)
  case Nil
  then show ?case by simp
next
  case (Cons a r)
  show ?case
  proof (cases "r = []")
    case True
    then show ?thesis by simp
  next
    case False
    with Cons.IH have "0 < (\<Sum>u \<leftarrow> r. exp u)" by simp
    moreover have "0 < exp a" by simp
    ultimately have "0 < exp a + (\<Sum>u \<leftarrow> r. exp u)" by (rule add_pos_pos[rotated])
    then show ?thesis by simp
  qed
qed

lemma sum_list_divide: "(\<Sum>u \<leftarrow> r. f u / (c :: real)) = (\<Sum>u \<leftarrow> r. f u) / c"
  by (induction r) (simp_all add: add_divide_distrib)

lemma log_softmax_row_normalized:
  assumes "r \<noteq> []"
  shows "(\<Sum>v \<leftarrow> log_softmax_row r. exp v) = 1"
proof -
  let ?S = "\<Sum>u \<leftarrow> r. exp u"
  have pos: "0 < ?S" using assms by (rule sum_list_exp_pos)
  have "(\<Sum>v \<leftarrow> log_softmax_row r. exp v) = (\<Sum>u \<leftarrow> r. exp (u - ln ?S))"
    by (simp add: log_softmax_row_def comp_def)
  also have "\<dots> = (\<Sum>u \<leftarrow> r. exp u / ?S)"
    using pos by (simp add: exp_diff)
  also have "\<dots> = ?S / ?S" by (rule sum_list_divide)
  also have "\<dots> = 1" using pos by simp
  finally show ?thesis .
qed

lemma Linear_forward_props:
  assumes "Linear_forward l t = Inr t'"
  shows "ncols t = in_features l" "ncols t' = out_features l"
    "length (rows t') = length (rows t)" "wf_tensor2 t'"
  using assms
  by (auto simp: Linear_forward_def wf_tensor2_def list_all_iff split: if_splits)

lemma Linear_forward_succeeds:
  "ncols t = in_features l \<Longrightarrow> \<exists>t'. Linear_forward l t = Inr t'"
  by (simp add: Linear_forward_def)

lemma Dropout_forward_props:
  "ncols (Dropout_forward tr p m t) = ncols t"
  "length (rows (Dropout_forward tr p m t)) = length (rows t)"
  "Dropout_forward False p m t = t"
  by (simp_all add: Dropout_forward_def)

lemma log_softmax_normalized:
  assumes "wf_tensor2 t" "0 < ncols t"
  shows "list_all (\<lambda>r. length r = ncols t \<and> (\<Sum>u \<leftarrow> r. exp u) = 1) (rows (log_softmax t))"
proof -
  have "length (log_softmax_row r) = ncols t \<and> (\<Sum>u \<leftarrow> log_softmax_row r. exp u) = 1"
    if "r \<in> set (rows t)" for r
  proof -
    from that assms have l: "length r = ncols t" "r \<noteq> []"
      by (auto simp: wf_tensor2_def list_all_iff)
    then show ?thesis
      using log_softmax_row_normalized[OF l(2)] by (simp add: log_softmax_row_def)
  qed
  then show ?thesis by (simp add: log_softmax_def list_all_iff)
qed


lemma Net_net_shape:
  "\<exists>ms. net_net (Net_init P) = SparseSequential ms \<and>
        shape_children ms (SparseS 28 28 1 clean) = Some (DenseS 14 14 64)"
  by (simp add: Net_init_def SubMConvBNReLU_def SparseConvBNReLU_def conv_out_size_def Let_def)

lemma Net_forward_eval:
  assumes "\<not> net_training M"
  shows "Net_forward M mask1 mask2 v =
     (case forward_module False (net_net M) v of
        Inl e \<Rightarrow> Inl e
      | Inr (x, net') \<Rightarrow>
     (case flatten_val x of
        Inl e \<Rightarrow> Inl e
      | Inr x1 \<Rightarrow>
     (case Linear_forward (fc1 M) x1 of
        Inl e \<Rightarrow> Inl e
      | Inr x2 \<Rightarrow>
     (case Linear_forward (fc2 M) (relu2 x2) of
        Inl e \<Rightarrow> Inl e
      | Inr x3 \<Rightarrow> Inr (log_softmax x3, M\<lparr>net_net := net'\<rparr>)))))"
proof -
  have nt: "net_training M = False" using assms by simp
  show ?thesis unfolding Net_forward_def nt Dropout_forward_props(3) ..
qed

lemma Net_forward_parts:
  assumes "Net_forward M mask1 mask2 v = Inr (out, M')"
  obtains x net' t x3 where
    "forward_module (net_training M) (net_net M) v = Inr (x, net')"
    "Linear_forward (fc2 M) t = Inr x3" "out = log_softmax x3" "M' = M\<lparr>net_net := net'\<rparr>"
  using assms unfolding Net_forward_def
  by (auto split: sum.splits prod.splits)

lemma Net_forward_output:
  assumes "Net_forward M mask1 mask2 v = Inr (out, M')" "0 < out_features (fc2 M)"
  shows "ncols out = out_features (fc2 M)"
    "list_all (\<lambda>r. length r = out_features (fc2 M) \<and> (\<Sum>u \<leftarrow> r. exp u) = 1) (rows out)"
proof -
  from assms(1) obtain x net' t x3 where
    "forward_module (net_training M) (net_net M) v = Inr (x, net')"
    and l: "Linear_forward (fc2 M) t = Inr x3"
    and o: "out = log_softmax x3" and "M' = M\<lparr>net_net := net'\<rparr>"
    by (rule Net_forward_parts)
  note p = Linear_forward_props[OF l]
  show "ncols out = out_features (fc2 M)" using p(2) by (simp add: o log_softmax_props)
  show "list_all (\<lambda>r. length r = out_features (fc2 M) \<and> (\<Sum>u \<leftarrow> r. exp u) = 1) (rows out)"
    using log_softmax_normalized[OF p(4)] assms(2) p(2) by (simp add: o)
qed

lemma Net_forward_frame:
  assumes "Net_forward M mask1 mask2 v = Inr (out, M')" "\<not> net_training M"
    "observer_free (net_net M)"
  shows "M' = M"
proof -
  from assms(1) obtain x net' where f: "forward_module (net_training M) (net_net M) v = Inr (x, net')"
    and M': "M' = M\<lparr>net_net := net'\<rparr>"
    by (rule Net_forward_parts)
  from forward_module_frame(3)[OF f] assms(2,3) have "net' = net_net M" by simp
  then show ?thesis by (simp add: M')
qed

lemma Net_forward_succeeds:
  assumes "sat N (SparseS 28 28 1 False) (SparseV x)"
  shows "\<exists>out M'. Net_forward ((Net_init P)\<lparr>net_training := False\<rparr>) mask1 mask2 (SparseV x) =
           Inr (out, M')"
proof -
  let ?M = "(Net_init P)\<lparr>net_training := False\<rparr>"
  obtain ms where ms: "net_net (Net_init P) = SparseSequential ms"
    "shape_children ms (SparseS 28 28 1 False) = Some (DenseS 14 14 64)"
    using Net_net_shape[of P False] by auto
  note ns = net_sound[OF ms(2) assms, of False, folded ms(1)]
  from conjunct2[OF ns] obtain v net' where
    f: "forward_module False (net_net (Net_init P)) (SparseV x) = Inr (v, net')" by auto
  from conjunct1[OF ns] f have "sat N (DenseS 14 14 64) v" by simp
  then obtain d where v: "v = Tensor4V d" and d: "shape4 d = (nat N, 14, 14, 64)" "wf_tensor4 d"
    by (cases v) auto
  note fl = flatten1_props[OF d(2,1)]
  have "ncols (flatten1 d) = in_features (fc1 ?M)" using fl(1) by (simp add: Net_init_def)
  then obtain x2 where l1: "Linear_forward (fc1 ?M) (flatten1 d) = Inr x2"
    using Linear_forward_succeeds by blast
  have "ncols (relu2 x2) = in_features (fc2 ?M)"
    using Linear_forward_props(2)[OF l1] by (simp add: relu2_props Net_init_def)
  then obtain x3 where l2: "Linear_forward (fc2 ?M) (relu2 x2) = Inr x3"
    using Linear_forward_succeeds by blast
  have nt: "\<not> net_training ?M" by simp
  have nn: "net_net ?M = net_net (Net_init P)" by simp
  show ?thesis
    unfolding Net_forward_eval[OF nt] nn
    by (simp add: f v flatten_val_def l1[simplified] l2[simplified])
qed


lemma observer_free_nets:
  "observer_free (NetPTQ_net P)" "observer_free (net_net (Net_init Pn))"
  by (simp_all add: NetPTQ_net_def Net_init_def SubMConvBNReLU_def SparseConvBNReLU_def Let_def)

lemma one_site_sat: "sat 1 (SparseS 28 28 1 False) (SparseV one_site)"
  by (simp add: one_site_def wf_tensor2_def batch_ok_def)

text \<open>
  Claim C6. In evaluation mode a forward pass is deterministic. For a model without
  observers (in particular \<open>NetPTQ\<close> as constructed, with any parameter values) in
  evaluation mode, a forward pass that returns leaves the model exactly as it was (no
  running statistic of a batch normalization moves), so a second call with the same
  input returns the same output. For \<open>Net\<close>, which has dropout layers, the output in
  evaluation mode is moreover the same for every random draw of the dropout masks.
\<close>

theorem C6_eval_forward_deterministic:
  "(\<not> ptq_training M \<and> observer_free (ptq_net M) \<and> observer_free (ptq_quant M) \<and>
    observer_free (ptq_dequant M) \<and> NetPTQ_forward M feats idx N = Inr (out, M') \<longrightarrow>
      M' = M \<and> NetPTQ_forward M' feats idx N = Inr (out, M')) \<and>
   (NetPTQ_forward (eval_mode (NetPTQ_init P)) feats idx N = Inr (out1, M1) \<longrightarrow>
      M1 = eval_mode (NetPTQ_init P) \<and> NetPTQ_forward M1 feats idx N = Inr (out1, M1)) \<and>
   (\<not> net_training Mn \<and> observer_free (net_net Mn) \<and>
    Net_forward Mn mask1 mask2 v = Inr (outn, Mn') \<longrightarrow>
      Mn' = Mn \<and> Net_forward Mn' mask1' mask2' v = Inr (outn, Mn'))"
proof (intro conjI impI)
  assume a: "\<not> ptq_training M \<and> observer_free (ptq_net M) \<and> observer_free (ptq_quant M) \<and>
    observer_free (ptq_dequant M) \<and> NetPTQ_forward M feats idx N = Inr (out, M')"
  then have f: "NetPTQ_forward M feats idx N = Inr (out, M')" by simp
  from NetPTQ_forward_frame(4)[OF f] a show m: "M' = M" by simp
  show "NetPTQ_forward M' feats idx N = Inr (out, M')" using f by (simp add: m)
next
  assume f: "NetPTQ_forward (eval_mode (NetPTQ_init P)) feats idx N = Inr (out1, M1)"
  have "observer_free (ptq_net (eval_mode (NetPTQ_init P)))"
    "observer_free (ptq_quant (eval_mode (NetPTQ_init P)))"
    "observer_free (ptq_dequant (eval_mode (NetPTQ_init P)))"
    "\<not> ptq_training (eval_mode (NetPTQ_init P))"
    by (simp_all add: eval_mode_def NetPTQ_init_def observer_free_nets)
  from NetPTQ_forward_frame(4)[OF f this(4,1,2,3)]
  show m: "M1 = eval_mode (NetPTQ_init P)" .
  show "NetPTQ_forward M1 feats idx N = Inr (out1, M1)" using f by (simp add: m)
next
  assume a: "\<not> net_training Mn \<and> observer_free (net_net Mn) \<and>
    Net_forward Mn mask1 mask2 v = Inr (outn, Mn')"
  then have f: "Net_forward Mn mask1 mask2 v = Inr (outn, Mn')" and nt: "\<not> net_training Mn"
    by simp_all
  from Net_forward_frame[OF f] a show m: "Mn' = Mn" by simp
  have "Net_forward Mn mask1' mask2' v = Net_forward Mn mask1 mask2 v"
    unfolding Net_forward_eval[OF nt] ..
  then show "Net_forward Mn' mask1' mask2' v = Inr (outn, Mn')" using f by (simp add: m)
qed

theorem C6_eval_forward_deterministic_witness:
  "\<not> ptq_training (eval_mode (NetPTQ_init example_params)) \<and>
   observer_free (ptq_net (eval_mode (NetPTQ_init example_params))) \<and>
   observer_free (ptq_quant (eval_mode (NetPTQ_init example_params))) \<and>
   observer_free (ptq_dequant (eval_mode (NetPTQ_init example_params))) \<and>
   (\<exists>out. NetPTQ_forward (eval_mode (NetPTQ_init example_params))
             (features one_site) (indices one_site) 1 =
           Inr (out, eval_mode (NetPTQ_init example_params))) \<and>
   \<not> net_training ((Net_init example_net_params)\<lparr>net_training := False\<rparr>) \<and>
   observer_free (net_net ((Net_init example_net_params)\<lparr>net_training := False\<rparr>)) \<and>
   (\<exists>outn. Net_forward ((Net_init example_net_params)\<lparr>net_training := False\<rparr>)
              all_drop all_drop (SparseV one_site) =
            Inr (outn, (Net_init example_net_params)\<lparr>net_training := False\<rparr>) \<and>
          Net_forward ((Net_init example_net_params)\<lparr>net_training := False\<rparr>)
              no_drop no_drop (SparseV one_site) =
            Inr (outn, (Net_init example_net_params)\<lparr>net_training := False\<rparr>))"
proof -
  let ?M = "eval_mode (NetPTQ_init example_params)"
  let ?Mn = "(Net_init example_net_params)\<lparr>net_training := False\<rparr>"
  have h: "wf_tensor2 (features one_site)" "ncols (features one_site) = 1"
      "length (rows (features one_site)) = length (indices one_site)" "batch_ok 1 (indices one_site)"
    by (simp_all add: one_site_def wf_tensor2_def batch_ok_def)
  from conjunct2[OF NetPTQ_init_shape[OF h, where P = example_params and tr = False]]
  obtain out M' where f: "NetPTQ_forward ?M (features one_site) (indices one_site) 1 = Inr (out, M')"
    by auto
  note c6 = C6_eval_forward_deterministic[where P = example_params
      and feats = "features one_site" and idx = "indices one_site" and N = 1
      and ?out1.0 = out and ?M1.0 = M' and Mn = ?Mn and ?mask1.0 = all_drop
      and ?mask2.0 = all_drop and mask1' = no_drop and mask2' = no_drop
      and v = "SparseV one_site"]
  have hm: "\<not> ptq_training ?M" "observer_free (ptq_net ?M)" "observer_free (ptq_quant ?M)"
    "observer_free (ptq_dequant ?M)"
    by (simp_all add: eval_mode_def NetPTQ_init_def observer_free_nets)
  from conjunct1[OF c6[where M = ?M and out = out and M' = M'], THEN mp,
      OF conjI[OF hm(1) conjI[OF hm(2) conjI[OF hm(3) conjI[OF hm(4) f]]]]]
  have r0: "M' = ?M" by (rule conjunct1)
  from conjunct1[OF conjunct2[OF c6], THEN mp, OF f] f
  have r1: "NetPTQ_forward ?M (features one_site) (indices one_site) 1 = Inr (out, ?M)"
    by auto
  obtain outn Mn' where fn: "Net_forward ?Mn all_drop all_drop (SparseV one_site) =
      Inr (outn, Mn')"
    using Net_forward_succeeds[OF one_site_sat, of example_net_params] by blast
  have hn: "\<not> net_training ?Mn" "observer_free (net_net ?Mn)"
    by (simp_all add: observer_free_nets)
  from conjunct2[OF conjunct2[OF c6[where outn = outn and Mn' = Mn']], THEN mp,
      OF conjI[OF hn(1) conjI[OF hn(2) fn]]] fn
  have r2: "Net_forward ?Mn all_drop all_drop (SparseV one_site) = Inr (outn, ?Mn) \<and>
      Net_forward ?Mn no_drop no_drop (SparseV one_site) = Inr (outn, ?Mn)"
    by auto
  from r1 have "\<exists>out. NetPTQ_forward ?M (features one_site) (indices one_site) 1 = Inr (out, ?M)"
    by (rule exI)
  moreover from r2 have "\<exists>outn. Net_forward ?Mn all_drop all_drop (SparseV one_site) =
      Inr (outn, ?Mn) \<and>
      Net_forward ?Mn no_drop no_drop (SparseV one_site) = Inr (outn, ?Mn)"
    by (rule exI)
  ultimately show ?thesis using hn hm by (intro conjI)
qed


lemma NetPTQ_forward_init:
  "NetPTQ_forward ((NetPTQ_init P)\<lparr>ptq_training := tr\<rparr>) feats idx N =
     (case forward_module tr (NetPTQ_net P)
             (SparseV \<lparr>features = feats, indices = idx, spatial_shape = (28, 28), batch_size = N\<rparr>) of
        Inl e \<Rightarrow> Inl e
      | Inr (x, net') \<Rightarrow>
     (case flatten_val x of
        Inl e \<Rightarrow> Inl e
      | Inr x1 \<Rightarrow>
          Inr (log_softmax x1, (NetPTQ_init P)\<lparr>ptq_training := tr, ptq_net := net'\<rparr>)))"
  unfolding NetPTQ_forward_def
  by (auto simp: NetPTQ_init_def as_tensor2_def Let_def split: sum.splits prod.splits)


subsection \<open>Training mode, dropout and the linear layers\<close>

lemma BatchNorm1d_train_succeeds:
  "ncols t = num_features b \<Longrightarrow> 2 \<le> length (rows t) \<Longrightarrow>
   \<exists>t' b'. BatchNorm1d_forward True b t = Inr (t', b')"
  by (simp add: BatchNorm1d_forward_def Let_def)

lemma SubMConvBNReLU_train_succeeds:
  assumes "conv_shape_ok (stage_cfg i out k s g) x" "2 \<le> length (indices x)"
  shows "\<exists>y m'. forward_module True (SubMConvBNReLU i out k s g w b) (SparseV x) = Inr (SparseV y, m')"
proof -
  obtain y0 where c: "SubMConv2d_forward (stage_cfg i out k s g) w None x = Inr y0"
    using SubMConv2d_forward_succeeds[OF assms(1)] by blast
  note p = SubMConv2d_forward_props[OF c]
  have "ncols (features y0) = num_features (stage_bn out b)"
    using p(5) by (simp add: stage_cfg_def stage_bn_def)
  moreover have "2 \<le> length (rows (features y0))" using p(2,6) assms(2) by simp
  ultimately obtain t b' where "BatchNorm1d_forward True (stage_bn out b) (features y0) = Inr (t, b')"
    using BatchNorm1d_train_succeeds by blast
  moreover have "indices y0 \<noteq> []" using p(2) assms(2) by auto
  ultimately show ?thesis using c
    by (simp add: SubMConvBNReLU_forward)
qed

lemma SparseConvBNReLU_train_succeeds:
  assumes "conv_shape_ok (stage_cfg i out k s g) x"
    "2 \<le> length (strided_out_indices (stage_cfg i out k s g)
            (conv_out_size (fst (spatial_shape x)) k s ((k - 1) div 2),
             conv_out_size (snd (spatial_shape x)) k s ((k - 1) div 2)) (indices x))"
  shows "\<exists>y m'. forward_module True (SparseConvBNReLU i out k s g w b) (SparseV x) = Inr (SparseV y, m')"
proof -
  obtain y0 where c: "SparseConv2d_forward (stage_cfg i out k s g) w None x = Inr y0"
    using SparseConv2d_forward_succeeds[OF assms(1)] by blast
  note p = SparseConv2d_forward_props[OF c]
  have oc: "conv_kernel_size (stage_cfg i out k s g) = k" "conv_stride (stage_cfg i out k s g) = s"
    "conv_padding (stage_cfg i out k s g) = (k - 1) div 2"
    by (simp_all add: stage_cfg_def)
  have l: "2 \<le> length (indices y0)" using assms(2) p(2,3) by (simp add: oc)
  have "ncols (features y0) = num_features (stage_bn out b)"
    using p(5) by (simp add: stage_cfg_def stage_bn_def)
  moreover have "2 \<le> length (rows (features y0))" using p(6) l by simp
  ultimately obtain t b' where "BatchNorm1d_forward True (stage_bn out b) (features y0) = Inr (t, b')"
    using BatchNorm1d_train_succeeds by blast
  moreover have "indices y0 \<noteq> []" using l by auto
  ultimately show ?thesis using c
    by (simp add: SparseConvBNReLU_forward)
qed

lemma enumerate_map_snd: "map (\<lambda>(i, r). g r) (enumerate n xs) = map g xs"
  by (induction xs arbitrary: n) simp_all

lemma Dropout_all_drop:
  "Dropout_forward True p all_drop t = t\<lparr>rows := map (\<lambda>r. replicate (length r) 0) (rows t)\<rparr>"
  by (simp add: Dropout_forward_def all_drop_def enumerate_map_snd map_replicate_const)

lemma Dropout_no_drop:
  "Dropout_forward True p no_drop t = t\<lparr>rows := map (map (\<lambda>v. v / (1 - p))) (rows t)\<rparr>"
  by (simp add: Dropout_forward_def no_drop_def enumerate_map_snd)

lemma Dropout_nth:
  "i < length (rows t) \<Longrightarrow> j < length (rows t ! i) \<Longrightarrow>
   rows (Dropout_forward True p m t) ! i ! j = (if m i j then 0 else rows t ! i ! j / (1 - p))"
  by (simp add: Dropout_forward_def nth_enumerate_eq)

lemma Linear_forward_zero_rows:
  assumes "Linear_forward l t = Inr t'" "\<forall>r \<in> set (rows t). r = replicate (in_features l) 0"
  shows "rows t' = map (\<lambda>r. map (lin_bias l) [0..<out_features l]) (rows t)"
proof -
  have z: "(\<Sum>i \<leftarrow> [0..<in_features l]. r ! i * lin_weight l j i) = 0" if "r \<in> set (rows t)" for r j
  proof -
    have r: "r = replicate (in_features l) 0" using that assms(2) by blast
    have e: "map (\<lambda>i. r ! i * lin_weight l j i) [0..<in_features l] = map (\<lambda>i. 0) [0..<in_features l]"
    proof (rule map_cong[OF refl])
      fix i assume "i \<in> set [0..<in_features l]"
      then have "i < in_features l" by simp
      then have "r ! i = 0" by (subst r) simp
      then show "r ! i * lin_weight l j i = 0" by simp
    qed
    show ?thesis unfolding e by simp
  qed
  from assms(1) have "rows t' = map (\<lambda>r. map (\<lambda>j. (\<Sum>i \<leftarrow> [0..<in_features l]. r ! i * lin_weight l j i) + lin_bias l j)
                                 [0..<out_features l]) (rows t)"
    by (auto simp: Linear_forward_def split: if_splits)
  also have "\<dots> = map (\<lambda>r. map (lin_bias l) [0..<out_features l]) (rows t)"
    using z by (simp cong: map_cong)
  finally show ?thesis .
qed

lemma Linear_forward_zero_weight:
  assumes "Linear_forward l t = Inr t'" "lin_weight l = (\<lambda>j i. 0)"
  shows "rows t' = map (\<lambda>r. map (lin_bias l) [0..<out_features l]) (rows t)"
  using assms by (auto simp: Linear_forward_def split: if_splits)

lemma child_step_stages:
  "child_step tr (SubMConvBNReLU i out k s g w b) (SparseV x) =
     forward_module tr (SubMConvBNReLU i out k s g w b) (SparseV x)"
  "child_step tr (SparseConvBNReLU i out k s g w b) (SparseV x) =
     forward_module tr (SparseConvBNReLU i out k s g w b) (SparseV x)"
  "child_step tr ToDense (SparseV x) = forward_module tr ToDense (SparseV x)"
  unfolding child_step_def SubMConvBNReLU_unfold SparseConvBNReLU_unfold by simp_all

lemma Net_net_train_succeeds:
  assumes "sat N (SparseS 28 28 1 False) (SparseV x)" "2 \<le> length (indices x)"
    "2 \<le> length (strided_out_indices (stage_cfg 64 64 2 2 1) (14, 14) (indices x))"
  shows "\<exists>v net'. forward_module True (net_net (Net_init P)) (SparseV x) = Inr (v, net')"
proof -
  let ?s1 = "SubMConvBNReLU 1 32 3 1 1 (nw1 P) (nbn1 P)"
  let ?s2 = "SubMConvBNReLU 32 64 3 1 1 (nw2 P) (nbn2 P)"
  let ?s3 = "SparseConvBNReLU 64 64 2 2 1 (nw3 P) (nbn3 P)"
  have x: "spatial_shape x = (28, 28)" "ncols (features x) = 1" "batch_size x = N"
    "batch_ok N (indices x)"
    using assms(1) by simp_all
  have ok1: "conv_shape_ok (stage_cfg 1 32 3 1 1) x"
    using x by (simp add: conv_shape_ok_def stage_cfg_def)
  obtain y1 m1 where f1: "forward_module True ?s1 (SparseV x) = Inr (SparseV y1, m1)"
    using SubMConvBNReLU_train_succeeds[OF ok1 assms(2)] by blast
  from SubMConvBNReLU_result[OF f1]
  have p1: "indices y1 = indices x" "spatial_shape y1 = (28, 28)" "batch_size y1 = N"
    "ncols (features y1) = 32"
    by (auto simp: x)
  have ok2: "conv_shape_ok (stage_cfg 32 64 3 1 1) y1"
    using p1 by (simp add: conv_shape_ok_def stage_cfg_def)
  have l2: "2 \<le> length (indices y1)" using p1(1) assms(2) by simp
  obtain y2 m2 where f2: "forward_module True ?s2 (SparseV y1) = Inr (SparseV y2, m2)"
    using SubMConvBNReLU_train_succeeds[OF ok2 l2] by blast
  from SubMConvBNReLU_result[OF f2]
  have p2: "indices y2 = indices x" "spatial_shape y2 = (28, 28)" "batch_size y2 = N"
    "ncols (features y2) = 64"
    by (auto simp: p1)
  have ok3: "conv_shape_ok (stage_cfg 64 64 2 2 1) y2"
    using p2 by (simp add: conv_shape_ok_def stage_cfg_def)
  have l3: "2 \<le> length (strided_out_indices (stage_cfg 64 64 2 2 1)
      (conv_out_size (fst (spatial_shape y2)) 2 2 ((2 - 1) div 2),
       conv_out_size (snd (spatial_shape y2)) 2 2 ((2 - 1) div 2)) (indices y2))"
    using assms(3) by (simp add: p2 conv_out_size_def)
  obtain y3 m3 where f3: "forward_module True ?s3 (SparseV y2) = Inr (SparseV y3, m3)"
    using SparseConvBNReLU_train_succeeds[OF ok3 l3] by blast
  from SparseConvBNReLU_result[OF f3]
  have p3: "spatial_shape y3 = (14, 14)"
    "indices y3 = strided_out_indices (stage_cfg 64 64 2 2 1) (14, 14) (indices x)"
    "batch_size y3 = N" "length (rows (features y3)) = length (indices y3)"
    "wf_tensor2 (features y3)"
    by (auto simp: p2 conv_out_size_def)
  have "list_all (in_range (nat N) (nat 14) (nat 14)) (indices y3)"
    unfolding p3(2)
    by (rule in_range_of_sat[OF batch_ok_strided[OF x(4)] grid_strided])
  from dense_ok[OF _ p3(4) this p3(5,1,3)]
  obtain d where d: "dense y3 = Inr d"
    by (auto simp: p3(2) strided_out_indices_distinct)
  have "forward_children True [?s1, ?s2, ?s3, ToDense] (SparseV x) =
      Inr (Tensor4V d, [m1, m2, m3, ToDense])"
    by (simp only: forward_children_Cons child_step_stages f1 f2 f3 forward_module.simps(5)
        val.case d sum.case prod.case forward_children.simps(1))
  then show ?thesis by (simp add: Net_init_def)
qed

lemma two_sites_sat: "sat 2 (SparseS 28 28 1 False) (SparseV two_sites)"
  by (simp add: two_sites_def wf_tensor2_def batch_ok_def)

lemma two_sites_strided:
  "strided_out_indices (stage_cfg 64 64 2 2 1) (14, 14) (indices two_sites) = [(0, 1, 2), (1, 2, 3)]"
  by (simp add: strided_out_indices_def out_positions_def kernel_offsets_def stage_cfg_def
      two_sites_def upto.simps Let_def)

lemma Net_forward_train:
  assumes "net_training M"
  shows "Net_forward M mask1 mask2 v =
     (case forward_module True (net_net M) v of
        Inl e \<Rightarrow> Inl e
      | Inr (x, net') \<Rightarrow>
     (case flatten_val x of
        Inl e \<Rightarrow> Inl e
      | Inr x1 \<Rightarrow>
     (case Linear_forward (fc1 M) (Dropout_forward True (dropout1 M) mask1 x1) of
        Inl e \<Rightarrow> Inl e
      | Inr x2 \<Rightarrow>
     (case Linear_forward (fc2 M) (Dropout_forward True (dropout2 M) mask2 (relu2 x2)) of
        Inl e \<Rightarrow> Inl e
      | Inr x3 \<Rightarrow> Inr (log_softmax x3, M\<lparr>net_net := net'\<rparr>)))))"
proof -
  have nt: "net_training M = True" using assms by simp
  show ?thesis unfolding Net_forward_def nt ..
qed

lemma Net_forward_train_parts:
  assumes "Net_forward M mask1 mask2 v = Inr (out, M')" "net_training M"
  obtains x net' x1 x2 x3 where
    "forward_module True (net_net M) v = Inr (x, net')" "flatten_val x = Inr x1"
    "Linear_forward (fc1 M) (Dropout_forward True (dropout1 M) mask1 x1) = Inr x2"
    "Linear_forward (fc2 M) (Dropout_forward True (dropout2 M) mask2 (relu2 x2)) = Inr x3"
    "out = log_softmax x3" "M' = M\<lparr>net_net := net'\<rparr>"
  using assms(1) unfolding Net_forward_train[OF assms(2)]
  by (auto split: sum.splits prod.splits)

lemma Net_forward_all_dropped:
  assumes "Net_forward M mask1 all_drop v = Inr (out, M')" "net_training M"
  shows "list_all (\<lambda>r. r = log_softmax_row (map (lin_bias (fc2 M)) [0..<out_features (fc2 M)]))
           (rows out)"
proof -
  from assms obtain x2 x3 t where
    l1: "Linear_forward (fc1 M) t = Inr x2" and
    l2: "Linear_forward (fc2 M) (Dropout_forward True (dropout2 M) all_drop (relu2 x2)) = Inr x3" and
    o: "out = log_softmax x3"
    by (rule Net_forward_train_parts)
  note p1 = Linear_forward_props[OF l1]
  note p2 = Linear_forward_props[OF l2]
  have n: "ncols x2 = in_features (fc2 M)"
    using p2(1) by (simp add: Dropout_forward_props relu2_props)
  have z: "\<forall>r \<in> set (rows (Dropout_forward True (dropout2 M) all_drop (relu2 x2))).
      r = replicate (in_features (fc2 M)) 0"
    using p1(4) n by (auto simp: Dropout_all_drop relu2_def wf_tensor2_def list_all_iff)
  from Linear_forward_zero_rows[OF l2 z]
  show ?thesis by (simp add: o log_softmax_def list_all_iff)
qed

lemma NetV2_forward_Net:
  assumes "net_quant M = QuantStub" "net_dequant M = DeQuantStub"
  shows "NetV2_forward M mask1 mask2 feats idx N =
         Net_forward M mask1 mask2
           (SparseV \<lparr>features = feats, indices = idx, spatial_shape = (28, 28), batch_size = N\<rparr>)"
proof -
  have u: "M\<lparr>net_net := k, net_quant := QuantStub, net_dequant := DeQuantStub\<rparr> = M\<lparr>net_net := k\<rparr>"
    for k
    using assms by (cases M) simp
  show ?thesis
    unfolding NetV2_forward_def Net_forward_def Let_def
    by (auto simp: assms as_tensor2_def u split: sum.splits prod.splits)
qed

lemma Net_forward_rows:
  assumes "Net_forward ((Net_init P)\<lparr>net_training := tr\<rparr>) mask1 mask2 (SparseV x) = Inr (out, M')"
    "sat N (SparseS 28 28 1 False) (SparseV x)"
  shows "length (rows out) = nat N"
proof -
  let ?M = "(Net_init P)\<lparr>net_training := tr\<rparr>"
  from assms(1) obtain v net' x1 x2 x3 where
    f: "forward_module tr (net_net (Net_init P)) (SparseV x) = Inr (v, net')" and
    fl: "flatten_val v = Inr x1" and
    l1: "Linear_forward (fc1 ?M) (Dropout_forward tr (dropout1 ?M) mask1 x1) = Inr x2" and
    l2: "Linear_forward (fc2 ?M) (Dropout_forward tr (dropout2 ?M) mask2 (relu2 x2)) = Inr x3" and
    o: "out = log_softmax x3"
    unfolding Net_forward_def by (auto split: sum.splits prod.splits)
  obtain ms where ms: "net_net (Net_init P) = SparseSequential ms"
    "shape_children ms (SparseS 28 28 1 False) = Some (DenseS 14 14 64)"
    using Net_net_shape[of P False] by auto
  note ns = net_sound[OF ms(2) assms(2), of tr, folded ms(1)]
  from conjunct1[OF ns] f have "sat N (DenseS 14 14 64) v" by simp
  then obtain d where v: "v = Tensor4V d" and d: "shape4 d = (nat N, 14, 14, 64)" "wf_tensor4 d"
    by (cases v) auto
  from fl v have x1: "x1 = flatten1 d" by (simp add: flatten_val_def)
  have "length (rows x1) = nat N" unfolding x1 by (rule flatten1_props(2)[OF d(2,1)])
  then show ?thesis
    using Linear_forward_props(3)[OF l1] Linear_forward_props(3)[OF l2]
    by (simp add: o log_softmax_props Dropout_forward_props relu2_props)
qed

lemma Net_forward_train_succeeds:
  assumes "sat N (SparseS 28 28 1 False) (SparseV x)" "2 \<le> length (indices x)"
    "2 \<le> length (strided_out_indices (stage_cfg 64 64 2 2 1) (14, 14) (indices x))"
  shows "\<exists>out M'. Net_forward (Net_init P) mask1 mask2 (SparseV x) = Inr (out, M')"
proof -
  let ?M = "Net_init P"
  have tr: "net_training ?M" by (simp add: Net_init_def)
  obtain v net' where f: "forward_module True (net_net ?M) (SparseV x) = Inr (v, net')"
    using Net_net_train_succeeds[OF assms] by blast
  obtain ms where ms: "net_net (Net_init P) = SparseSequential ms"
    "shape_children ms (SparseS 28 28 1 False) = Some (DenseS 14 14 64)"
    using Net_net_shape[of P False] by auto
  note ns = net_sound[OF ms(2) assms(1), of True, folded ms(1)]
  from conjunct1[OF ns] f have "sat N (DenseS 14 14 64) v" by simp
  then obtain d where v: "v = Tensor4V d" and d: "shape4 d = (nat N, 14, 14, 64)" "wf_tensor4 d"
    by (cases v) auto
  note fl = flatten1_props[OF d(2,1)]
  have "ncols (Dropout_forward True (dropout1 ?M) mask1 (flatten1 d)) = in_features (fc1 ?M)"
    using fl(1) by (simp add: Net_init_def Dropout_forward_props)
  then obtain x2 where l1: "Linear_forward (fc1 ?M) (Dropout_forward True (dropout1 ?M) mask1 (flatten1 d)) = Inr x2"
    using Linear_forward_succeeds by blast
  have "ncols (Dropout_forward True (dropout2 ?M) mask2 (relu2 x2)) = in_features (fc2 ?M)"
    using Linear_forward_props(2)[OF l1] by (simp add: relu2_props Net_init_def Dropout_forward_props)
  then obtain x3 where l2: "Linear_forward (fc2 ?M) (Dropout_forward True (dropout2 ?M) mask2 (relu2 x2)) = Inr x3"
    using Linear_forward_succeeds by blast
  show ?thesis
    unfolding Net_forward_train[OF tr]
    by (simp add: f v flatten_val_def l1 l2)
qed

lemma log_softmax_row_nth:
  "i < length r \<Longrightarrow> log_softmax_row r ! i = r ! i - ln (\<Sum>u \<leftarrow> r. exp u)"
  by (simp add: log_softmax_row_def)

lemma sum_nth_replicate: "(\<Sum>i \<leftarrow> [0..<n]. replicate n (c :: real) ! i) = real n * c"
proof -
  have "map (\<lambda>i. replicate n c ! i) [0..<n] = replicate n c"
    using map_nth[of "replicate n c"] by simp
  then show ?thesis by (simp add: sum_list_replicate)
qed

lemma example_no_drop_rows:
  assumes "Net_forward (Net_init example_net_params) mask1 no_drop v = Inr (out, M')"
  shows "list_all (\<lambda>r. r ! 0 \<noteq> r ! 1) (rows out)"
proof -
  let ?M = "Net_init example_net_params"
  have tr: "net_training ?M" by (simp add: Net_init_def)
  from assms tr obtain x2 x3 t where
    l1: "Linear_forward (fc1 ?M) t = Inr x2" and
    l2: "Linear_forward (fc2 ?M) (Dropout_forward True (dropout2 ?M) no_drop (relu2 x2)) = Inr x3" and
    o: "out = log_softmax x3"
    by (rule Net_forward_train_parts)
  have w1: "lin_weight (fc1 ?M) = (\<lambda>j i. 0)" "lin_bias (fc1 ?M) = (\<lambda>j. 1)"
    "out_features (fc1 ?M) = 128"
    by (simp_all add: Net_init_def example_net_params_def)
  have w2: "lin_weight (fc2 ?M) = (\<lambda>j i. if j = 0 then 1 else 0)" "lin_bias (fc2 ?M) = (\<lambda>j. 0)"
    "out_features (fc2 ?M) = 10" "in_features (fc2 ?M) = 128" "dropout2 ?M = 1 / 2"
    by (simp_all add: Net_init_def example_net_params_def)
  have a2: "\<forall>r \<in> set (rows x2). r = replicate 128 1"
    using Linear_forward_zero_weight[OF l1 w1(1)] by (auto simp: w1 map_replicate_trivial)
  have a3: "\<forall>r \<in> set (rows (Dropout_forward True (dropout2 ?M) no_drop (relu2 x2))).
      r = replicate 128 2"
    using a2 by (auto simp: Dropout_no_drop relu2_def w2)
  from l2 have r3: "rows x3 =
      map (\<lambda>r. map (\<lambda>j. (\<Sum>i \<leftarrow> [0..<128]. r ! i * (if j = 0 then 1 else 0)) + 0) [0..<10])
        (rows (Dropout_forward True (dropout2 ?M) no_drop (relu2 x2)))"
    by (auto simp: Linear_forward_def w2 split: if_splits)
  have a4: "r ! 0 = 256 \<and> r ! 1 = 0 \<and> length r = 10" if "r \<in> set (rows x3)" for r
  proof -
    from that r3 a3 have "r = map (\<lambda>j. (\<Sum>i \<leftarrow> [0..<128]. replicate 128 (2 :: real) ! i *
        (if j = 0 then 1 else 0)) + 0) [0..<10]"
      by auto
    then show ?thesis using sum_nth_replicate[of 128 2] by simp
  qed
  have "r ! 0 \<noteq> r ! 1" if "r \<in> set (rows out)" for r
  proof -
    from that o obtain s where s: "s \<in> set (rows x3)" and r: "r = log_softmax_row s"
      by (auto simp: log_softmax_def)
    from a4[OF s] show ?thesis unfolding r by (simp add: log_softmax_row_nth)
  qed
  then show ?thesis by (simp add: list_all_iff)
qed

lemma two_sites_rebuilt:
  "\<lparr>features = features two_sites, indices = indices two_sites, spatial_shape = (28, 28),
    batch_size = 2\<rparr> = two_sites"
  by (simp add: two_sites_def)

lemma Net_init_training: "(Net_init P)\<lparr>net_training := True\<rparr> = Net_init P"
  by (simp add: Net_init_def)

subsection \<open>The composition of forward\<close>

text \<open>
  Claim C7, as amended. \<open>Net.forward\<close> and \<open>NetV2.forward\<close> are a sequential composition
  of convolution stages ending in the densify step, followed by flatten, dropout, a linear
  layer, ReLU, dropout, a second linear layer and \<open>log_softmax\<close> over ten class scores.
  Dropout is applied in training mode only: there a dropped element becomes zero and a
  kept one is scaled by \<open>1 / (1 - p)\<close>, so that when the second dropout drops every
  element the class scores are the bias of the second linear layer; in evaluation mode
  dropout is the identity. \<open>NetV2.forward\<close> on the triple returns what \<open>Net.forward\<close>
  returns on the sparse tensor rebuilt from it. \<open>NetPTQ.forward\<close> has no linear layer and
  no dropout: its stages end in a classifier convolution and the densify step, followed
  directly by flatten and \<open>log_softmax\<close>.
\<close>

theorem C7_forward_composition:
  "(\<exists>stages. net_net (Net_init Pn) = SparseSequential (stages @ [ToDense]) \<and>
             list_all is_fusible stages) \<and>
   list_ex is_linear_child (Net_children Mn) \<and> list_ex is_dropout_child (Net_children Mn) \<and>
   (net_training Mn \<longrightarrow>
      Net_forward Mn mask1 mask2 v =
        (case forward_module True (net_net Mn) v of
           Inl e \<Rightarrow> Inl e
         | Inr (x, net') \<Rightarrow>
        (case flatten_val x of
           Inl e \<Rightarrow> Inl e
         | Inr x1 \<Rightarrow>
        (case Linear_forward (fc1 Mn) (Dropout_forward True (dropout1 Mn) mask1 x1) of
           Inl e \<Rightarrow> Inl e
         | Inr x2 \<Rightarrow>
        (case Linear_forward (fc2 Mn) (Dropout_forward True (dropout2 Mn) mask2 (relu2 x2)) of
           Inl e \<Rightarrow> Inl e
         | Inr x3 \<Rightarrow> Inr (log_softmax x3, Mn\<lparr>net_net := net'\<rparr>)))))) \<and>
   (\<not> net_training Mn \<longrightarrow>
      Net_forward Mn mask1 mask2 v =
        (case forward_module False (net_net Mn) v of
           Inl e \<Rightarrow> Inl e
         | Inr (x, net') \<Rightarrow>
        (case flatten_val x of
           Inl e \<Rightarrow> Inl e
         | Inr x1 \<Rightarrow>
        (case Linear_forward (fc1 Mn) x1 of
           Inl e \<Rightarrow> Inl e
         | Inr x2 \<Rightarrow>
        (case Linear_forward (fc2 Mn) (relu2 x2) of
           Inl e \<Rightarrow> Inl e
         | Inr x3 \<Rightarrow> Inr (log_softmax x3, Mn\<lparr>net_net := net'\<rparr>)))))) \<and>
   (net_quant Mn = QuantStub \<and> net_dequant Mn = DeQuantStub \<longrightarrow>
      NetV2_forward Mn mask1 mask2 feats idx N =
        Net_forward Mn mask1 mask2
          (SparseV \<lparr>features = feats, indices = idx, spatial_shape = (28, 28), batch_size = N\<rparr>)) \<and>
   (i < length (rows t) \<and> j < length (rows t ! i) \<longrightarrow>
      rows (Dropout_forward True p mask1 t) ! i ! j =
        (if mask1 i j then 0 else rows t ! i ! j / (1 - p))) \<and>
   Dropout_forward False p mask1 t = t \<and>
   (net_training Mn \<and> Net_forward Mn mask1 all_drop v = Inr (out0, Mn0) \<longrightarrow>
      list_all (\<lambda>r. r = log_softmax_row (map (lin_bias (fc2 Mn)) [0..<out_features (fc2 Mn)]))
        (rows out0)) \<and>
   (Net_forward ((Net_init Pn)\<lparr>net_training := tr\<rparr>) mask1 mask2 v = Inr (out, Mn') \<longrightarrow>
      ncols out = 10 \<and>
      list_all (\<lambda>r. length r = 10 \<and> (\<Sum>u \<leftarrow> r. exp u) = 1) (rows out)) \<and>
   (\<exists>stages. NetPTQ_net P =
        SparseSequential (stages @
          [SparseConv2d \<lparr>in_channels = 64, out_channels = 10, conv_kernel_size = 4,
                         conv_stride = 4, conv_padding = 0, conv_groups = 1\<rparr> (w6 P) (Some (b6 P)),
           ToDense]) \<and>
      list_all is_fusible stages) \<and>
   \<not> list_ex is_linear_child (NetPTQ_children M) \<and>
   \<not> list_ex is_dropout_child (NetPTQ_children M) \<and>
   NetPTQ_forward ((NetPTQ_init P)\<lparr>ptq_training := tr\<rparr>) feats idx N =
     (case forward_module tr (NetPTQ_net P)
             (SparseV \<lparr>features = feats, indices = idx, spatial_shape = (28, 28), batch_size = N\<rparr>) of
        Inl e \<Rightarrow> Inl e
      | Inr (x, net') \<Rightarrow>
     (case flatten_val x of
        Inl e \<Rightarrow> Inl e
      | Inr x1 \<Rightarrow>
          Inr (log_softmax x1, (NetPTQ_init P)\<lparr>ptq_training := tr, ptq_net := net'\<rparr>)))"
proof -
  have a: "\<exists>stages. net_net (Net_init Pn) = SparseSequential (stages @ [ToDense]) \<and>
      list_all is_fusible stages"
  proof (intro exI conjI)
    show "net_net (Net_init Pn) = SparseSequential
        ([SubMConvBNReLU 1 32 3 1 1 (nw1 Pn) (nbn1 Pn),
          SubMConvBNReLU 32 64 3 1 1 (nw2 Pn) (nbn2 Pn),
          SparseConvBNReLU 64 64 2 2 1 (nw3 Pn) (nbn3 Pn)] @ [ToDense])"
      by (simp add: Net_init_def)
    show "list_all is_fusible
        [SubMConvBNReLU 1 32 3 1 1 (nw1 Pn) (nbn1 Pn),
         SubMConvBNReLU 32 64 3 1 1 (nw2 Pn) (nbn2 Pn),
         SparseConvBNReLU 64 64 2 2 1 (nw3 Pn) (nbn3 Pn)]"
      by (simp add: SubMConvBNReLU_def SparseConvBNReLU_def Let_def)
  qed
  have b: "\<exists>stages. NetPTQ_net P =
        SparseSequential (stages @
          [SparseConv2d \<lparr>in_channels = 64, out_channels = 10, conv_kernel_size = 4,
                         conv_stride = 4, conv_padding = 0, conv_groups = 1\<rparr> (w6 P) (Some (b6 P)),
           ToDense]) \<and>
      list_all is_fusible stages"
  proof (intro exI conjI)
    show "NetPTQ_net P = SparseSequential
        ([SubMConvBNReLU 1 32 3 1 1 (w1 P) (bn1 P),
          SubMConvBNReLU 32 64 3 1 1 (w2 P) (bn2 P),
          SparseConvBNReLU 64 64 2 2 1 (w3 P) (bn3 P),
          SparseConvBNReLU 64 64 2 2 1 (w4 P) (bn4 P),
          SparseConvBNReLU 64 64 3 2 1 (w5 P) (bn5 P)] @
         [SparseConv2d \<lparr>in_channels = 64, out_channels = 10, conv_kernel_size = 4,
                        conv_stride = 4, conv_padding = 0, conv_groups = 1\<rparr> (w6 P) (Some (b6 P)),
          ToDense])"
      by (simp add: NetPTQ_net_def)
    show "list_all is_fusible
        [SubMConvBNReLU 1 32 3 1 1 (w1 P) (bn1 P),
         SubMConvBNReLU 32 64 3 1 1 (w2 P) (bn2 P),
         SparseConvBNReLU 64 64 2 2 1 (w3 P) (bn3 P),
         SparseConvBNReLU 64 64 2 2 1 (w4 P) (bn4 P),
         SparseConvBNReLU 64 64 3 2 1 (w5 P) (bn5 P)]"
      by (simp add: SubMConvBNReLU_def SparseConvBNReLU_def Let_def)
  qed
  have c: "list_ex is_linear_child (Net_children Mn)" "list_ex is_dropout_child (Net_children Mn)"
    "\<not> list_ex is_linear_child (NetPTQ_children M)" "\<not> list_ex is_dropout_child (NetPTQ_children M)"
    by (simp_all add: Net_children_def NetPTQ_children_def)
  have d: "Dropout_forward False p mask1 t = t" by (rule Dropout_forward_props(3))
  have d': "i < length (rows t) \<and> j < length (rows t ! i) \<longrightarrow>
      rows (Dropout_forward True p mask1 t) ! i ! j =
        (if mask1 i j then 0 else rows t ! i ! j / (1 - p))"
    using Dropout_nth by blast
  have e: "\<not> net_training Mn \<longrightarrow>
      Net_forward Mn mask1 mask2 v =
        (case forward_module False (net_net Mn) v of
           Inl e \<Rightarrow> Inl e
         | Inr (x, net') \<Rightarrow>
        (case flatten_val x of
           Inl e \<Rightarrow> Inl e
         | Inr x1 \<Rightarrow>
        (case Linear_forward (fc1 Mn) x1 of
           Inl e \<Rightarrow> Inl e
         | Inr x2 \<Rightarrow>
        (case Linear_forward (fc2 Mn) (relu2 x2) of
           Inl e \<Rightarrow> Inl e
         | Inr x3 \<Rightarrow> Inr (log_softmax x3, Mn\<lparr>net_net := net'\<rparr>)))))"
    using Net_forward_eval by blast
  have e': "net_training Mn \<longrightarrow>
      Net_forward Mn mask1 mask2 v =
        (case forward_module True (net_net Mn) v of
           Inl e \<Rightarrow> Inl e
         | Inr (x, net') \<Rightarrow>
        (case flatten_val x of
           Inl e \<Rightarrow> Inl e
         | Inr x1 \<Rightarrow>
        (case Linear_forward (fc1 Mn) (Dropout_forward True (dropout1 Mn) mask1 x1) of
           Inl e \<Rightarrow> Inl e
         | Inr x2 \<Rightarrow>
        (case Linear_forward (fc2 Mn) (Dropout_forward True (dropout2 Mn) mask2 (relu2 x2)) of
           Inl e \<Rightarrow> Inl e
         | Inr x3 \<Rightarrow> Inr (log_softmax x3, Mn\<lparr>net_net := net'\<rparr>)))))"
    using Net_forward_train by blast
  have v2: "net_quant Mn = QuantStub \<and> net_dequant Mn = DeQuantStub \<longrightarrow>
      NetV2_forward Mn mask1 mask2 feats idx N =
        Net_forward Mn mask1 mask2
          (SparseV \<lparr>features = feats, indices = idx, spatial_shape = (28, 28), batch_size = N\<rparr>)"
    using NetV2_forward_Net by blast
  have ad: "net_training Mn \<and> Net_forward Mn mask1 all_drop v = Inr (out0, Mn0) \<longrightarrow>
      list_all (\<lambda>r. r = log_softmax_row (map (lin_bias (fc2 Mn)) [0..<out_features (fc2 Mn)]))
        (rows out0)"
    using Net_forward_all_dropped by blast
  have f: "Net_forward ((Net_init Pn)\<lparr>net_training := tr\<rparr>) mask1 mask2 v = Inr (out, Mn') \<longrightarrow>
      ncols out = 10 \<and>
      list_all (\<lambda>r. length r = 10 \<and> (\<Sum>u \<leftarrow> r. exp u) = 1) (rows out)"
  proof
    assume g: "Net_forward ((Net_init Pn)\<lparr>net_training := tr\<rparr>) mask1 mask2 v = Inr (out, Mn')"
    have o: "out_features (fc2 ((Net_init Pn)\<lparr>net_training := tr\<rparr>)) = 10"
      by (simp add: Net_init_def)
    from Net_forward_output[OF g] o
    show "ncols out = 10 \<and>
      list_all (\<lambda>r. length r = 10 \<and> (\<Sum>u \<leftarrow> r. exp u) = 1) (rows out)"
      by simp
  qed
  from a c(1,2) e' e v2 d' d ad f b c(3,4)
    NetPTQ_forward_init[where P = P and tr = tr and feats = feats and idx = idx and N = N]
  show ?thesis
    by (intro conjI)
qed

theorem C7_forward_composition_witness:
  "net_training (Net_init example_net_params) \<and>
   net_quant (Net_init example_net_params) = QuantStub \<and>
   net_dequant (Net_init example_net_params) = DeQuantStub \<and>
   (\<exists>out0 M0 outn Mn'.
      Net_forward (Net_init example_net_params) no_drop all_drop (SparseV two_sites) =
        Inr (out0, M0) \<and>
      Net_forward (Net_init example_net_params) no_drop no_drop (SparseV two_sites) =
        Inr (outn, Mn') \<and>
      NetV2_forward (Net_init example_net_params) no_drop no_drop
        (features two_sites) (indices two_sites) 2 = Inr (outn, Mn') \<and>
      out0 \<noteq> outn \<and>
      rows out0 = replicate 2 (log_softmax_row (replicate 10 0)) \<and>
      ncols outn = 10 \<and> length (rows outn) = 2) \<and>
   \<not> net_training ((Net_init example_net_params)\<lparr>net_training := False\<rparr>) \<and>
   (\<exists>out Mn'. Net_forward ((Net_init example_net_params)\<lparr>net_training := False\<rparr>)
                 all_drop all_drop (SparseV one_site) = Inr (out, Mn') \<and>
               ncols out = 10 \<and>
               list_all (\<lambda>r. length r = 10 \<and> (\<Sum>u \<leftarrow> r. exp u) = 1) (rows out)) \<and>
   Net_forward ((Net_init example_net_params)\<lparr>net_training := False\<rparr>)
       all_drop all_drop (SparseV one_site) =
     Net_forward ((Net_init example_net_params)\<lparr>net_training := False\<rparr>)
       no_drop no_drop (SparseV one_site) \<and>
   1 < length (rows (features two_sites)) \<and> 0 < length (rows (features two_sites) ! 1) \<and>
   rows (Dropout_forward True (1 / 2) no_drop (features two_sites)) ! 1 ! 0 = 4"
proof -
  let ?Mt = "Net_init example_net_params"
  let ?Mn = "(Net_init example_net_params)\<lparr>net_training := False\<rparr>"
  note sel4 = conjunct2[THEN conjunct2, THEN conjunct2, THEN conjunct1]
  note sel5 = conjunct2[THEN conjunct2, THEN conjunct2, THEN conjunct2, THEN conjunct1]
  note sel6 = conjunct2[THEN conjunct2, THEN conjunct2, THEN conjunct2, THEN conjunct2,
      THEN conjunct1]
  note sel7 = conjunct2[THEN conjunct2, THEN conjunct2, THEN conjunct2, THEN conjunct2,
      THEN conjunct2, THEN conjunct1]
  note sel9 = conjunct2[THEN conjunct2, THEN conjunct2, THEN conjunct2, THEN conjunct2,
      THEN conjunct2, THEN conjunct2, THEN conjunct2, THEN conjunct1]
  note sel10 = conjunct2[THEN conjunct2, THEN conjunct2, THEN conjunct2, THEN conjunct2,
      THEN conjunct2, THEN conjunct2, THEN conjunct2, THEN conjunct2, THEN conjunct1]
  have tr: "net_training ?Mt" and stubs: "net_quant ?Mt = QuantStub" "net_dequant ?Mt = DeQuantStub"
    by (simp_all add: Net_init_def)
  have l: "2 \<le> length (indices two_sites)"
    "2 \<le> length (strided_out_indices (stage_cfg 64 64 2 2 1) (14, 14) (indices two_sites))"
    unfolding two_sites_strided by (simp_all add: two_sites_def)
  obtain out0 M0 where f0: "Net_forward ?Mt no_drop all_drop (SparseV two_sites) = Inr (out0, M0)"
    using Net_forward_train_succeeds[OF two_sites_sat l] by blast
  obtain outn Mn' where fn: "Net_forward ?Mt no_drop no_drop (SparseV two_sites) = Inr (outn, Mn')"
    using Net_forward_train_succeeds[OF two_sites_sat l] by blast
  have f0': "Net_forward (?Mt\<lparr>net_training := True\<rparr>) no_drop all_drop (SparseV two_sites) =
      Inr (out0, M0)"
    using f0 by (simp only: Net_init_training)
  have fn': "Net_forward (?Mt\<lparr>net_training := True\<rparr>) no_drop no_drop (SparseV two_sites) =
      Inr (outn, Mn')"
    using fn by (simp only: Net_init_training)
  note c7t = C7_forward_composition[where Pn = example_net_params and Mn = ?Mt and tr = True
      and v = "SparseV two_sites" and ?mask1.0 = no_drop and ?mask2.0 = no_drop
      and ?out0.0 = out0 and ?Mn0.0 = M0 and out = outn and Mn' = Mn'
      and feats = "features two_sites" and idx = "indices two_sites" and N = 2
      and P = example_params and M = "NetPTQ_init example_params"
      and p = "1 / 2" and t = "features two_sites" and i = 1 and j = 0]
  have w2: "lin_bias (fc2 ?Mt) = (\<lambda>j. 0)" "out_features (fc2 ?Mt) = 10"
    by (simp_all add: Net_init_def example_net_params_def)
  from sel9[OF c7t, THEN mp, OF conjI[OF tr f0]]
  have la: "list_all (\<lambda>r. r = log_softmax_row (replicate 10 0)) (rows out0)"
    by (simp add: w2 map_replicate_trivial)
  have n0: "length (rows out0) = 2"
    using Net_forward_rows[OF f0' two_sites_sat]
    by simp
  have r0: "rows out0 = replicate 2 (log_softmax_row (replicate 10 0))"
  proof (rule replicate_eqI[OF n0])
    fix y assume "y \<in> set (rows out0)"
    with la show "y = log_softmax_row (replicate 10 0)" by (simp add: list_all_iff)
  qed
  have nn: "length (rows outn) = 2"
    using Net_forward_rows[OF fn' two_sites_sat]
    by simp
  have sh: "ncols outn = 10"
    using sel10[OF c7t, THEN mp, OF fn']
    by (rule conjunct1)
  have ne: "out0 \<noteq> outn"
  proof
    assume "out0 = outn"
    with r0 have "rows outn = replicate 2 (log_softmax_row (replicate 10 0))" by simp
    with example_no_drop_rows[OF fn]
    have "log_softmax_row (replicate 10 (0 :: real)) ! 0 \<noteq> log_softmax_row (replicate 10 0) ! 1"
      by (simp add: list_all_iff)
    then show False by (simp add: log_softmax_row_nth)
  qed
  have v2: "NetV2_forward ?Mt no_drop no_drop (features two_sites) (indices two_sites) 2 =
      Inr (outn, Mn')"
    using sel6[OF c7t, THEN mp, OF conjI[OF stubs]] fn by (simp only: two_sites_rebuilt)
  have training: "\<exists>out0 M0 outn Mn'.
      Net_forward ?Mt no_drop all_drop (SparseV two_sites) = Inr (out0, M0) \<and>
      Net_forward ?Mt no_drop no_drop (SparseV two_sites) = Inr (outn, Mn') \<and>
      NetV2_forward ?Mt no_drop no_drop (features two_sites) (indices two_sites) 2 =
        Inr (outn, Mn') \<and>
      out0 \<noteq> outn \<and>
      rows out0 = replicate 2 (log_softmax_row (replicate 10 0)) \<and>
      ncols outn = 10 \<and> length (rows outn) = 2"
  proof (intro exI conjI)
    show "Net_forward ?Mt no_drop all_drop (SparseV two_sites) = Inr (out0, M0)" by (rule f0)
    show "Net_forward ?Mt no_drop no_drop (SparseV two_sites) = Inr (outn, Mn')" by (rule fn)
    show "NetV2_forward ?Mt no_drop no_drop (features two_sites) (indices two_sites) 2 =
        Inr (outn, Mn')" by (rule v2)
    show "out0 \<noteq> outn" by (rule ne)
    show "rows out0 = replicate 2 (log_softmax_row (replicate 10 0))" by (rule r0)
    show "ncols outn = 10" by (rule sh)
    show "length (rows outn) = 2" by (rule nn)
  qed
  have dh: "1 < length (rows (features two_sites))" "0 < length (rows (features two_sites) ! 1)"
    by (simp_all add: two_sites_def)
  have dp: "rows (Dropout_forward True (1 / 2) no_drop (features two_sites)) ! 1 ! 0 = 4"
    using sel7[OF c7t, THEN mp, OF conjI[OF dh]] by (simp add: no_drop_def two_sites_def)
  have nt: "\<not> net_training ?Mn" by simp
  obtain out Me' where fe: "Net_forward ?Mn all_drop all_drop (SparseV one_site) =
      Inr (out, Me')"
    using Net_forward_succeeds[OF one_site_sat, of example_net_params] by blast
  note c7 = C7_forward_composition[where Pn = example_net_params and Mn = ?Mn and tr = False
      and v = "SparseV one_site" and out = out and Mn' = Me' and P = example_params
      and M = "NetPTQ_init example_params" and p = 0 and t = "features one_site"
      and feats = "features one_site" and idx = "indices one_site" and N = 1]
  note c7a = c7[where ?mask1.0 = all_drop and ?mask2.0 = all_drop]
  note c7f = c7[where ?mask1.0 = no_drop and ?mask2.0 = no_drop]
  from sel10[OF c7a, THEN mp, OF fe]
  have r: "ncols out = 10 \<and>
      list_all (\<lambda>r. length r = 10 \<and> (\<Sum>u \<leftarrow> r. exp u) = 1) (rows out)" .
  note e1 = sel5[OF c7a, THEN mp, OF nt]
  note e2 = sel5[OF c7f, THEN mp, OF nt]
  have ev: "\<exists>out Mn'. Net_forward ?Mn all_drop all_drop (SparseV one_site) = Inr (out, Mn') \<and>
      ncols out = 10 \<and> list_all (\<lambda>r. length r = 10 \<and> (\<Sum>u \<leftarrow> r. exp u) = 1) (rows out)"
    using fe r by (intro exI conjI) auto
  have eq: "Net_forward ?Mn all_drop all_drop (SparseV one_site) =
      Net_forward ?Mn no_drop no_drop (SparseV one_site)"
    unfolding e1 e2 ..
  from tr stubs training nt ev eq dh dp show ?thesis by (intro conjI)
qed

text \<open>
  The claim as stated fails for \<open>NetPTQ\<close>, the network that \<^verbatim>\<open>main\<close> builds: among its
  child modules there is no linear layer and no dropout layer.
\<close>

theorem C7_NetPTQ_counterexample:
  "\<not> list_ex is_linear_child (NetPTQ_children (NetPTQ_init example_params)) \<and>
   \<not> list_ex is_dropout_child (NetPTQ_children (NetPTQ_init example_params)) \<and>
   list_ex is_linear_child (Net_children (Net_init example_net_params)) \<and>
   list_ex is_dropout_child (Net_children (Net_init example_net_params))"
  by (simp add: NetPTQ_children_def Net_children_def)

subsection \<open>The input forms of forward\<close>

lemma list_all_update: "list_all P xs \<Longrightarrow> P v \<Longrightarrow> list_all P (xs[i := v])"
  using set_update_subset_insert[of xs i v] by (auto simp: list_all_iff)

lemma wf_lit_image:
  "list_all (\<lambda>row. length row = 28 \<and> list_all (\<lambda>px. length px = Suc 0) row)
     ((replicate 28 (replicate 28 [0 :: real]))[y := (replicate 28 [0])[x := [v]]])"
proof -
  have "list_all (\<lambda>px. length px = Suc 0) ((replicate 28 [0 :: real])[x := [v]])"
    by (rule list_all_update) (simp_all add: list_all_iff)
  then show ?thesis by (intro list_all_update) (simp_all add: list_all_iff)
qed

lemma wf_two_pixel_batch: "wf_tensor4 two_pixel_batch"
  by (simp add: wf_tensor4_def two_pixel_batch_def wf_lit_image)

lemma two_members_length:
  assumes "distinct xs" "a \<in> set xs" "b \<in> set xs" "a \<noteq> b"
  shows "2 \<le> length xs"
proof -
  have "card {a, b} \<le> card (set xs)" using assms(2,3) by (intro card_mono) auto
  then show ?thesis using assms(1,4) by (simp add: distinct_card)
qed

lemma two_pixel_batch_sites:
  "(0, 3, 4) \<in> set (indices (from_dense two_pixel_batch))"
  "(1, 5, 6) \<in> set (indices (from_dense two_pixel_batch))"
proof -
  have sh: "shape4 two_pixel_batch = (2, 28, 28, 1)" by (simp add: two_pixel_batch_def)
  have "(0, 3, 4) \<in> set (active_sites two_pixel_batch)"
    unfolding set_active_sites[OF sh] by (simp add: two_pixel_batch_def)
  then have "to_coord (0, 3, 4) \<in> to_coord ` set (active_sites two_pixel_batch)"
    by (rule imageI)
  then have "to_coord (0, 3, 4) \<in> set (indices (from_dense two_pixel_batch))"
    unfolding indices_from_dense set_map .
  then show "(0, 3, 4) \<in> set (indices (from_dense two_pixel_batch))" by (simp add: to_coord_def)
  have "(1, 5, 6) \<in> set (active_sites two_pixel_batch)"
    unfolding set_active_sites[OF sh] by (simp add: two_pixel_batch_def)
  then have "to_coord (1, 5, 6) \<in> to_coord ` set (active_sites two_pixel_batch)"
    by (rule imageI)
  then have "to_coord (1, 5, 6) \<in> set (indices (from_dense two_pixel_batch))"
    unfolding indices_from_dense set_map .
  then show "(1, 5, 6) \<in> set (indices (from_dense two_pixel_batch))" by (simp add: to_coord_def)
qed

lemma strided_member:
  assumes "i \<in> set idx" "out \<in> set (out_positions cfg shp i)"
  shows "out \<in> set (strided_out_indices cfg shp idx)"
  using assms by (auto simp: strided_out_indices_def)

lemma two_pixel_batch_lengths:
  "2 \<le> length (indices (from_dense two_pixel_batch))"
  "2 \<le> length (strided_out_indices (stage_cfg 64 64 2 2 1) (14, 14)
          (indices (from_dense two_pixel_batch)))"
proof -
  show "2 \<le> length (indices (from_dense two_pixel_batch))"
    by (rule two_members_length[OF from_dense_distinct two_pixel_batch_sites]) simp
  have a: "(0, 1, 2) \<in> set (out_positions (stage_cfg 64 64 2 2 1) (14, 14) (0, 3, 4))"
    by (simp add: out_positions_def kernel_offsets_def stage_cfg_def upto.simps Let_def)
  have b: "(1, 2, 3) \<in> set (out_positions (stage_cfg 64 64 2 2 1) (14, 14) (1, 5, 6))"
    by (simp add: out_positions_def kernel_offsets_def stage_cfg_def upto.simps Let_def)
  show "2 \<le> length (strided_out_indices (stage_cfg 64 64 2 2 1) (14, 14)
      (indices (from_dense two_pixel_batch)))"
    by (rule two_members_length[OF strided_out_indices_distinct
          strided_member[OF two_pixel_batch_sites(1) a]
          strided_member[OF two_pixel_batch_sites(2) b]]) simp
qed

lemma from_dense_28:
  "shape4 B = (n, 28, 28, c) \<Longrightarrow>
   \<lparr>features = features (from_dense B), indices = indices (from_dense B),
    spatial_shape = (28, 28), batch_size = batch_size (from_dense B)\<rparr> = from_dense B"
  by (simp add: from_dense_def)

lemma dense_to_Net_raises:
  "Net_forward ((Net_init Pn)\<lparr>net_training := tr\<rparr>) mask1 mask2 (Tensor4V B) = Inl AssertionError"
  by (simp add: Net_forward_def Net_init_def SubMConvBNReLU_def Let_def)

lemma NetV2_is_Net:
  assumes "shape4 B = (n, 28, 28, c)" "net_quant Mn = QuantStub" "net_dequant Mn = DeQuantStub"
  shows "NetV2_forward Mn mask1 mask2 (features (from_dense B)) (indices (from_dense B))
           (batch_size (from_dense B)) =
         Net_forward Mn mask1 mask2 (SparseV (from_dense B))"
  unfolding NetV2_forward_Net[OF assms(2,3)] from_dense_28[OF assms(1)] ..

lemma from_dense_sat:
  assumes "wf_tensor4 B" "shape4 B = (n, 28, 28, 1)"
  shows "sat (int n) (SparseS 28 28 1 False) (SparseV (from_dense B))"
  using from_dense_fields[OF assms(2)] from_dense_wf_features[OF assms(1)]
    from_dense_batch_ok[OF assms(2)]
  by simp

lemma both_forms_eval:
  assumes "wf_tensor4 B" "shape4 B = (n, 28, 28, 1)"
  shows "\<exists>out M'.
      NetV2_forward ((Net_init Pn)\<lparr>net_training := False\<rparr>) mask1 mask2
        (features (from_dense B)) (indices (from_dense B)) (batch_size (from_dense B)) =
        Inr (out, M') \<and>
      Net_forward ((Net_init Pn)\<lparr>net_training := False\<rparr>) mask1 mask2 (SparseV (from_dense B)) =
        Inr (out, M') \<and>
      ncols out = 10 \<and> length (rows out) = n"
proof -
  let ?M = "(Net_init Pn)\<lparr>net_training := False\<rparr>"
  note s = from_dense_sat[OF assms]
  obtain out M' where f: "Net_forward ?M mask1 mask2 (SparseV (from_dense B)) = Inr (out, M')"
    using Net_forward_succeeds[OF s] by blast
  have st: "net_quant ?M = QuantStub" "net_dequant ?M = DeQuantStub"
    by (simp_all add: Net_init_def)
  have o: "out_features (fc2 ?M) = 10" by (simp add: Net_init_def)
  have n: "ncols out = 10" using Net_forward_output(1)[OF f] o by simp
  have r: "length (rows out) = n" using Net_forward_rows[OF f s] by simp
  show ?thesis
  proof (intro exI conjI)
    show "NetV2_forward ?M mask1 mask2 (features (from_dense B)) (indices (from_dense B))
        (batch_size (from_dense B)) = Inr (out, M')"
      unfolding NetV2_is_Net[OF assms(2) st] by (rule f)
    show "Net_forward ?M mask1 mask2 (SparseV (from_dense B)) = Inr (out, M')" by (rule f)
    show "ncols out = 10" by (rule n)
    show "length (rows out) = n" by (rule r)
  qed
qed

text \<open>
  Claim C5, as amended. No \<open>forward\<close> of the sparse networks accepts a dense batch: a call
  of \<open>NetPTQ.forward\<close> or \<open>NetV2.forward\<close> with a dense batch as its only argument raises
  \<open>TypeError\<close>, and \<open>Net.forward\<close> given a dense batch raises in the container. The two
  input forms are a sparse tensor that the caller built (\<open>Net.forward\<close>) and the triple of
  features, indices and batch size (\<open>NetV2.forward\<close>, \<open>NetPTQ.forward\<close>), from which the
  sparse tensor is rebuilt with the spatial shape \<open>[28, 28]\<close>. For a dense batch \<open>B\<close> of
  28 x 28 images that tensor is \<open>from_dense B\<close> itself, so with the same weights, mode and
  dropout draws \<open>NetV2.forward\<close> on the triple returns exactly what \<open>Net.forward\<close>
  returns on \<open>from_dense B\<close>, and \<open>NetPTQ.forward\<close> on the triple runs its stages on
  \<open>from_dense B\<close>. In evaluation mode both forms do return an output, the same one, of
  shape \<open>[n, 10]\<close>, for every well-formed batch of \<open>n\<close> single-channel images. The
  conversion from the dense batch is done by the caller (\<open>model_step\<close>, shared by train,
  test and calibrate).
\<close>

theorem C5_forward_input_forms:
  "NetPTQ_call M (DenseArgs B) = Inl TypeError \<and>
   NetV2_call Mn mask1 mask2 (DenseArgs B) = Inl TypeError \<and>
   Net_forward ((Net_init Pn)\<lparr>net_training := tr\<rparr>) mask1 mask2 (Tensor4V B) = Inl AssertionError \<and>
   (shape4 B = (n, 28, 28, c) \<longrightarrow>
      \<lparr>features = features (from_dense B), indices = indices (from_dense B),
       spatial_shape = (28, 28), batch_size = batch_size (from_dense B)\<rparr> = from_dense B) \<and>
   (shape4 B = (n, 28, 28, c) \<and> net_quant Mn = QuantStub \<and> net_dequant Mn = DeQuantStub \<longrightarrow>
      NetV2_call Mn mask1 mask2
        (TripleArgs (features (from_dense B)) (indices (from_dense B)) (batch_size (from_dense B))) =
        Net_forward Mn mask1 mask2 (SparseV (from_dense B)) \<and>
      NetV2_forward Mn mask1 mask2 (features (from_dense B)) (indices (from_dense B))
        (batch_size (from_dense B)) =
        Net_forward Mn mask1 mask2 (SparseV (from_dense B))) \<and>
   (wf_tensor4 B \<and> shape4 B = (n, 28, 28, 1) \<longrightarrow>
      (\<exists>out M'.
         NetV2_forward ((Net_init Pn)\<lparr>net_training := False\<rparr>) mask1 mask2
           (features (from_dense B)) (indices (from_dense B)) (batch_size (from_dense B)) =
           Inr (out, M') \<and>
         Net_forward ((Net_init Pn)\<lparr>net_training := False\<rparr>) mask1 mask2
           (SparseV (from_dense B)) = Inr (out, M') \<and>
         ncols out = 10 \<and> length (rows out) = n)) \<and>
   (shape4 B = (n, 28, 28, c) \<longrightarrow>
      NetPTQ_forward ((NetPTQ_init P)\<lparr>ptq_training := tr\<rparr>)
        (features (from_dense B)) (indices (from_dense B)) (batch_size (from_dense B)) =
        (case forward_module tr (NetPTQ_net P) (SparseV (from_dense B)) of
           Inl e \<Rightarrow> Inl e
         | Inr (x, net') \<Rightarrow>
        (case flatten_val x of
           Inl e \<Rightarrow> Inl e
         | Inr x1 \<Rightarrow>
             Inr (log_softmax x1, (NetPTQ_init P)\<lparr>ptq_training := tr, ptq_net := net'\<rparr>)))) \<and>
   model_step True M data =
     (case reshape_28_28_1 data of
        Inl e \<Rightarrow> Inl e
      | Inr d \<Rightarrow>
          NetPTQ_forward M (features (from_dense d)) (indices (from_dense d))
            (batch_size (from_dense d)))"
proof (intro conjI impI)
  show "NetPTQ_call M (DenseArgs B) = Inl TypeError" by (simp add: NetPTQ_call_def)
  show "NetV2_call Mn mask1 mask2 (DenseArgs B) = Inl TypeError" by (simp add: NetV2_call_def)
  show "Net_forward ((Net_init Pn)\<lparr>net_training := tr\<rparr>) mask1 mask2 (Tensor4V B) =
      Inl AssertionError"
    by (rule dense_to_Net_raises)
  show "model_step True M data =
     (case reshape_28_28_1 data of
        Inl e \<Rightarrow> Inl e
      | Inr d \<Rightarrow>
          NetPTQ_forward M (features (from_dense d)) (indices (from_dense d))
            (batch_size (from_dense d)))"
    by (simp add: model_step_def NetPTQ_call_def Let_def split: sum.splits)
next
  assume "shape4 B = (n, 28, 28, c)"
  then show "\<lparr>features = features (from_dense B), indices = indices (from_dense B),
       spatial_shape = (28, 28), batch_size = batch_size (from_dense B)\<rparr> = from_dense B"
    by (rule from_dense_28)
next
  assume a: "shape4 B = (n, 28, 28, c) \<and> net_quant Mn = QuantStub \<and> net_dequant Mn = DeQuantStub"
  then show e: "NetV2_forward Mn mask1 mask2 (features (from_dense B)) (indices (from_dense B))
        (batch_size (from_dense B)) =
      Net_forward Mn mask1 mask2 (SparseV (from_dense B))"
    using NetV2_is_Net by blast
  then show "NetV2_call Mn mask1 mask2
        (TripleArgs (features (from_dense B)) (indices (from_dense B)) (batch_size (from_dense B))) =
        Net_forward Mn mask1 mask2 (SparseV (from_dense B))"
    by (simp add: NetV2_call_def)
next
  assume "wf_tensor4 B \<and> shape4 B = (n, 28, 28, 1)"
  then have "wf_tensor4 B" "shape4 B = (n, 28, 28, 1)" by simp_all
  then show "\<exists>out M'.
         NetV2_forward ((Net_init Pn)\<lparr>net_training := False\<rparr>) mask1 mask2
           (features (from_dense B)) (indices (from_dense B)) (batch_size (from_dense B)) =
           Inr (out, M') \<and>
         Net_forward ((Net_init Pn)\<lparr>net_training := False\<rparr>) mask1 mask2
           (SparseV (from_dense B)) = Inr (out, M') \<and>
         ncols out = 10 \<and> length (rows out) = n"
    by (rule both_forms_eval)
next
  assume s: "shape4 B = (n, 28, 28, c)"
  show "NetPTQ_forward ((NetPTQ_init P)\<lparr>ptq_training := tr\<rparr>)
        (features (from_dense B)) (indices (from_dense B)) (batch_size (from_dense B)) =
        (case forward_module tr (NetPTQ_net P) (SparseV (from_dense B)) of
           Inl e \<Rightarrow> Inl e
         | Inr (x, net') \<Rightarrow>
        (case flatten_val x of
           Inl e \<Rightarrow> Inl e
         | Inr x1 \<Rightarrow>
             Inr (log_softmax x1, (NetPTQ_init P)\<lparr>ptq_training := tr, ptq_net := net'\<rparr>)))"
    unfolding NetPTQ_forward_init from_dense_28[OF s] ..
qed

theorem C5_forward_input_forms_witness:
  "wf_tensor4 one_pixel_image \<and> shape4 one_pixel_image = (1, 28, 28, 1) \<and>
   net_quant ((Net_init example_net_params)\<lparr>net_training := False\<rparr>) = QuantStub \<and>
   net_dequant ((Net_init example_net_params)\<lparr>net_training := False\<rparr>) = DeQuantStub \<and>
   (\<exists>out M'.
      NetV2_forward ((Net_init example_net_params)\<lparr>net_training := False\<rparr>) no_drop no_drop
        (features (from_dense one_pixel_image)) (indices (from_dense one_pixel_image))
        (batch_size (from_dense one_pixel_image)) = Inr (out, M') \<and>
      NetV2_call ((Net_init example_net_params)\<lparr>net_training := False\<rparr>) no_drop no_drop
        (TripleArgs (features (from_dense one_pixel_image)) (indices (from_dense one_pixel_image))
           (batch_size (from_dense one_pixel_image))) = Inr (out, M') \<and>
      Net_forward ((Net_init example_net_params)\<lparr>net_training := False\<rparr>) no_drop no_drop
        (SparseV (from_dense one_pixel_image)) = Inr (out, M') \<and>
      ncols out = 10 \<and> length (rows out) = 1) \<and>
   \<lparr>features = features (from_dense one_pixel_image), indices = indices (from_dense one_pixel_image),
    spatial_shape = (28, 28), batch_size = batch_size (from_dense one_pixel_image)\<rparr> =
     from_dense one_pixel_image \<and>
   (\<exists>out M'.
      NetPTQ_forward ((NetPTQ_init example_params)\<lparr>ptq_training := False\<rparr>)
        (features (from_dense one_pixel_image)) (indices (from_dense one_pixel_image))
        (batch_size (from_dense one_pixel_image)) = Inr (out, M') \<and>
      (case forward_module False (NetPTQ_net example_params) (SparseV (from_dense one_pixel_image)) of
         Inl e \<Rightarrow> Inl e
       | Inr (x, net') \<Rightarrow>
      (case flatten_val x of
         Inl e \<Rightarrow> Inl e
       | Inr x1 \<Rightarrow>
           Inr (log_softmax x1,
                (NetPTQ_init example_params)\<lparr>ptq_training := False, ptq_net := net'\<rparr>))) =
        Inr (out, M')) \<and>
   shape4 two_pixel_batch = (2, 28, 28, 1) \<and>
   net_training (Net_init example_net_params) \<and>
   net_quant (Net_init example_net_params) = QuantStub \<and>
   net_dequant (Net_init example_net_params) = DeQuantStub \<and>
   (\<exists>out M'.
      NetV2_forward (Net_init example_net_params) no_drop all_drop
        (features (from_dense two_pixel_batch)) (indices (from_dense two_pixel_batch))
        (batch_size (from_dense two_pixel_batch)) = Inr (out, M') \<and>
      Net_forward (Net_init example_net_params) no_drop all_drop
        (SparseV (from_dense two_pixel_batch)) = Inr (out, M') \<and>
      length (rows out) = 2)"
proof -
  let ?Me = "(Net_init example_net_params)\<lparr>net_training := False\<rparr>"
  let ?Mt = "Net_init example_net_params"
  let ?B = one_pixel_image
  let ?B2 = two_pixel_batch
  have h: "shape4 ?B = (1, 28, 28, 1)" "net_quant ?Me = QuantStub" "net_dequant ?Me = DeQuantStub"
    by (simp_all add: one_pixel_image_def Net_init_def)
  note wf = wf_one_pixel_image
  note c5 = C5_forward_input_forms[where B = ?B and n = 1 and c = 1
      and Mn = ?Me and ?mask1.0 = no_drop and ?mask2.0 = no_drop
      and M = "NetPTQ_init example_params" and P = example_params
      and Pn = example_net_params and tr = False and data = ?B]
  note sel4 = conjunct2[THEN conjunct2, THEN conjunct2, THEN conjunct1]
  note sel5 = conjunct2[THEN conjunct2, THEN conjunct2, THEN conjunct2, THEN conjunct1]
  note sel6 = conjunct2[THEN conjunct2, THEN conjunct2, THEN conjunct2, THEN conjunct2,
      THEN conjunct1]
  note sel7 = conjunct2[THEN conjunct2, THEN conjunct2, THEN conjunct2, THEN conjunct2,
      THEN conjunct2, THEN conjunct1]
  note r1 = sel4[OF c5, THEN mp, OF h(1)]
  note r2 = sel5[OF c5, THEN mp, OF conjI[OF h(1) conjI[OF h(2) h(3)]]]
  from sel6[OF c5, THEN mp, OF conjI[OF wf h(1)]]
  obtain out M' where
    o: "NetV2_forward ?Me no_drop no_drop (features (from_dense ?B)) (indices (from_dense ?B))
          (batch_size (from_dense ?B)) = Inr (out, M')"
       "Net_forward ?Me no_drop no_drop (SparseV (from_dense ?B)) = Inr (out, M')"
       "ncols out = 10" "length (rows out) = 1"
    by blast
  have oc: "NetV2_call ?Me no_drop no_drop
      (TripleArgs (features (from_dense ?B)) (indices (from_dense ?B)) (batch_size (from_dense ?B))) =
      Inr (out, M')"
    unfolding conjunct1[OF r2] by (rule o(2))
  have forms: "\<exists>out M'.
      NetV2_forward ?Me no_drop no_drop (features (from_dense ?B)) (indices (from_dense ?B))
        (batch_size (from_dense ?B)) = Inr (out, M') \<and>
      NetV2_call ?Me no_drop no_drop
        (TripleArgs (features (from_dense ?B)) (indices (from_dense ?B))
           (batch_size (from_dense ?B))) = Inr (out, M') \<and>
      Net_forward ?Me no_drop no_drop (SparseV (from_dense ?B)) = Inr (out, M') \<and>
      ncols out = 10 \<and> length (rows out) = 1"
  proof (intro exI conjI)
    show "NetV2_forward ?Me no_drop no_drop (features (from_dense ?B)) (indices (from_dense ?B))
        (batch_size (from_dense ?B)) = Inr (out, M')" by (rule o(1))
    show "NetV2_call ?Me no_drop no_drop
        (TripleArgs (features (from_dense ?B)) (indices (from_dense ?B))
           (batch_size (from_dense ?B))) = Inr (out, M')" by (rule oc)
    show "Net_forward ?Me no_drop no_drop (SparseV (from_dense ?B)) = Inr (out, M')" by (rule o(2))
    show "ncols out = 10" by (rule o(3))
    show "length (rows out) = 1" by (rule o(4))
  qed
  note f = from_dense_fields[OF h(1)]
  obtain outp Mp where p: "NetPTQ_forward (eval_mode (NetPTQ_init example_params))
      (features (from_dense ?B)) (indices (from_dense ?B)) (int 1) = Inr (outp, Mp)"
    using conjunct2[OF NetPTQ_init_shape[OF from_dense_wf_features[OF wf] f(3,4)
        from_dense_batch_ok[OF h(1)], where P = example_params and tr = False]]
    by blast
  have p': "NetPTQ_forward ((NetPTQ_init example_params)\<lparr>ptq_training := False\<rparr>)
      (features (from_dense ?B)) (indices (from_dense ?B)) (batch_size (from_dense ?B)) =
      Inr (outp, Mp)"
    using p by (simp add: eval_mode_def f(2))
  note r3 = sel7[OF c5, THEN mp, OF h(1)]
  have ptq: "\<exists>out M'.
      NetPTQ_forward ((NetPTQ_init example_params)\<lparr>ptq_training := False\<rparr>)
        (features (from_dense ?B)) (indices (from_dense ?B))
        (batch_size (from_dense ?B)) = Inr (out, M') \<and>
      (case forward_module False (NetPTQ_net example_params) (SparseV (from_dense ?B)) of
         Inl e \<Rightarrow> Inl e
       | Inr (x, net') \<Rightarrow>
      (case flatten_val x of
         Inl e \<Rightarrow> Inl e
       | Inr x1 \<Rightarrow>
           Inr (log_softmax x1,
                (NetPTQ_init example_params)\<lparr>ptq_training := False, ptq_net := net'\<rparr>))) =
        Inr (out, M')"
  proof (intro exI conjI)
    show "NetPTQ_forward ((NetPTQ_init example_params)\<lparr>ptq_training := False\<rparr>)
        (features (from_dense ?B)) (indices (from_dense ?B))
        (batch_size (from_dense ?B)) = Inr (outp, Mp)" by (rule p')
    show "(case forward_module False (NetPTQ_net example_params) (SparseV (from_dense ?B)) of
         Inl e \<Rightarrow> Inl e
       | Inr (x, net') \<Rightarrow>
      (case flatten_val x of
         Inl e \<Rightarrow> Inl e
       | Inr x1 \<Rightarrow>
           Inr (log_softmax x1,
                (NetPTQ_init example_params)\<lparr>ptq_training := False, ptq_net := net'\<rparr>))) =
        Inr (outp, Mp)"
      unfolding r3[symmetric] by (rule p')
  qed
  have ht: "shape4 ?B2 = (2, 28, 28, 1)" "net_training ?Mt" "net_quant ?Mt = QuantStub"
    "net_dequant ?Mt = DeQuantStub"
    by (simp_all add: two_pixel_batch_def Net_init_def)
  note st = from_dense_sat[OF wf_two_pixel_batch ht(1)]
  obtain outt Mt' where
    ft: "Net_forward ?Mt no_drop all_drop (SparseV (from_dense ?B2)) = Inr (outt, Mt')"
    using Net_forward_train_succeeds[OF st two_pixel_batch_lengths] by blast
  have ft': "Net_forward (?Mt\<lparr>net_training := True\<rparr>) no_drop all_drop (SparseV (from_dense ?B2)) =
      Inr (outt, Mt')"
    using ft by (simp only: Net_init_training)
  have nt: "length (rows outt) = 2" using Net_forward_rows[OF ft' st] by simp
  note c5t = C5_forward_input_forms[where B = ?B2 and n = 2 and c = 1
      and Mn = ?Mt and ?mask1.0 = no_drop and ?mask2.0 = all_drop
      and M = "NetPTQ_init example_params" and P = example_params
      and Pn = example_net_params and tr = True and data = ?B2]
  note r4 = sel5[OF c5t, THEN mp, OF conjI[OF ht(1) conjI[OF ht(3) ht(4)]], THEN conjunct2]
  have train: "\<exists>out M'.
      NetV2_forward ?Mt no_drop all_drop (features (from_dense ?B2)) (indices (from_dense ?B2))
        (batch_size (from_dense ?B2)) = Inr (out, M') \<and>
      Net_forward ?Mt no_drop all_drop (SparseV (from_dense ?B2)) = Inr (out, M') \<and>
      length (rows out) = 2"
  proof (intro exI conjI)
    show "NetV2_forward ?Mt no_drop all_drop (features (from_dense ?B2)) (indices (from_dense ?B2))
        (batch_size (from_dense ?B2)) = Inr (outt, Mt')"
      unfolding r4 by (rule ft)
    show "Net_forward ?Mt no_drop all_drop (SparseV (from_dense ?B2)) = Inr (outt, Mt')"
      by (rule ft)
    show "length (rows outt) = 2" by (rule nt)
  qed
  from wf h forms r1 ptq ht train show ?thesis by (intro conjI)
qed

text \<open>
  The claim as stated fails: passed a dense batch, \<open>NetPTQ.forward\<close>, \<open>NetV2.forward\<close> and
  \<open>Net.forward\<close> raise instead of building the sparse tensor.
\<close>

theorem C5_dense_batch_counterexample:
  "NetPTQ_call (NetPTQ_init example_params) (DenseArgs one_pixel_image) = Inl TypeError \<and>
   NetV2_call (Net_init example_net_params) no_drop no_drop (DenseArgs one_pixel_image) =
     Inl TypeError \<and>
   Net_forward (Net_init example_net_params) no_drop no_drop
     (Tensor4V one_pixel_image) = Inl AssertionError"
  by (simp add: NetPTQ_call_def NetV2_call_def Net_forward_def Net_init_def SubMConvBNReLU_def Let_def)

end
